theory Spec2Isabelle
  imports Main
begin

section \<open>Text and JSON values\<close>

text \<open>
  Python strings are sequences of Unicode code points, so a string is a list of code
  points (natural numbers) and \<open>length\<close> counts what \<open>len\<close> counts. ASCII literals
  are written through \<open>u\<close>; Russian literals of the source are written as code-point
  lists with a transliteration beside them.
\<close>

type_synonym uchar = nat
type_synonym ustring = "uchar list"

definition u :: "string \<Rightarrow> ustring" where
  "u s = map of_char s"

text \<open>
  Values held by the memory dictionary and exchanged with the model: what \<open>json.load\<close>
  yields. A dictionary is an association list in insertion order, read by its first
  binding of a key. Numbers are Python ints; floats are outside the model.
\<close>

datatype json =
    JNull
  | JBool bool
  | JInt int
  | JStr ustring
  | JList "json list"
  | JObj "(ustring \<times> json) list"

datatype py_error =
    IndexError | KeyError | TypeError | AttributeError | ValueError | FileNotFoundError
  | NonStringKey

text \<open>Truth value of a Python object, as tested by \<open>if x:\<close> and \<open>not x\<close>.\<close>

fun truthy :: "json \<Rightarrow> bool" where
  "truthy JNull = False"
| "truthy (JBool b) = b"
| "truthy (JInt n) = (n \<noteq> 0)"
| "truthy (JStr s) = (s \<noteq> [])"
| "truthy (JList xs) = (xs \<noteq> [])"
| "truthy (JObj d) = (d \<noteq> [])"

text \<open>
  Python's \<open>==\<close> on these values: \<open>True == 1\<close>, lists compare element by element,
  dictionaries compare as mappings, whatever the order of their keys.
\<close>

fun py_eq :: "json \<Rightarrow> json \<Rightarrow> bool"
and py_eq_list :: "json list \<Rightarrow> json list \<Rightarrow> bool"
and py_sub_dict :: "(ustring \<times> json) list \<Rightarrow> (ustring \<times> json) list \<Rightarrow> bool"
and py_lookup_eq :: "json \<Rightarrow> ustring \<Rightarrow> (ustring \<times> json) list \<Rightarrow> bool"
where
  "py_eq JNull JNull = True"
| "py_eq (JBool a) (JBool b) = (a = b)"
| "py_eq (JBool a) (JInt b) = ((if a then 1 else 0) = b)"
| "py_eq (JInt a) (JBool b) = (a = (if b then 1 else 0))"
| "py_eq (JInt a) (JInt b) = (a = b)"
| "py_eq (JStr a) (JStr b) = (a = b)"
| "py_eq (JList xs) (JList ys) = py_eq_list xs ys"
| "py_eq (JObj a) (JObj b) = (length a = length b \<and> py_sub_dict a b)"
| "py_eq _ _ = False"
| "py_eq_list [] [] = True"
| "py_eq_list (x # xs) (y # ys) = (py_eq x y \<and> py_eq_list xs ys)"
| "py_eq_list _ _ = False"
| "py_sub_dict [] b = True"
| "py_sub_dict ((k, v) # a) b = (py_lookup_eq v k b \<and> py_sub_dict a b)"
| "py_lookup_eq v k [] = False"
| "py_lookup_eq v k ((k', w) # b) = (if k = k' then py_eq v w else py_lookup_eq v k b)"

subsection \<open>Dictionary and subscript operations\<close>

text \<open>\<open>d[k] = v\<close> on a dict: an existing key keeps its place, a new key goes last.\<close>

fun dict_set :: "ustring \<Rightarrow> json \<Rightarrow> (ustring \<times> json) list \<Rightarrow> (ustring \<times> json) list" where
  "dict_set k v [] = [(k, v)]"
| "dict_set k v ((k', w) # d) = (if k = k' then (k, v) # d else (k', w) # dict_set k v d)"

text \<open>\<open>x[k]\<close> with a string key: only a dict can be subscripted by a string.\<close>

fun getitem :: "json \<Rightarrow> ustring \<Rightarrow> py_error + json" where
  "getitem (JObj d) k = (case map_of d k of None \<Rightarrow> Inl KeyError | Some v \<Rightarrow> Inr v)"
| "getitem _ k = Inl TypeError"

text \<open>\<open>x[k] = v\<close> with a string key.\<close>

fun setitem :: "json \<Rightarrow> ustring \<Rightarrow> json \<Rightarrow> py_error + json" where
  "setitem (JObj d) k v = Inr (JObj (dict_set k v d))"
| "setitem _ k v = Inl TypeError"

text \<open>\<open>x.get(k)\<close>: a method of dicts only; a missing key gives \<open>None\<close>.\<close>

fun get_method :: "json \<Rightarrow> ustring \<Rightarrow> py_error + json" where
  "get_method (JObj d) k = (case map_of d k of None \<Rightarrow> Inr JNull | Some v \<Rightarrow> Inr v)"
| "get_method _ k = Inl AttributeError"

subsection \<open>String operations\<close>

text \<open>\<open>sub in s\<close> for strings.\<close>

fun starts_with :: "ustring \<Rightarrow> ustring \<Rightarrow> bool" where
  "starts_with [] s = True"
| "starts_with (p # ps) [] = False"
| "starts_with (p # ps) (c # cs) = (p = c \<and> starts_with ps cs)"

fun contains :: "ustring \<Rightarrow> ustring \<Rightarrow> bool" where
  "contains sub [] = (sub = [])"
| "contains sub (c # cs) = (starts_with sub (c # cs) \<or> contains sub cs)"

text \<open>\<open>s.find(c)\<close> and \<open>s.rfind(c)\<close> for a one-character \<open>c\<close>: an index, or -1.\<close>

fun py_find :: "uchar \<Rightarrow> ustring \<Rightarrow> int" where
  "py_find c [] = - 1"
| "py_find c (x # xs) =
     (if x = c then 0 else (let r = py_find c xs in if r < 0 then - 1 else r + 1))"

definition py_rfind :: "uchar \<Rightarrow> ustring \<Rightarrow> int" where
  "py_rfind c s = (let r = py_find c (rev s) in if r < 0 then - 1 else int (length s) - 1 - r)"

text \<open>\<open>s[a:b]\<close> for \<open>0 \<le> a\<close> and \<open>0 \<le> b\<close>.\<close>

definition slice :: "ustring \<Rightarrow> int \<Rightarrow> int \<Rightarrow> ustring" where
  "slice s a b = take (nat b - nat a) (drop (nat a) s)"

text \<open>\<open>s.split()\<close>: the maximal runs of non-whitespace; \<open>cur\<close> is the run being read.\<close>

fun split_ws :: "(uchar \<Rightarrow> bool) \<Rightarrow> ustring \<Rightarrow> ustring \<Rightarrow> ustring list" where
  "split_ws sp cur [] = (if cur = [] then [] else [cur])"
| "split_ws sp cur (c # cs) =
     (if sp c then (if cur = [] then split_ws sp [] cs else cur # split_ws sp [] cs)
      else split_ws sp (cur @ [c]) cs)"

definition strip_ws :: "(uchar \<Rightarrow> bool) \<Rightarrow> ustring \<Rightarrow> ustring" where
  "strip_ws sp s = rev (dropWhile sp (rev (dropWhile sp s)))"

text \<open>\<open>sep.join(parts)\<close> on a list of strings.\<close>

fun join :: "ustring \<Rightarrow> ustring list \<Rightarrow> ustring" where
  "join sep [] = []"
| "join sep [x] = x"
| "join sep (x # y # ys) = x @ sep @ join sep (y # ys)"

section \<open>The runtime the program runs on\<close>

text \<open>
  What the program takes from outside its own source: the Unicode tables behind
  \<open>str.isspace\<close>, \<open>str.isupper\<close>, \<open>str.isalpha\<close>, \<open>str.lower\<close> and
  \<open>str.capitalize\<close>; how the \<open>re\<close> module matches a literal and the class
  \<open>[\<dots>A-Za-z]\<close> of the name patterns under \<open>re.IGNORECASE\<close>; \<open>int\<close> on a string
  and \<open>json.loads\<close> (\<open>None\<close> when they raise \<open>ValueError\<close>); how a value is
  formatted inside an f-string; the successive readings of \<open>datetime.now().isoformat()\<close>;
  the path of the memory file; and the Ollama server. Every theorem below holds for
  every such runtime.

  A request to the server is identified by what its prompt is built from. The outcome of
  one HTTP exchange as \<open>chat_with_model\<close> sees it is either a
  \<open>requests.exceptions.RequestException\<close> (no connection, timeout, error status) or
  the content string read from the reply. The \<open>n\<close>-th call may answer differently from
  the one before, so the server is a function of the call number too.
\<close>

datatype request =
    FactsRequest ustring ustring ustring
  | ProfileRequest ustring "ustring list" "json list"
  | ChatRequest ustring "(ustring \<times> ustring) list" ustring

datatype outcome = RequestException | Content ustring

record runtime =
  py_isspace :: "uchar \<Rightarrow> bool"
  py_isupper :: "uchar \<Rightarrow> bool"
  py_isalpha :: "uchar \<Rightarrow> bool"
  py_lower :: "ustring \<Rightarrow> ustring"
  py_capitalize :: "ustring \<Rightarrow> ustring"
  re_literal :: "uchar \<Rightarrow> uchar \<Rightarrow> bool"
  re_letter :: "uchar \<Rightarrow> bool"
  py_int :: "ustring \<Rightarrow> int option"
  json_loads :: "ustring \<Rightarrow> json option"
  py_format :: "json \<Rightarrow> ustring"
  now_iso :: "nat \<Rightarrow> ustring"
  MEMORY_FILE :: ustring
  post :: "nat \<Rightarrow> request \<Rightarrow> outcome"

text \<open>\<open>s.isalpha()\<close>: at least one character, and all of them letters.\<close>

definition str_isalpha :: "runtime \<Rightarrow> ustring \<Rightarrow> bool" where
  "str_isalpha rt s = (s \<noteq> [] \<and> list_all (py_isalpha rt) s)"

section \<open>The agent's state\<close>

text \<open>
  One record for what \<open>PersonalAgent\<close> owns and touches: the memory dictionary of its
  \<open>MemorySystem\<close>, the session day, the files on disk by path, the exchange log of
  its \<open>ConversationLogger\<close> (the lines appended to \<open>current_file\<close>), the conversation
  history as (role, content) pairs, and how many times the clock and the server have
  been used. A file written by \<open>json.dump\<close> holds the value dumped, which is what
  \<open>json.load\<close> reads back from it; any other content is \<open>Garbage\<close>, on which
  \<open>json.load\<close> raises. Failures of the disk itself are not modelled.

  A method that can raise returns the exception or its result, together with the state
  it leaves behind: what was mutated before a \<open>raise\<close> stays mutated.
\<close>

datatype disk_file = Garbage | Document json

record exchange =
  timestamp :: ustring
  user :: ustring
  assistant :: ustring
  extracted_facts :: "ustring list"

record agent =
  model :: ustring
  memory :: json
  current_session :: ustring
  files :: "ustring \<Rightarrow> disk_file option"
  current_file :: "ustring option"
  log_lines :: "exchange list"
  conversation_history :: "(ustring \<times> ustring) list"
  clock :: nat
  calls :: nat

section \<open>Ollama API\<close>

text \<open>
  \<open>chat_with_model\<close>: a \<open>RequestException\<close> is caught, reported on the console and
  turned into the empty string; otherwise the content of the reply is returned.
\<close>

definition chat_with_model :: "runtime \<Rightarrow> request \<Rightarrow> agent \<Rightarrow> ustring \<times> agent" where
  "chat_with_model rt req s =
     (case post rt (calls s) req of
        RequestException \<Rightarrow> ([], s\<lparr>calls := Suc (calls s)\<rparr>)
      | Content c \<Rightarrow> (c, s\<lparr>calls := Suc (calls s)\<rparr>))"

text \<open>The stop words of \<open>extract_facts_from_conversation\<close>:
  privet, poka, da, net, spasibo, kak, chto, gde, kogda.\<close>

definition facts_stop_words :: "ustring list" where
  "facts_stop_words =
     [[1087, 1088, 1080, 1074, 1077, 1090], [1087, 1086, 1082, 1072], [1076, 1072],
      [1085, 1077, 1090], [1089, 1087, 1072, 1089, 1080, 1073, 1086], [1082, 1072, 1082],
      [1095, 1090, 1086], [1075, 1076, 1077], [1082, 1086, 1075, 1076, 1072]]"

text \<open>The fact text "Pol'zovatelya zovut " (the user is called), before the name.\<close>

definition user_is_called :: ustring where
  "user_is_called =
     [1055, 1086, 1083, 1100, 1079, 1086, 1074, 1072, 1090, 1077, 1083, 1103, 32,
      1079, 1086, 1074, 1091, 1090, 32]"

text \<open>
  The test of \<open>extract_facts_from_conversation\<close> on the first word: it starts with an
  upper-case letter, is all letters and has at least two characters.
\<close>

definition looks_like_name :: "runtime \<Rightarrow> ustring \<Rightarrow> bool" where
  "looks_like_name rt w =
     (case w of [] \<Rightarrow> False
      | c # cs \<Rightarrow> py_isupper rt c \<and> str_isalpha rt w \<and> 2 \<le> length w)"

text \<open>The comprehension \<open>[f for f in facts if f and isinstance(f, str)]\<close>.\<close>

fun nonempty_strings :: "json list \<Rightarrow> ustring list" where
  "nonempty_strings [] = []"
| "nonempty_strings (JStr s # xs) = (if s = [] then nonempty_strings xs else s # nonempty_strings xs)"
| "nonempty_strings (x # xs) = nonempty_strings xs"

text \<open>
  The same comprehension over whatever \<open>json.loads\<close> returned: iterating a dict gives
  its keys, iterating a string its characters, anything else is not iterable.
\<close>

fun facts_of_json :: "json \<Rightarrow> py_error + ustring list" where
  "facts_of_json (JList xs) = Inr (nonempty_strings xs)"
| "facts_of_json (JObj d) = Inr (filter (\<lambda>k. k \<noteq> []) (map fst d))"
| "facts_of_json (JStr t) = Inr (map (\<lambda>c. [c]) t)"
| "facts_of_json x = Inl TypeError"

text \<open>
  The body of the \<open>try\<close> block: \<open>Inl\<close> when it raises, \<open>Inr None\<close> when it falls
  through the \<open>if\<close>, \<open>Inr (Some facts)\<close> when it returns. 91 and 93 are the brackets.
\<close>

definition parse_facts_try :: "runtime \<Rightarrow> ustring \<Rightarrow> py_error + ustring list option" where
  "parse_facts_try rt response =
     (let json_start = py_find 91 response;
          json_end = py_rfind 93 response + 1
      in if json_start \<ge> 0 \<and> json_end > json_start then
           (case json_loads rt (slice response json_start json_end) of
              None \<Rightarrow> Inl ValueError
            | Some facts \<Rightarrow>
                (case facts_of_json facts of Inl e \<Rightarrow> Inl e | Inr fs \<Rightarrow> Inr (Some fs)))
         else Inr None)"

text \<open>The \<open>try\<close> with its bare \<open>except: pass\<close> and the final \<open>return []\<close>.\<close>

definition parse_facts :: "runtime \<Rightarrow> ustring \<Rightarrow> ustring list" where
  "parse_facts rt response =
     (case parse_facts_try rt response of Inr (Some fs) \<Rightarrow> fs | _ \<Rightarrow> [])"

definition extract_facts_from_conversation ::
  "runtime \<Rightarrow> ustring \<Rightarrow> ustring \<Rightarrow> ustring \<Rightarrow> agent \<Rightarrow> ustring list \<times> agent" where
  "extract_facts_from_conversation rt mdl user_message memory_context s =
     (let words = split_ws (py_isspace rt) [] (strip_ws (py_isspace rt) user_message);
          first_word = (case words of [] \<Rightarrow> [] | w # ws \<Rightarrow> w)
      in if length words \<le> 2 \<and> looks_like_name rt first_word
            \<and> py_lower rt first_word \<notin> set facts_stop_words
         then ([user_is_called @ first_word], s)
         else (case chat_with_model rt (FactsRequest mdl memory_context user_message) s of
                 (response, s') \<Rightarrow> (parse_facts rt response, s')))"

section \<open>Exceptions and state\<close>

type_synonym 'a action = "agent \<Rightarrow> (py_error + 'a) \<times> agent"

definition returns :: "'a \<Rightarrow> 'a action" where
  "returns x s = (Inr x, s)"

definition raises :: "py_error \<Rightarrow> 'a action" where
  "raises e s = (Inl e, s)"

definition lift :: "py_error + 'a \<Rightarrow> 'a action" where
  "lift r s = (r, s)"

text \<open>One statement after another: an exception in the first skips the second.\<close>

definition and_then :: "'a action \<Rightarrow> ('a \<Rightarrow> 'b action) \<Rightarrow> 'b action" where
  "and_then m f s = (case m s of (Inl e, s') \<Rightarrow> (Inl e, s') | (Inr x, s') \<Rightarrow> f x s')"

text \<open>The same for expressions that read no state.\<close>

definition ebind :: "py_error + 'a \<Rightarrow> ('a \<Rightarrow> py_error + 'b) \<Rightarrow> py_error + 'b" where
  "ebind r f = (case r of Inl e \<Rightarrow> Inl e | Inr x \<Rightarrow> f x)"

fun emap :: "('a \<Rightarrow> py_error + 'b) \<Rightarrow> 'a list \<Rightarrow> py_error + 'b list" where
  "emap f [] = Inr []"
| "emap f (x # xs) = ebind (f x) (\<lambda>y. ebind (emap f xs) (\<lambda>ys. Inr (y # ys)))"

section \<open>MemorySystem\<close>

definition empty_memory :: "ustring \<Rightarrow> json" where
  "empty_memory now =
     JObj [(u ''user_profile'',
              JObj [(u ''name'', JNull), (u ''nickname'', JNull), (u ''age'', JNull),
                    (u ''location'', JNull), (u ''occupation'', JNull),
                    (u ''interests'', JList []), (u ''goals'', JList []),
                    (u ''preferences'', JObj [])]),
           (u ''facts'', JList []),
           (u ''conversations_summary'', JList []),
           (u ''important_dates'', JObj []),
           (u ''relationships'', JObj []),
           (u ''habits'', JList []),
           (u ''created_at'', JStr now),
           (u ''updated_at'', JNull)]"

text \<open>\<open>_load_memory\<close>: the memory file if it exists and can be read, else an empty memory.\<close>

definition load_memory :: "runtime \<Rightarrow> agent \<Rightarrow> json \<times> agent" where
  "load_memory rt s =
     (case files s (MEMORY_FILE rt) of
        Some (Document m) \<Rightarrow> (m, s)
      | Some Garbage \<Rightarrow> (empty_memory (now_iso rt (clock s)), s\<lparr>clock := Suc (clock s)\<rparr>)
      | None \<Rightarrow> (empty_memory (now_iso rt (clock s)), s\<lparr>clock := Suc (clock s)\<rparr>))"

text \<open>\<open>_save_memory\<close>: stamp \<open>updated_at\<close>, then dump the memory to the memory file.\<close>

definition save_memory :: "runtime \<Rightarrow> unit action" where
  "save_memory rt s =
     (case setitem (memory s) (u ''updated_at'') (JStr (now_iso rt (clock s))) of
        Inl e \<Rightarrow> (Inl e, s\<lparr>clock := Suc (clock s)\<rparr>)
      | Inr m \<Rightarrow>
          (Inr (), s\<lparr>memory := m, files := (files s)(MEMORY_FILE rt \<mapsto> Document m),
                     clock := Suc (clock s)\<rparr>))"

text \<open>\<open>self.memory[key]\<close>, read from the current state.\<close>

definition memory_item :: "ustring \<Rightarrow> json action" where
  "memory_item key s = (getitem (memory s) key, s)"

text \<open>
  \<open>add_fact\<close>: the entry is built first (reading the clock), then appended to
  \<open>self.memory['facts']\<close>, which must be a list to have \<open>append\<close>.
\<close>

definition add_fact :: "runtime \<Rightarrow> ustring \<Rightarrow> ustring \<Rightarrow> json action" where
  "add_fact rt fact_text category s =
     (let fact_entry = JObj [(u ''fact'', JStr fact_text), (u ''category'', JStr category),
                             (u ''added_at'', JStr (now_iso rt (clock s))),
                             (u ''session'', JStr (current_session s))];
          s1 = s\<lparr>clock := Suc (clock s)\<rparr>
      in case getitem (memory s1) (u ''facts'') of
           Inl e \<Rightarrow> (Inl e, s1)
         | Inr (JList xs) \<Rightarrow>
             (case setitem (memory s1) (u ''facts'') (JList (xs @ [fact_entry])) of
                Inl e \<Rightarrow> (Inl e, s1)
              | Inr m \<Rightarrow> and_then (save_memory rt) (\<lambda>_. returns fact_entry) (s1\<lparr>memory := m\<rparr>))
         | Inr other \<Rightarrow> (Inl AttributeError, s1))"

text \<open>
  \<open>field in x\<close> for a string \<open>field\<close>: a key of a dict, an element of a list, a
  substring of a string; nothing else is a container.
\<close>

fun py_in :: "ustring \<Rightarrow> json \<Rightarrow> py_error + bool" where
  "py_in field (JObj d) = Inr (field \<in> set (map fst d))"
| "py_in field (JList xs) = Inr (list_ex (\<lambda>x. py_eq x (JStr field)) xs)"
| "py_in field (JStr t) = Inr (contains field t)"
| "py_in field other = Inl TypeError"

text \<open>
  \<open>update_profile\<close>: the assignment \<open>self.memory['user_profile'][field] = value\<close>
  changes the profile object in place, so everyone holding the profile sees it.
\<close>

definition update_profile :: "runtime \<Rightarrow> ustring \<Rightarrow> json \<Rightarrow> bool action" where
  "update_profile rt field v =
     and_then (memory_item (u ''user_profile'')) (\<lambda>profile.
       case py_in field profile of
         Inl e \<Rightarrow> raises e
       | Inr False \<Rightarrow> returns False
       | Inr True \<Rightarrow>
           (case setitem profile field v of
              Inl e \<Rightarrow> raises e
            | Inr profile' \<Rightarrow>
                and_then (\<lambda>s. case setitem (memory s) (u ''user_profile'') profile' of
                                 Inl e \<Rightarrow> (Inl e, s)
                               | Inr m \<Rightarrow> (Inr (), s\<lparr>memory := m\<rparr>))
                  (\<lambda>_. and_then (save_memory rt) (\<lambda>_. returns True))))"

subsection \<open>The context for the prompt\<close>

text \<open>The sentinel "PAMYAT' PUSTAYA: Ya eshchyo nichego ne znayu o pol'zovatele. Eto pervyi
  razgovor." (the memory is empty: I know nothing about the user yet, this is the first
  conversation).\<close>

definition memory_is_empty :: ustring where
  "memory_is_empty =
     [1055, 1040, 1052, 1071, 1058, 1068, 32, 1055, 1059, 1057, 1058, 1040, 1071, 58, 32,
      1071, 32, 1077, 1097, 1105, 32, 1085, 1080, 1095, 1077, 1075, 1086, 32, 1085, 1077,
      32, 1079, 1085, 1072, 1102, 32, 1086, 32, 1087, 1086, 1083, 1100, 1079, 1086, 1074,
      1072, 1090, 1077, 1083, 1077, 46, 32, 1069, 1090, 1086, 32, 1087, 1077, 1088, 1074,
      1099, 1081, 32, 1088, 1072, 1079, 1075, 1086, 1074, 1086, 1088, 46]"

text \<open>The section labels, in the order of the source: "Imya pol'zovatelya: ",
  "Prozvishche: ", "Vozrast: ", "Mestopolozhenie: ", "Rod zanyatii: ", "Interesy: ",
  "Tseli: ", "Predpochteniya: ", "Blizkie lyudi: ", "Vazhnye daty: ", "Privychki: ",
  "Chto ya znayu o pol'zovatele:" and a line feed.\<close>

definition label_name :: ustring where
  "label_name = [1048, 1084, 1103, 32, 1087, 1086, 1083, 1100, 1079, 1086, 1074, 1072, 1090,
                 1077, 1083, 1103, 58, 32]"

definition label_nickname :: ustring where
  "label_nickname = [1055, 1088, 1086, 1079, 1074, 1080, 1097, 1077, 58, 32]"

definition label_age :: ustring where
  "label_age = [1042, 1086, 1079, 1088, 1072, 1089, 1090, 58, 32]"

definition label_location :: ustring where
  "label_location = [1052, 1077, 1089, 1090, 1086, 1087, 1086, 1083, 1086, 1078, 1077, 1085,
                     1080, 1077, 58, 32]"

definition label_occupation :: ustring where
  "label_occupation = [1056, 1086, 1076, 32, 1079, 1072, 1085, 1103, 1090, 1080, 1081, 58, 32]"

definition label_interests :: ustring where
  "label_interests = [1048, 1085, 1090, 1077, 1088, 1077, 1089, 1099, 58, 32]"

definition label_goals :: ustring where
  "label_goals = [1062, 1077, 1083, 1080, 58, 32]"

definition label_preferences :: ustring where
  "label_preferences = [1055, 1088, 1077, 1076, 1087, 1086, 1095, 1090, 1077, 1085, 1080,
                        1103, 58, 32]"

definition label_relationships :: ustring where
  "label_relationships = [1041, 1083, 1080, 1079, 1082, 1080, 1077, 32, 1083, 1102, 1076,
                          1080, 58, 32]"

definition label_dates :: ustring where
  "label_dates = [1042, 1072, 1078, 1085, 1099, 1077, 32, 1076, 1072, 1090, 1099, 58, 32]"

definition label_habits :: ustring where
  "label_habits = [1055, 1088, 1080, 1074, 1099, 1095, 1082, 1080, 58, 32]"

definition label_facts :: ustring where
  "label_facts = [1063, 1090, 1086, 32, 1103, 32, 1079, 1085, 1072, 1102, 32, 1086, 32, 1087,
                  1086, 1083, 1100, 1079, 1086, 1074, 1072, 1090, 1077, 1083, 1077, 58, 10]"

text \<open>\<open>', '.join(x)\<close>: \<open>x\<close> must be iterable and yield strings; a dict yields its keys,
  a string its characters.\<close>

fun as_string :: "json \<Rightarrow> py_error + ustring" where
  "as_string (JStr s) = Inr s"
| "as_string other = Inl TypeError"

fun py_join :: "ustring \<Rightarrow> json \<Rightarrow> py_error + ustring" where
  "py_join sep (JList xs) = ebind (emap as_string xs) (\<lambda>parts. Inr (join sep parts))"
| "py_join sep (JObj d) = Inr (join sep (map fst d))"
| "py_join sep (JStr t) = Inr (join sep (map (\<lambda>c. [c]) t))"
| "py_join sep other = Inl TypeError"

text \<open>\<open>x.items()\<close>: a method of dicts only.\<close>

fun items :: "json \<Rightarrow> py_error + (ustring \<times> json) list" where
  "items (JObj d) = Inr d"
| "items other = Inl AttributeError"

text \<open>\<open>x[-10:]\<close> followed by iteration: the last ten elements of a list, the last ten
  characters of a string; a dict or a number cannot be sliced.\<close>

fun last_ten :: "json \<Rightarrow> py_error + json list" where
  "last_ten (JList xs) = Inr (drop (length xs - 10) xs)"
| "last_ten (JStr t) = Inr (map (\<lambda>c. JStr [c]) (drop (length t - 10) t))"
| "last_ten other = Inl TypeError"

text \<open>
  The two variables of \<open>get_memory_context\<close>, \<open>context_parts\<close> and \<open>has_any_info\<close>,
  and one step for each \<open>if\<close> of its body.
\<close>

type_synonym rendering = "ustring list \<times> bool"

definition append_part :: "ustring \<Rightarrow> rendering \<Rightarrow> rendering" where
  "append_part part c = (fst c @ [part], True)"

definition scalar_section :: "runtime \<Rightarrow> json \<Rightarrow> ustring \<Rightarrow> ustring \<Rightarrow> rendering \<Rightarrow> py_error + rendering" where
  "scalar_section rt profile key label c =
     ebind (getitem profile key) (\<lambda>v.
       if truthy v then Inr (append_part (label @ py_format rt v) c) else Inr c)"

definition list_section :: "json \<Rightarrow> ustring \<Rightarrow> ustring \<Rightarrow> rendering \<Rightarrow> py_error + rendering" where
  "list_section holder key label c =
     ebind (getitem holder key) (\<lambda>v.
       if truthy v then ebind (py_join (u '', '') v) (\<lambda>joined. Inr (append_part (label @ joined) c))
       else Inr c)"

definition preferences_section :: "runtime \<Rightarrow> json \<Rightarrow> rendering \<Rightarrow> py_error + rendering" where
  "preferences_section rt profile c =
     ebind (getitem profile (u ''preferences'')) (\<lambda>v.
       if truthy v then
         ebind (items v) (\<lambda>kvs.
           Inr (append_part
                  (label_preferences
                   @ join (u '', '') (map (\<lambda>(k, w). k @ u '': '' @ py_format rt w) kvs)) c))
       else Inr c)"

definition relationships_section :: "runtime \<Rightarrow> json \<Rightarrow> rendering \<Rightarrow> py_error + rendering" where
  "relationships_section rt mem c =
     ebind (getitem mem (u ''relationships'')) (\<lambda>v.
       if truthy v then
         ebind (items v) (\<lambda>kvs.
           ebind (emap (\<lambda>(name, info).
                          ebind (getitem info (u ''relation'')) (\<lambda>r.
                            Inr (name @ u '' ('' @ py_format rt r @ u '')''))) kvs) (\<lambda>rels.
             Inr (append_part (label_relationships @ join (u '', '') rels) c)))
       else Inr c)"

definition dates_section :: "runtime \<Rightarrow> json \<Rightarrow> rendering \<Rightarrow> py_error + rendering" where
  "dates_section rt mem c =
     ebind (getitem mem (u ''important_dates'')) (\<lambda>v.
       if truthy v then
         ebind (items v) (\<lambda>kvs.
           ebind (emap (\<lambda>(name, info).
                          ebind (getitem info (u ''date'')) (\<lambda>d.
                            Inr (name @ u '': '' @ py_format rt d))) kvs) (\<lambda>dates.
             Inr (append_part (label_dates @ join (u '', '') dates) c)))
       else Inr c)"

definition facts_section :: "runtime \<Rightarrow> json \<Rightarrow> rendering \<Rightarrow> py_error + rendering" where
  "facts_section rt mem c =
     ebind (getitem mem (u ''facts'')) (\<lambda>v.
       if truthy v then
         ebind (last_ten v) (\<lambda>recent_facts.
           ebind (emap (\<lambda>f. getitem f (u ''fact'')) recent_facts) (\<lambda>facts_list.
             Inr (append_part
                    (label_facts
                     @ join [10] (map (\<lambda>f. u ''- '' @ py_format rt f) facts_list)) c)))
       else Inr c)"

definition get_memory_context :: "runtime \<Rightarrow> json \<Rightarrow> py_error + ustring" where
  "get_memory_context rt mem =
     ebind (getitem mem (u ''user_profile'')) (\<lambda>profile.
     ebind (scalar_section rt profile (u ''name'') label_name ([], False)) (\<lambda>c1.
     ebind (scalar_section rt profile (u ''nickname'') label_nickname c1) (\<lambda>c2.
     ebind (scalar_section rt profile (u ''age'') label_age c2) (\<lambda>c3.
     ebind (scalar_section rt profile (u ''location'') label_location c3) (\<lambda>c4.
     ebind (scalar_section rt profile (u ''occupation'') label_occupation c4) (\<lambda>c5.
     ebind (list_section profile (u ''interests'') label_interests c5) (\<lambda>c6.
     ebind (list_section profile (u ''goals'') label_goals c6) (\<lambda>c7.
     ebind (preferences_section rt profile c7) (\<lambda>c8.
     ebind (relationships_section rt mem c8) (\<lambda>c9.
     ebind (dates_section rt mem c9) (\<lambda>c10.
     ebind (list_section mem (u ''habits'') label_habits c10) (\<lambda>c11.
     ebind (facts_section rt mem c11) (\<lambda>c12.
       if \<not> snd c12 then Inr memory_is_empty
       else Inr (join [10, 10] (fst c12)))))))))))))))"

subsection \<open>Export and import\<close>

definition export_memory :: "ustring \<Rightarrow> unit action" where
  "export_memory filepath s =
     (Inr (), s\<lparr>files := (files s)(filepath \<mapsto> Document (memory s))\<rparr>)"

text \<open>\<open>d.update(data)\<close> for two dicts: each binding of \<open>data\<close> is assigned in turn.\<close>

definition dict_update :: "(ustring \<times> json) list \<Rightarrow> (ustring \<times> json) list \<Rightarrow> (ustring \<times> json) list" where
  "dict_update d data = foldl (\<lambda>acc (k, v). dict_set k v acc) d data"

text \<open>
  \<open>d.update(data)\<close> for a list: each element is read as a key and a value. A list of
  two elements gives them as they are; a string of two characters gives the two
  characters; a dict of two bindings gives its two keys. Anything else that can be
  iterated has the wrong length, and a number, a boolean or \<open>None\<close> cannot be iterated.
  The key must be hashable, which a list and a dict are not.

  A key that is a number, a boolean or \<open>None\<close> is accepted by Python. The dict then has
  a key that is not a string, and such dicts are not among the values of this theory:
  \<open>NonStringKey\<close> is no exception of Python, it marks this one place where the program
  goes on and the theory does not follow it.
\<close>

fun update_pair :: "json \<Rightarrow> py_error + ustring \<times> json" where
  "update_pair (JList xs) =
     (case xs of
        [k, v] \<Rightarrow>
          (case k of
             JStr key \<Rightarrow> Inr (key, v)
           | JList ys \<Rightarrow> Inl TypeError
           | JObj d \<Rightarrow> Inl TypeError
           | other \<Rightarrow> Inl NonStringKey)
      | other \<Rightarrow> Inl ValueError)"
| "update_pair (JStr t) =
     (case t of [a, b] \<Rightarrow> Inr ([a], JStr [b]) | other \<Rightarrow> Inl ValueError)"
| "update_pair (JObj d) =
     (case d of [(a, x), (b, y)] \<Rightarrow> Inr (a, JStr b) | other \<Rightarrow> Inl ValueError)"
| "update_pair other = Inl TypeError"

text \<open>The elements are assigned in turn; what was assigned before an element that
  raises stays assigned.\<close>

fun update_seq :: "(ustring \<times> json) list \<Rightarrow> json list \<Rightarrow> py_error option \<times> (ustring \<times> json) list" where
  "update_seq d [] = (None, d)"
| "update_seq d (x # xs) =
     (case update_pair x of
        Inl e \<Rightarrow> (Some e, d)
      | Inr (k, v) \<Rightarrow> update_seq (dict_set k v d) xs)"

text \<open>
  \<open>import_memory\<close>. The file is read before \<open>self.memory.update\<close> is looked up,
  which only a dict has. A file written by \<open>export_memory\<close> from a memory dictionary
  holds an object; \<open>update\<close> also takes a list of pairs, and a string, whose characters
  it would read as pairs, when it is empty. Nothing is saved when \<open>update\<close> raises.
\<close>

definition import_memory :: "runtime \<Rightarrow> ustring \<Rightarrow> unit action" where
  "import_memory rt filepath s =
     (case files s filepath of
        None \<Rightarrow> (Inl FileNotFoundError, s)
      | Some Garbage \<Rightarrow> (Inl ValueError, s)
      | Some (Document data) \<Rightarrow>
          (case memory s of
             JObj d \<Rightarrow>
               (case data of
                  JObj kvs \<Rightarrow> save_memory rt (s\<lparr>memory := JObj (dict_update d kvs)\<rparr>)
                | JList pairs \<Rightarrow>
                    (case update_seq d pairs of
                       (None, d') \<Rightarrow> save_memory rt (s\<lparr>memory := JObj d'\<rparr>)
                     | (Some e, d') \<Rightarrow> (Inl e, s\<lparr>memory := JObj d'\<rparr>))
                | JStr t \<Rightarrow> (if t = [] then save_memory rt s else (Inl ValueError, s))
                | other \<Rightarrow> (Inl TypeError, s))
           | other \<Rightarrow> (Inl AttributeError, s)))"

section \<open>ConversationLogger\<close>

definition log_exchange :: "runtime \<Rightarrow> ustring \<Rightarrow> ustring \<Rightarrow> ustring list \<Rightarrow> unit action" where
  "log_exchange rt user_message assistant_response facts s =
     (case current_file s of
        None \<Rightarrow> (Inr (), s)
      | Some path \<Rightarrow>
          (Inr (), s\<lparr>log_lines := log_lines s
                        @ [\<lparr>timestamp = now_iso rt (clock s), user = user_message,
                            assistant = assistant_response, extracted_facts = facts\<rparr>],
                      clock := Suc (clock s)\<rparr>))"

section \<open>Updating the profile from facts\<close>

text \<open>The conversion of a string-valued age: \<open>None\<close> stands for the \<open>continue\<close>.\<close>

definition coerce_age :: "runtime \<Rightarrow> ustring \<Rightarrow> json \<Rightarrow> json option" where
  "coerce_age rt field v =
     (case v of
        JStr t \<Rightarrow> (if field = u ''age''
                   then (case py_int rt t of None \<Rightarrow> None | Some n \<Rightarrow> Some (JInt n))
                   else Some v)
      | other \<Rightarrow> Some v)"

text \<open>
  The loop over \<open>profile_updates.items()\<close>, with its variable \<open>updated\<close>.
  \<open>current_profile\<close> is the profile object itself, so each round reads what the rounds
  before it wrote.
\<close>

fun merge_updates :: "runtime \<Rightarrow> (ustring \<times> json) list \<Rightarrow> bool \<Rightarrow> bool action" where
  "merge_updates rt [] updated = returns updated"
| "merge_updates rt ((field, v) # rest) updated =
     and_then (memory_item (u ''user_profile'')) (\<lambda>current_profile.
       case (if v = JNull then Inr False else py_in field current_profile) of
         Inl e \<Rightarrow> raises e
       | Inr False \<Rightarrow> merge_updates rt rest updated
       | Inr True \<Rightarrow>
           (case coerce_age rt field v of
              None \<Rightarrow> merge_updates rt rest updated
            | Some v' \<Rightarrow>
                and_then (lift (getitem current_profile field)) (\<lambda>cur.
                  if cur = JNull \<or> \<not> py_eq cur v'
                  then and_then (update_profile rt field v') (\<lambda>_. merge_updates rt rest True)
                  else merge_updates rt rest updated)))"

text \<open>
  The body of the \<open>try\<close> block of \<open>update_profile_from_facts\<close>: \<open>Some updated\<close> when
  it returns, \<open>None\<close> when it falls through the \<open>if\<close>. 123 and 125 are the braces.
\<close>

definition profile_updates_try :: "runtime \<Rightarrow> ustring \<Rightarrow> bool option action" where
  "profile_updates_try rt response =
     (let json_start = py_find 123 response;
          json_end = py_rfind 125 response + 1
      in if json_start \<ge> 0 \<and> json_end > json_start then
           (case json_loads rt (slice response json_start json_end) of
              None \<Rightarrow> raises ValueError
            | Some profile_updates \<Rightarrow>
                and_then (lift (items profile_updates)) (\<lambda>kvs.
                  and_then (merge_updates rt kvs False) (\<lambda>updated. returns (Some updated))))
         else returns None)"

definition update_profile_from_facts :: "runtime \<Rightarrow> ustring list \<Rightarrow> bool action" where
  "update_profile_from_facts rt facts =
     (if facts = [] then returns False
      else
        and_then (memory_item (u ''user_profile'')) (\<lambda>current_profile.
        and_then (lift (emap (get_method current_profile)
                          [u ''name'', u ''nickname'', u ''age'', u ''location'',
                           u ''occupation''])) (\<lambda>shown.
        and_then (\<lambda>s. case chat_with_model rt (ProfileRequest (model s) facts shown) s of
                         (response, s') \<Rightarrow> (Inr response, s')) (\<lambda>response.
          (\<lambda>s. case profile_updates_try rt response s of
                  (Inr (Some updated), s') \<Rightarrow> (Inr updated, s')
                | (Inr None, s') \<Rightarrow> (Inr False, s')
                | (Inl e, s') \<Rightarrow> (Inr False, s'))))))"

section \<open>The name patterns\<close>

text \<open>
  The regular expressions of \<open>_extract_name_directly\<close> are built from literal
  characters, \<open>\s\<close>, the letter class, \<open>+\<close> and \<open>*\<close> on one of these, one capturing
  group, concatenation and alternation.
\<close>

datatype atom = Lit uchar | Space | Letter

datatype rx =
    Eps
  | One atom
  | Many1 atom
  | Many0 atom
  | Group rx
  | Cat rx rx
  | Alt rx rx

fun atom_ok :: "runtime \<Rightarrow> atom \<Rightarrow> uchar \<Rightarrow> bool" where
  "atom_ok rt (Lit p) c = re_literal rt p c"
| "atom_ok rt Space c = py_isspace rt c"
| "atom_ok rt Letter c = re_letter rt c"

text \<open>
  Matching at the start of \<open>s\<close>, as the backtracking matcher does it: all the ways the
  expression can match, in the order in which they are tried (greedy repetition first,
  the left alternative first), each with the text of group 1 so far and the rest of the
  string.
\<close>

fun rx_match :: "runtime \<Rightarrow> rx \<Rightarrow> ustring \<Rightarrow> ustring option \<Rightarrow> (ustring option \<times> ustring) list" where
  "rx_match rt Eps s g = [(g, s)]"
| "rx_match rt (One a) s g =
     (case s of [] \<Rightarrow> [] | c # cs \<Rightarrow> if atom_ok rt a c then [(g, cs)] else [])"
| "rx_match rt (Many1 a) s g =
     map (\<lambda>k. (g, drop k s)) (rev [1 ..< Suc (length (takeWhile (atom_ok rt a) s))])"
| "rx_match rt (Many0 a) s g =
     map (\<lambda>k. (g, drop k s)) (rev [0 ..< Suc (length (takeWhile (atom_ok rt a) s))])"
| "rx_match rt (Group r) s g =
     map (\<lambda>(g', rest). (Some (take (length s - length rest) s), rest)) (rx_match rt r s g)"
| "rx_match rt (Cat r1 r2) s g =
     concat (map (\<lambda>(g', rest). rx_match rt r2 rest g') (rx_match rt r1 s g))"
| "rx_match rt (Alt r1 r2) s g = rx_match rt r1 s g @ rx_match rt r2 s g"

text \<open>\<open>re.search\<close>: the first way to match at the leftmost position that has one;
  the result is \<open>match.group(1)\<close>, or \<open>None\<close> when there is no match.\<close>

fun re_search :: "runtime \<Rightarrow> rx \<Rightarrow> ustring \<Rightarrow> ustring option option" where
  "re_search rt r [] = (case rx_match rt r [] None of [] \<Rightarrow> None | (g, rest) # later \<Rightarrow> Some g)"
| "re_search rt r (c # cs) =
     (case rx_match rt r (c # cs) None of [] \<Rightarrow> re_search rt r cs | (g, rest) # later \<Rightarrow> Some g)"

fun lit :: "ustring \<Rightarrow> rx" where
  "lit [] = Eps"
| "lit (c # cs) = Cat (One (Lit c)) (lit cs)"

fun cat_all :: "rx list \<Rightarrow> rx" where
  "cat_all [] = Eps"
| "cat_all (r # rs) = Cat r (cat_all rs)"

text \<open>The words of the patterns: menya, zovut, moe, imya, ya, an em dash, no, ty,
  mozhesh', zvat', zovi, prozvishche.\<close>

definition w_menya :: ustring where "w_menya = [1084, 1077, 1085, 1103]"
definition w_zovut :: ustring where "w_zovut = [1079, 1086, 1074, 1091, 1090]"
definition w_moe :: ustring where "w_moe = [1084, 1086, 1077]"
definition w_imya :: ustring where "w_imya = [1080, 1084, 1103]"
definition w_ya :: ustring where "w_ya = [1103]"
definition w_dash :: ustring where "w_dash = [8212]"
definition w_no :: ustring where "w_no = [1085, 1086]"
definition w_ty :: ustring where "w_ty = [1090, 1099]"
definition w_mozhesh :: ustring where "w_mozhesh = [1084, 1086, 1078, 1077, 1096, 1100]"
definition w_zvat :: ustring where "w_zvat = [1079, 1074, 1072, 1090, 1100]"
definition w_zovi :: ustring where "w_zovi = [1079, 1086, 1074, 1080]"
definition w_prozvishche :: ustring where
  "w_prozvishche = [1087, 1088, 1086, 1079, 1074, 1080, 1097, 1077]"

definition captured_name :: rx where
  "captured_name = Group (Many1 Letter)"

definition name_patterns :: "rx list" where
  "name_patterns =
     [cat_all [lit w_menya, Many1 Space, lit w_zovut, Many1 Space, captured_name],
      cat_all [lit w_moe, Many1 Space, lit w_imya, Many1 Space, captured_name],
      cat_all [lit w_ya, Many1 Space, lit w_dash, Many1 Space, captured_name],
      cat_all [lit w_ya, Many1 Space, captured_name,
               Alt (Cat (Many0 Space) (lit [44])) (Cat (Many1 Space) (lit w_no))]]"

definition nickname_patterns :: "rx list" where
  "nickname_patterns =
     [cat_all [lit w_no, Many1 Space, lit w_ty, Many1 Space, lit w_mozhesh, Many1 Space,
               lit w_zvat, Many1 Space, lit w_menya, Many1 Space, captured_name],
      cat_all [lit w_mozhesh, Many1 Space, lit w_zvat, Many1 Space, lit w_menya,
               Many1 Space, captured_name],
      cat_all [lit w_zvat, Many1 Space, lit w_menya, Many1 Space, captured_name],
      cat_all [lit w_zovi, Many1 Space, lit w_menya, Many1 Space, captured_name],
      cat_all [lit w_prozvishche, Many1 Space, captured_name]]"

text \<open>The stop words of \<open>_extract_name_directly\<close>: menya, zovut, moe, ya, no, ty,
  mozhesh', zvat', zovi, privet, poka, da, net, spasibo, pozhaluista, kak, chto, gde,
  kogda, pochemu, kto, eto, to, vse, vsyo.\<close>

definition name_stop_words :: "ustring list" where
  "name_stop_words =
     [[1084, 1077, 1085, 1103], [1079, 1086, 1074, 1091, 1090], [1084, 1086, 1077], [1103],
      [1085, 1086], [1090, 1099], [1084, 1086, 1078, 1077, 1096, 1100],
      [1079, 1074, 1072, 1090, 1100], [1079, 1086, 1074, 1080],
      [1087, 1088, 1080, 1074, 1077, 1090], [1087, 1086, 1082, 1072], [1076, 1072],
      [1085, 1077, 1090], [1089, 1087, 1072, 1089, 1080, 1073, 1086],
      [1087, 1086, 1078, 1072, 1083, 1091, 1081, 1089, 1090, 1072], [1082, 1072, 1082],
      [1095, 1090, 1086], [1075, 1076, 1077], [1082, 1086, 1075, 1076, 1072],
      [1087, 1086, 1095, 1077, 1084, 1091], [1082, 1090, 1086], [1101, 1090, 1086],
      [1090, 1086], [1074, 1089, 1077], [1074, 1089, 1105]]"

text \<open>
  One of the two \<open>for pattern in \<dots>\<close> loops: \<open>min_len\<close> is the length a match must
  exceed (2 in the loop for the name, 1 in the loop for the nickname). A match whose
  group did not take part would make \<open>group(1).strip()\<close> raise.
\<close>

fun scan_patterns :: "runtime \<Rightarrow> nat \<Rightarrow> rx list \<Rightarrow> ustring \<Rightarrow> py_error + ustring option" where
  "scan_patterns rt min_len [] message_lower = Inr None"
| "scan_patterns rt min_len (pattern # rest) message_lower =
     (case re_search rt pattern message_lower of
        None \<Rightarrow> scan_patterns rt min_len rest message_lower
      | Some None \<Rightarrow> Inl AttributeError
      | Some (Some g) \<Rightarrow>
          (let potential = strip_ws (py_isspace rt) g
           in if length potential > min_len \<and> py_lower rt potential \<notin> set name_stop_words
              then Inr (Some (py_capitalize rt potential))
              else scan_patterns rt min_len rest message_lower))"

section \<open>PersonalAgent\<close>

text \<open>
  The first strategy of \<open>_extract_name_directly\<close>, the test on a short message:
  \<open>Some first_word\<close> when it takes the first word as the name. \<open>words[0]\<close> raises on a
  message without words.
\<close>

definition short_message_name :: "runtime \<Rightarrow> ustring \<Rightarrow> json \<Rightarrow> py_error + ustring option" where
  "short_message_name rt user_message profile =
     (let words = split_ws (py_isspace rt) [] (strip_ws (py_isspace rt) user_message)
      in if length words \<le> 2 then
           ebind (get_method profile (u ''name'')) (\<lambda>n.
             if truthy n then Inr None
             else ebind (get_method profile (u ''nickname'')) (\<lambda>k.
               if truthy k then Inr None
               else (case words of
                       [] \<Rightarrow> Inl IndexError
                     | first_word # later \<Rightarrow>
                         if looks_like_name rt first_word
                            \<and> py_lower rt first_word \<notin> set name_stop_words
                         then Inr (Some first_word) else Inr None)))
         else Inr None)"

text \<open>
  The two \<open>if\<close>s at the end of \<open>_extract_name_directly\<close>: the field is written when a
  candidate was found and the profile holds nothing, or something else, under that key.
  The result says whether it was.
\<close>

definition store_found :: "runtime \<Rightarrow> ustring \<Rightarrow> ustring option \<Rightarrow> bool action" where
  "store_found rt key found =
     (case found of
        None \<Rightarrow> returns False
      | Some candidate \<Rightarrow>
          if candidate = [] then returns False
          else
            and_then (memory_item (u ''user_profile'')) (\<lambda>profile.
            and_then (lift (get_method profile key)) (\<lambda>cur.
              if \<not> truthy cur \<or> \<not> py_eq cur (JStr candidate)
              then and_then (update_profile rt key (JStr candidate)) (\<lambda>_. returns True)
              else returns False)))"

definition pattern_names :: "runtime \<Rightarrow> ustring \<Rightarrow> bool action" where
  "pattern_names rt user_message =
     (let message_lower = strip_ws (py_isspace rt) (py_lower rt user_message)
      in and_then (lift (scan_patterns rt 2 name_patterns message_lower)) (\<lambda>name.
         and_then (lift (scan_patterns rt 1 nickname_patterns message_lower)) (\<lambda>nickname.
         and_then (store_found rt (u ''name'') name) (\<lambda>name_set.
         and_then (store_found rt (u ''nickname'') nickname) (\<lambda>nickname_set.
           returns (name_set \<or> nickname_set))))))"

definition extract_name_directly :: "runtime \<Rightarrow> ustring \<Rightarrow> bool action" where
  "extract_name_directly rt user_message =
     and_then (memory_item (u ''user_profile'')) (\<lambda>profile.
     and_then (lift (short_message_name rt user_message profile)) (\<lambda>short.
       case short of
         Some potential_name \<Rightarrow>
           and_then (update_profile rt (u ''name'') (JStr potential_name)) (\<lambda>_. returns True)
       | None \<Rightarrow> pattern_names rt user_message))"

text \<open>The words looked for in a fact: zovut (is called) and imya (name).\<close>

definition has_name_fact :: "runtime \<Rightarrow> ustring list \<Rightarrow> bool" where
  "has_name_fact rt facts =
     list_ex (\<lambda>f. contains w_zovut (py_lower rt f) \<or> contains w_imya (py_lower rt f)) facts"

text \<open>Step 3 of \<open>process_message\<close>: the facts to store and log.\<close>

definition with_name_fact :: "runtime \<Rightarrow> bool \<Rightarrow> ustring list \<Rightarrow> ustring list action" where
  "with_name_fact rt name_extracted new_facts =
     (if name_extracted then
        and_then (memory_item (u ''user_profile'')) (\<lambda>profile.
        and_then (lift (get_method profile (u ''name''))) (\<lambda>n.
          if truthy n then
            (if \<not> has_name_fact rt new_facts
             then and_then (lift (getitem profile (u ''name''))) (\<lambda>v.
                    returns (new_facts @ [user_is_called @ py_format rt v]))
             else returns new_facts)
          else returns new_facts))
      else returns new_facts)"

fun add_facts :: "runtime \<Rightarrow> ustring list \<Rightarrow> unit action" where
  "add_facts rt [] = returns ()"
| "add_facts rt (f # fs) = and_then (add_fact rt f (u ''general'')) (\<lambda>_. add_facts rt fs)"

definition append_history :: "ustring \<Rightarrow> ustring \<Rightarrow> unit action" where
  "append_history role content s =
     (Inr (), s\<lparr>conversation_history := conversation_history s @ [(role, content)]\<rparr>)"

text \<open>
  \<open>process_message\<close>, in three parts. Steps 1 to 3 of its body yield the facts of the
  turn. Steps 4 and 5 store them, update the profile from them, append the message to the
  history and build the system prompt, a fixed text around the memory context, by which
  the request to the server is identified here. Steps 6 to 8 ask the server, log the
  exchange, append the response to the history and return it.
\<close>

definition facts_of_turn :: "runtime \<Rightarrow> ustring \<Rightarrow> ustring list action" where
  "facts_of_turn rt user_message =
     and_then (extract_name_directly rt user_message) (\<lambda>name_extracted.
     and_then (\<lambda>s. (get_memory_context rt (memory s), s)) (\<lambda>memory_context.
     and_then (\<lambda>s. case extract_facts_from_conversation rt (model s) user_message
                            memory_context s of
                      (facts, s') \<Rightarrow> (Inr facts, s')) (\<lambda>extracted.
       with_name_fact rt name_extracted extracted)))"

definition store_turn :: "runtime \<Rightarrow> ustring \<Rightarrow> ustring list \<Rightarrow> ustring action" where
  "store_turn rt user_message new_facts =
     and_then (add_facts rt new_facts) (\<lambda>_.
     and_then (if new_facts \<noteq> [] then update_profile_from_facts rt new_facts
               else returns False) (\<lambda>_.
     and_then (append_history (u ''user'') user_message) (\<lambda>_.
       (\<lambda>s. (get_memory_context rt (memory s), s)))))"

definition respond :: "runtime \<Rightarrow> ustring \<Rightarrow> ustring list \<Rightarrow> ustring \<Rightarrow> ustring action" where
  "respond rt user_message new_facts system_context =
     and_then (\<lambda>s. case chat_with_model rt
                            (ChatRequest (model s) (conversation_history s) system_context) s of
                      (response, s') \<Rightarrow> (Inr response, s')) (\<lambda>response.
     and_then (log_exchange rt user_message response new_facts) (\<lambda>_.
     and_then (append_history (u ''assistant'') response) (\<lambda>_.
       returns response)))"

definition process_message :: "runtime \<Rightarrow> ustring \<Rightarrow> ustring action" where
  "process_message rt user_message =
     and_then (facts_of_turn rt user_message) (\<lambda>new_facts.
     and_then (store_turn rt user_message new_facts) (\<lambda>system_context.
       respond rt user_message new_facts system_context))"

section \<open>A runtime and a state for the examples\<close>

text \<open>
  The examples below run on this runtime. Its tables are those of CPython restricted to
  ASCII and the Russian alphabet, where the examples live: the white space of
  \<open>str.isspace\<close>; upper and lower case of the Latin and Russian letters; \<open>int\<close> on
  an optional sign and ASCII digits, single underscores allowed between digits (the
  digits of other scripts are not in the table); \<open>json.loads\<close> on the two documents
  the examples parse (any other text is taken as malformed); f-string formatting of
  strings, \<open>None\<close>, booleans and integers (a list or a dict is cut down to three
  dots); a clock that ticks once a second; and a server that cannot be reached.
\<close>

definition sample_isspace :: "uchar \<Rightarrow> bool" where
  "sample_isspace c =
     (c \<in> set [9, 10, 11, 12, 13, 28, 29, 30, 31, 32, 133, 160, 5760, 8192, 8193, 8194, 8195,
               8196, 8197, 8198, 8199, 8200, 8201, 8202, 8232, 8233, 8239, 8287, 12288])"

definition sample_isupper :: "uchar \<Rightarrow> bool" where
  "sample_isupper c = ((65 \<le> c \<and> c \<le> 90) \<or> (1040 \<le> c \<and> c \<le> 1071) \<or> c = 1025)"

definition sample_islower :: "uchar \<Rightarrow> bool" where
  "sample_islower c = ((97 \<le> c \<and> c \<le> 122) \<or> (1072 \<le> c \<and> c \<le> 1103) \<or> c = 1105)"

definition sample_isalpha :: "uchar \<Rightarrow> bool" where
  "sample_isalpha c = (sample_isupper c \<or> sample_islower c)"

definition lower_char :: "uchar \<Rightarrow> uchar" where
  "lower_char c =
     (if (65 \<le> c \<and> c \<le> 90) \<or> (1040 \<le> c \<and> c \<le> 1071) then c + 32
      else if c = 1025 then 1105 else c)"

definition upper_char :: "uchar \<Rightarrow> uchar" where
  "upper_char c =
     (if (97 \<le> c \<and> c \<le> 122) \<or> (1072 \<le> c \<and> c \<le> 1103) then c - 32
      else if c = 1105 then 1025 else c)"

definition sample_capitalize :: "ustring \<Rightarrow> ustring" where
  "sample_capitalize s = (case s of [] \<Rightarrow> [] | c # cs \<Rightarrow> upper_char c # map lower_char cs)"

fun digits_value :: "nat \<Rightarrow> ustring \<Rightarrow> nat option" where
  "digits_value acc [] = Some acc"
| "digits_value acc (c # cs) =
     (if 48 \<le> c \<and> c \<le> 57 then digits_value (10 * acc + (c - 48)) cs
      else if c = 95 \<and> (case cs of [] \<Rightarrow> False | d # ds \<Rightarrow> 48 \<le> d \<and> d \<le> 57)
           then digits_value acc cs
      else None)"

text \<open>
  The characters \<open>int\<close> skips around a number: the white space of ASCII (tab, line
  feed, vertical tab, form feed, carriage return, space) and the white space beyond
  ASCII, but not the separators U+001C to U+001F, which \<open>str.isspace\<close> accepts.
\<close>

definition int_space :: "uchar \<Rightarrow> bool" where
  "int_space c = (sample_isspace c \<and> c \<notin> set [28, 29, 30, 31])"

definition sample_int :: "ustring \<Rightarrow> int option" where
  "sample_int s =
     (case strip_ws int_space s of
        [] \<Rightarrow> None
      | c # cs \<Rightarrow>
          (let body = (if c = 45 \<or> c = 43 then cs else c # cs)
           in case body of
                [] \<Rightarrow> None
              | d # ds \<Rightarrow>
                  if 48 \<le> d \<and> d \<le> 57
                  then map_option (\<lambda>n. if c = 45 then - int n else int n) (digits_value 0 body)
                  else None))"

definition sample_loads :: "ustring \<Rightarrow> json option" where
  "sample_loads s =
     (if s = u ''{\"age\": \"25\", \"location\": \"Oslo\"}''
      then Some (JObj [(u ''age'', JStr (u ''25'')), (u ''location'', JStr (u ''Oslo''))])
      else if s = u ''[\"likes jazz\", \"\", 5]''
      then Some (JList [JStr (u ''likes jazz''), JStr [], JInt 5])
      else None)"

text \<open>The decimal digits of a number.\<close>

fun digits_of :: "nat \<Rightarrow> ustring" where
  "digits_of n = (if n < 10 then [48 + n] else digits_of (n div 10) @ [48 + n mod 10])"

fun sample_format :: "json \<Rightarrow> ustring" where
  "sample_format (JStr s) = s"
| "sample_format JNull = u ''None''"
| "sample_format (JBool b) = (if b then u ''True'' else u ''False'')"
| "sample_format (JInt n) = (if n < 0 then 45 # digits_of (nat (- n)) else digits_of (nat n))"
| "sample_format other = u ''...''"

definition sample_now :: "nat \<Rightarrow> ustring" where
  "sample_now n = u ''2024-01-01T00:00:'' @ [48 + (n div 10) mod 10, 48 + n mod 10]"

definition sample_runtime :: runtime where
  "sample_runtime =
     \<lparr>py_isspace = sample_isspace, py_isupper = sample_isupper, py_isalpha = sample_isalpha,
      py_lower = map lower_char, py_capitalize = sample_capitalize,
      re_literal = (\<lambda>p c. lower_char c = lower_char p), re_letter = sample_isalpha,
      py_int = sample_int, json_loads = sample_loads, py_format = sample_format,
      now_iso = sample_now, MEMORY_FILE = u ''/home/user/.personal_agent/memory.json'',
      post = (\<lambda>n req. RequestException)\<rparr>"

text \<open>A new agent on a machine without a memory file: what \<open>PersonalAgent(model)\<close>
  builds at 2024-01-01T00:00:00.\<close>

definition new_agent :: agent where
  "new_agent =
     \<lparr>model = u ''qwen2.5:7b'', memory = empty_memory (u ''2024-01-01T00:00:00''),
      current_session = u ''2024-01-01'', files = Map.empty,
      current_file = Some (u ''conversation_20240101_000000.jsonl''),
      log_lines = [], conversation_history = [], clock = 1, calls = 0\<rparr>"

text \<open>The names of the examples: Vasya, Petya, Yan, Petrukha.\<close>

definition vasya :: ustring where "vasya = [1042, 1072, 1089, 1103]"
definition petya :: ustring where "petya = [1055, 1077, 1090, 1103]"
definition yan :: ustring where "yan = [1071, 1085]"
definition petrukha :: ustring where "petrukha = [1055, 1077, 1090, 1088, 1091, 1093, 1072]"

text \<open>The messages "zovi menya Yan" and "zovi menya Petrukha" (call me ...).\<close>

definition call_me :: "ustring \<Rightarrow> ustring" where
  "call_me nick = w_zovi @ [32] @ w_menya @ [32] @ nick"

text \<open>The messages "menya zovut Yan" (my name is Yan) and "Moya Vasya," (my Vasya,),
  and the word "Moya".\<close>

definition my_name_is :: "ustring \<Rightarrow> ustring" where
  "my_name_is name = w_menya @ [32] @ w_zovut @ [32] @ name"

definition moya :: ustring where "moya = [1052, 1086, 1103]"

definition moya_vasya :: ustring where
  "moya_vasya = moya @ [32] @ vasya @ [44]"

section \<open>Notions used to state the properties\<close>

text \<open>The text from the first opening bracket to the last closing bracket after it
  (empty when there is none).\<close>

definition bracketed :: "ustring \<Rightarrow> ustring" where
  "bracketed response =
     rev (dropWhile (\<lambda>c. c \<noteq> 93) (rev (dropWhile (\<lambda>c. c \<noteq> 91) response)))"

subsection \<open>What the context is built from\<close>

text \<open>\<open>self.memory['user_profile'][key]\<close>.\<close>

definition profile_item :: "json \<Rightarrow> ustring \<Rightarrow> py_error + json" where
  "profile_item mem key = ebind (getitem mem (u ''user_profile'')) (\<lambda>profile. getitem profile key)"

text \<open>
  The twelve values \<open>get_memory_context\<close> tests, in the order of its body: the five
  scalar fields of the profile, its interests, goals and preferences, then the
  relationships, the important dates, the habits and the facts.
\<close>

definition reads :: "json \<Rightarrow> (py_error + json) list" where
  "reads mem =
     [profile_item mem (u ''name''), profile_item mem (u ''nickname''),
      profile_item mem (u ''age''), profile_item mem (u ''location''),
      profile_item mem (u ''occupation''), profile_item mem (u ''interests''),
      profile_item mem (u ''goals''), profile_item mem (u ''preferences''),
      getitem mem (u ''relationships''), getitem mem (u ''important_dates''),
      getitem mem (u ''habits''), getitem mem (u ''facts'')]"

text \<open>A value that was read and is falsy (\<open>None\<close>, empty, zero or \<open>False\<close>), and a
  value that was read and is truthy.\<close>

definition read_falsy :: "py_error + json \<Rightarrow> bool" where
  "read_falsy r = (case r of Inl e \<Rightarrow> False | Inr v \<Rightarrow> \<not> truthy v)"

definition read_truthy :: "py_error + json \<Rightarrow> bool" where
  "read_truthy r = (case r of Inl e \<Rightarrow> False | Inr v \<Rightarrow> truthy v)"

text \<open>The body of \<open>get_memory_context\<close> as a list of steps run in order.\<close>

fun run_sections :: "(rendering \<Rightarrow> py_error + rendering) list \<Rightarrow> rendering \<Rightarrow> py_error + rendering" where
  "run_sections [] c = Inr c"
| "run_sections (f # fs) c = ebind (f c) (run_sections fs)"

definition sections :: "runtime \<Rightarrow> json \<Rightarrow> json \<Rightarrow> (rendering \<Rightarrow> py_error + rendering) list" where
  "sections rt mem profile =
     [scalar_section rt profile (u ''name'') label_name,
      scalar_section rt profile (u ''nickname'') label_nickname,
      scalar_section rt profile (u ''age'') label_age,
      scalar_section rt profile (u ''location'') label_location,
      scalar_section rt profile (u ''occupation'') label_occupation,
      list_section profile (u ''interests'') label_interests,
      list_section profile (u ''goals'') label_goals,
      preferences_section rt profile,
      relationships_section rt mem,
      dates_section rt mem,
      list_section mem (u ''habits'') label_habits,
      facts_section rt mem]"

text \<open>What a section does, seen from outside: it reads a value and, when the value is
  truthy, appends a part that starts with its label; when the value is falsy it leaves
  the parts alone.\<close>

definition section_of :: "py_error + json \<Rightarrow> ustring \<Rightarrow> (rendering \<Rightarrow> py_error + rendering) \<Rightarrow> bool" where
  "section_of r label f =
     (\<forall>c c'. f c = Inr c' \<longrightarrow>
        (\<exists>v. r = Inr v \<and> (if truthy v then (\<exists>x. c' = append_part (label @ x) c) else c' = c)))"

definition section_skips :: "py_error + json \<Rightarrow> (rendering \<Rightarrow> py_error + rendering) \<Rightarrow> bool" where
  "section_skips r f = (\<forall>v c. r = Inr v \<longrightarrow> \<not> truthy v \<longrightarrow> f c = Inr c)"

text \<open>A part that does not start like the sentinel, and a state of the two variables in
  which the flag is only set when there is a part and every part is such a part.\<close>

definition good_part :: "ustring \<Rightarrow> bool" where
  "good_part p = (2 \<le> length p \<and> take 2 p \<noteq> take 2 memory_is_empty)"

definition good_rendering :: "rendering \<Rightarrow> bool" where
  "good_rendering c = ((snd c \<longrightarrow> fst c \<noteq> []) \<and> list_all good_part (fst c))"

text \<open>Each section with the value it tests and its label.\<close>

type_synonym tagged_section = "(py_error + json) \<times> ustring \<times> (rendering \<Rightarrow> py_error + rendering)"

definition tagged_sections :: "runtime \<Rightarrow> json \<Rightarrow> json \<Rightarrow> tagged_section list" where
  "tagged_sections rt mem profile =
     [(getitem profile (u ''name''), label_name, scalar_section rt profile (u ''name'') label_name),
      (getitem profile (u ''nickname''), label_nickname,
         scalar_section rt profile (u ''nickname'') label_nickname),
      (getitem profile (u ''age''), label_age, scalar_section rt profile (u ''age'') label_age),
      (getitem profile (u ''location''), label_location,
         scalar_section rt profile (u ''location'') label_location),
      (getitem profile (u ''occupation''), label_occupation,
         scalar_section rt profile (u ''occupation'') label_occupation),
      (getitem profile (u ''interests''), label_interests,
         list_section profile (u ''interests'') label_interests),
      (getitem profile (u ''goals''), label_goals, list_section profile (u ''goals'') label_goals),
      (getitem profile (u ''preferences''), label_preferences, preferences_section rt profile),
      (getitem mem (u ''relationships''), label_relationships, relationships_section rt mem),
      (getitem mem (u ''important_dates''), label_dates, dates_section rt mem),
      (getitem mem (u ''habits''), label_habits, list_section mem (u ''habits'') label_habits),
      (getitem mem (u ''facts''), label_facts, facts_section rt mem)]"

subsection \<open>States of the examples\<close>

text \<open>The new agent after \<open>update_profile('name', "Petya")\<close>, and after
  \<open>update_profile('age', 0)\<close>.\<close>

definition agent_named :: agent where
  "agent_named = snd (update_profile sample_runtime (u ''name'') (JStr petya) new_agent)"

definition agent_aged_zero :: agent where
  "agent_aged_zero = snd (update_profile sample_runtime (u ''age'') (JInt 0) new_agent)"

subsection \<open>Writing the profile\<close>

text \<open>The state after a write to a field the profile has: the field, the time stamp
  and the memory file.\<close>

definition profile_written :: "runtime \<Rightarrow> ustring \<Rightarrow> json \<Rightarrow> (ustring \<times> json) list \<Rightarrow> (ustring \<times> json) list \<Rightarrow> agent \<Rightarrow> agent" where
  "profile_written rt field v m p s =
     (let m' = dict_set (u ''updated_at'') (JStr (now_iso rt (clock s)))
                 (dict_set (u ''user_profile'') (JObj (dict_set field v p)) m)
      in s\<lparr>memory := JObj m', files := (files s)(MEMORY_FILE rt \<mapsto> Document (JObj m')),
            clock := Suc (clock s)\<rparr>)"

subsection \<open>The patterns\<close>

text \<open>An expression whose every match sets group 1.\<close>

fun sets_group :: "rx \<Rightarrow> bool" where
  "sets_group (Group r) = True"
| "sets_group (Cat a b) = (sets_group a \<or> sets_group b)"
| "sets_group (Alt a b) = (sets_group a \<and> sets_group b)"
| "sets_group other = False"

text \<open>
  The candidates of a list of patterns in a message: for each pattern that matches, in
  the order of the list, the text of group 1 without the white space around it.
\<close>

definition candidates :: "runtime \<Rightarrow> rx list \<Rightarrow> ustring \<Rightarrow> ustring list" where
  "candidates rt patterns msg =
     concat (map (\<lambda>pattern. case re_search rt pattern msg of
                              Some (Some g) \<Rightarrow> [strip_ws (py_isspace rt) g]
                            | other \<Rightarrow> []) patterns)"

text \<open>
  The first candidate that has at least \<open>min_chars\<close> characters and is not a stop word
  in lower case, capitalized; \<open>None\<close> when every candidate is rejected.
\<close>

definition first_accepted :: "runtime \<Rightarrow> nat \<Rightarrow> rx list \<Rightarrow> ustring \<Rightarrow> ustring option" where
  "first_accepted rt min_chars patterns msg =
     (case filter (\<lambda>c. min_chars \<le> length c \<and> py_lower rt c \<notin> set name_stop_words)
             (candidates rt patterns msg) of
        [] \<Rightarrow> None
      | c # later \<Rightarrow> Some (py_capitalize rt c))"

text \<open>
  A field after the pattern strategy, given what it held and what was found for it: the
  text found, when there is one; what it held, when nothing was accepted.
\<close>

definition field_after :: "json \<Rightarrow> ustring option \<Rightarrow> json" where
  "field_after cur found =
     (case found of None \<Rightarrow> cur | Some c \<Rightarrow> if c = [] then cur else JStr c)"

text \<open>Something was found for a field, and the profile does not hold it already
  (\<open>stored\<close> is \<open>None\<close> when the profile has no such field).\<close>

definition found_new :: "json option \<Rightarrow> ustring option \<Rightarrow> bool" where
  "found_new stored found =
     (case found of None \<Rightarrow> False | Some c \<Rightarrow> c \<noteq> [] \<and> stored \<noteq> Some (JStr c))"

subsection \<open>A message without a name\<close>

definition how_are_you :: ustring where
  "how_are_you = u ''how are you today''"

subsection \<open>The name the profile holds\<close>

text \<open>\<open>self.memory.memory['user_profile'].get('name')\<close>, or \<open>None\<close> when the profile
  cannot be read.\<close>

definition profile_name :: "agent \<Rightarrow> json" where
  "profile_name s =
     (case ebind (getitem (memory s) (u ''user_profile'')) (\<lambda>p. get_method p (u ''name'')) of
        Inl e \<Rightarrow> JNull
      | Inr n \<Rightarrow> n)"

subsection \<open>A memory exported and imported again\<close>

text \<open>
  The named agent exports its memory to \<open>backup.json\<close>; a memory system that starts
  from an empty memory two ticks of the clock later imports that file.
\<close>

definition backup :: ustring where
  "backup = u ''backup.json''"

definition agent_restored :: agent where
  "agent_restored =
     snd (import_memory sample_runtime backup
            ((snd (export_memory backup agent_named))
               \<lparr>memory := empty_memory (sample_now 2), clock := 3\<rparr>))"

subsection \<open>The merge policy\<close>

text \<open>
  The value an entry of the updates writes into a field, given what the profile stores
  under its key (\<open>None\<close> when the profile has no such field): nothing for a null
  value, nothing for an unknown field, nothing for an age that is a string and not an
  integer; otherwise the value, an age given as a string being taken as an integer, but
  only when the stored value is null or differs from it.
\<close>

definition written :: "runtime \<Rightarrow> json option \<Rightarrow> ustring \<Rightarrow> json \<Rightarrow> json option" where
  "written rt stored field v =
     (if v = JNull then None
      else case stored of
             None \<Rightarrow> None
           | Some cur \<Rightarrow>
               (case coerce_age rt field v of
                  None \<Rightarrow> None
                | Some v' \<Rightarrow> if cur = JNull \<or> \<not> py_eq cur v' then Some v' else None))"

text \<open>The loop of the merge on the profile alone: the profile and the flag after it.\<close>

fun merged :: "runtime \<Rightarrow> (ustring \<times> json) list \<Rightarrow> (ustring \<times> json) list \<times> bool \<Rightarrow> (ustring \<times> json) list \<times> bool" where
  "merged rt [] pu = pu"
| "merged rt ((field, v) # rest) pu =
     merged rt rest
       (case written rt (map_of (fst pu) field) field v of
          None \<Rightarrow> pu
        | Some v' \<Rightarrow> (dict_set field v' (fst pu), True))"

text \<open>Values as \<open>json.loads\<close> builds them: no dict has a key twice.\<close>

fun wf_json :: "json \<Rightarrow> bool"
and wf_list :: "json list \<Rightarrow> bool"
and wf_dict :: "(ustring \<times> json) list \<Rightarrow> bool"
where
  "wf_json (JList xs) = wf_list xs"
| "wf_json (JObj d) = (distinct (map fst d) \<and> wf_dict d)"
| "wf_json other = True"
| "wf_list [] = True"
| "wf_list (x # xs) = (wf_json x \<and> wf_list xs)"
| "wf_dict [] = True"
| "wf_dict ((k, v) # d) = (wf_json v \<and> wf_dict d)"

text \<open>An agent whose profile has the name Ann and nothing else.\<close>

definition agent_ann :: agent where
  "agent_ann = snd (update_profile sample_runtime (u ''name'') (JStr (u ''Ann'')) new_agent)"

text \<open>The sample runtime with a server that answers every request with the same text.\<close>

definition answering :: "ustring \<Rightarrow> runtime" where
  "answering answer = sample_runtime\<lparr>post := (\<lambda>n req. Content answer)\<rparr>"

section \<open>Properties of the text operations\<close>

lemma u_eq [simp]: "(u a = u b) = (a = b)"
  by (simp add: u_def inj_map_eq_map inj_on_def)

lemma split_ws_drop_leading: "split_ws sp [] (dropWhile sp s) = split_ws sp [] s"
  by (induction s) auto

lemma split_ws_snoc_space: "sp c \<Longrightarrow> split_ws sp cur (s @ [c]) = split_ws sp cur s"
  by (induction s arbitrary: cur) auto

lemma split_ws_drop_trailing: "split_ws sp cur (rev (dropWhile sp (rev s))) = split_ws sp cur s"
proof (induction s rule: rev_induct)
  case Nil
  then show ?case by simp
next
  case (snoc x xs)
  then show ?case by (cases "sp x") (simp_all add: split_ws_snoc_space)
qed

lemma split_ws_strip: "split_ws sp [] (strip_ws sp s) = split_ws sp [] s"
  unfolding strip_ws_def by (simp add: split_ws_drop_trailing split_ws_drop_leading)

lemma py_find_ge0: "(0 \<le> py_find c s) = (c \<in> set s)"
  by (induction s) (auto simp: Let_def)

lemma py_find_takeWhile: "c \<in> set s \<Longrightarrow> py_find c s = int (length (takeWhile (\<lambda>x. x \<noteq> c) s))"
  by (induction s) (auto simp: Let_def py_find_ge0)

lemma py_find_neg: "c \<notin> set s \<Longrightarrow> py_find c s = - 1"
  by (induction s) (auto simp: Let_def)

lemma drop_takeWhile_length: "drop (length (takeWhile P s)) s = dropWhile P s"
  by (induction s) auto

lemma takeWhile_shorter: "x \<in> set xs \<Longrightarrow> length (takeWhile (\<lambda>y. y \<noteq> x) xs) < length xs"
  by (induction xs) auto

lemma takeWhile_take_long:
  "length (takeWhile P xs) < n \<Longrightarrow> takeWhile P (take n xs) = takeWhile P xs"
proof (induction xs arbitrary: n)
  case Nil
  then show ?case by simp
next
  case (Cons x xs)
  then show ?case by (cases n) auto
qed

lemma dropWhile_take_short:
  "n \<le> length (takeWhile P xs) \<Longrightarrow> dropWhile P (take n xs) = []"
proof (induction xs arbitrary: n)
  case Nil
  then show ?case by simp
next
  case (Cons x xs)
  then show ?case by (cases n) (auto split: if_splits)
qed

lemma rev_drop_rev: "rev (drop k (rev t)) = take (length t - k) t"
  by (simp add: rev_drop)

text \<open>When the test of the \<open>if\<close> holds, the slice is the bracketed text, and not empty.\<close>

lemma slice_bracketed:
  assumes "0 \<le> py_find 91 r" and "py_find 91 r < py_rfind 93 r + 1"
  shows "slice r (py_find 91 r) (py_rfind 93 r + 1) = bracketed r \<and> bracketed r \<noteq> []"
proof -
  let ?a = "length (takeWhile (\<lambda>x. x \<noteq> 91) r)"
  let ?k = "length (takeWhile (\<lambda>x. x \<noteq> 93) (rev r))"
  let ?n = "length r"
  from assms(1) have in1: "91 \<in> set r" by (simp add: py_find_ge0)
  then have a: "py_find 91 r = int ?a" by (rule py_find_takeWhile)
  have in2: "93 \<in> set (rev r)"
  proof (rule ccontr)
    assume "93 \<notin> set (rev r)"
    then have "py_rfind 93 r = - 1" by (simp add: py_rfind_def py_find_neg)
    with assms show False by simp
  qed
  then have k: "py_find 93 (rev r) = int ?k" by (rule py_find_takeWhile)
  have klen: "?k < ?n" using takeWhile_shorter [OF in2] by simp
  have b: "py_rfind 93 r + 1 = int (?n - ?k)"
    using k klen by (simp add: py_rfind_def Let_def)
  from assms(2) a b have lt: "?a < ?n - ?k" by simp
  have revt: "rev (drop ?a r) = take (?n - ?a) (rev r)" by (simp add: rev_drop)
  have tw: "takeWhile (\<lambda>x. x \<noteq> 93) (take (?n - ?a) (rev r)) = takeWhile (\<lambda>x. x \<noteq> 93) (rev r)"
    by (rule takeWhile_take_long) (use lt in simp)
  have "dropWhile (\<lambda>c. c \<noteq> 93) (rev (drop ?a r)) = drop ?k (rev (drop ?a r))"
    using drop_takeWhile_length [of "\<lambda>c. c \<noteq> 93" "rev (drop ?a r)"] tw revt by simp
  then have "bracketed r = rev (drop ?k (rev (drop ?a r)))"
    by (simp add: bracketed_def drop_takeWhile_length)
  also have "\<dots> = take (?n - ?a - ?k) (drop ?a r)"
    using rev_drop_rev [of ?k "drop ?a r"] by simp
  finally have br: "bracketed r = take (?n - ?a - ?k) (drop ?a r)" .
  have sl: "slice r (py_find 91 r) (py_rfind 93 r + 1) = take (?n - ?k - ?a) (drop ?a r)"
    by (simp add: slice_def a b)
  have "?n - ?a - ?k = ?n - ?k - ?a" by simp
  moreover have "take (?n - ?a - ?k) (drop ?a r) \<noteq> []" using lt by simp arith
  ultimately show ?thesis using br sl by simp
qed

text \<open>When the test fails, there is no bracketed text.\<close>

lemma no_slice_bracketed:
  assumes "\<not> (0 \<le> py_find 91 r \<and> py_find 91 r < py_rfind 93 r + 1)"
  shows "bracketed r = []"
proof (cases "91 \<in> set r")
  case False
  then have dw: "dropWhile (\<lambda>c. c \<noteq> 91) r = []" by (auto simp: dropWhile_eq_Nil_conv)
  show ?thesis unfolding bracketed_def dw by simp
next
  case in1: True
  let ?a = "length (takeWhile (\<lambda>x. x \<noteq> 91) r)"
  let ?k = "length (takeWhile (\<lambda>x. x \<noteq> 93) (rev r))"
  let ?n = "length r"
  have a: "py_find 91 r = int ?a" using in1 by (rule py_find_takeWhile)
  have t: "dropWhile (\<lambda>c. c \<noteq> 91) r = drop ?a r" by (simp add: drop_takeWhile_length)
  show ?thesis
  proof (cases "93 \<in> set r")
    case False
    then have "\<forall>x\<in>set (rev (drop ?a r)). x \<noteq> 93" by (auto dest: in_set_dropD)
    then have "dropWhile (\<lambda>c. c \<noteq> 93) (rev (drop ?a r)) = []" by simp
    then show ?thesis by (simp add: bracketed_def t)
  next
    case True
    then have in2: "93 \<in> set (rev r)" by simp
    then have k: "py_find 93 (rev r) = int ?k" by (rule py_find_takeWhile)
    have klen: "?k < ?n" using takeWhile_shorter [OF in2] by simp
    have b: "py_rfind 93 r + 1 = int (?n - ?k)"
      using k klen by (simp add: py_rfind_def Let_def)
    from assms a b have "?n - ?a \<le> ?k" by simp
    then have "dropWhile (\<lambda>c. c \<noteq> 93) (take (?n - ?a) (rev r)) = []"
      by (rule dropWhile_take_short)
    then show ?thesis by (simp add: bracketed_def t rev_drop)
  qed
qed

section \<open>Fact extraction\<close>

text \<open>
  Claim C7. Whatever the model answered, parsing the facts works on the text from the
  first \<open>[\<close> to the last \<open>]\<close> and on nothing else. Without such a text, or when
  \<open>json.loads\<close> rejects it, the result is the empty list; no exception leaves the
  function, whose result is a plain list. From a parsed list, the non-empty strings are
  kept in their order and every other element is dropped. (\<open>json.loads\<close> gives a list
  for a text that starts with \<open>[\<close>; the other cases say what the comprehension would do
  with another value.) The response \<open>garbage {not json\<close> gives the empty list.
\<close>

theorem parse_facts_defensive:
  "parse_facts rt response =
     (if bracketed response = [] then []
      else (case json_loads rt (bracketed response) of
              None \<Rightarrow> []
            | Some (JList xs) \<Rightarrow> nonempty_strings xs
            | Some (JObj d) \<Rightarrow> filter (\<lambda>k. k \<noteq> []) (map fst d)
            | Some (JStr t) \<Rightarrow> map (\<lambda>c. [c]) t
            | Some other \<Rightarrow> []))
   \<and> parse_facts rt (u ''garbage {not json'') = []"
proof
  show "parse_facts rt response =
     (if bracketed response = [] then []
      else (case json_loads rt (bracketed response) of
              None \<Rightarrow> []
            | Some (JList xs) \<Rightarrow> nonempty_strings xs
            | Some (JObj d) \<Rightarrow> filter (\<lambda>k. k \<noteq> []) (map fst d)
            | Some (JStr t) \<Rightarrow> map (\<lambda>c. [c]) t
            | Some other \<Rightarrow> []))"
  proof (cases "0 \<le> py_find 91 response \<and> py_find 91 response < py_rfind 93 response + 1")
    case True
    then have "slice response (py_find 91 response) (py_rfind 93 response + 1) = bracketed response"
      and "bracketed response \<noteq> []"
      using slice_bracketed by blast+
    with True show ?thesis
      by (simp add: parse_facts_def parse_facts_try_def Let_def split: option.splits json.splits)
  next
    case False
    then have "bracketed response = []" by (rule no_slice_bracketed)
    with False show ?thesis
      by (auto simp: parse_facts_def parse_facts_try_def Let_def)
  qed
  show "parse_facts rt (u ''garbage {not json'') = []"
    by (simp add: parse_facts_def parse_facts_try_def u_def Let_def py_rfind_def)
qed

text \<open>
  Claim C10. A message of at most two words whose first word starts with an upper-case
  letter, is all letters, has at least two characters and is not a stop word gives
  exactly one fact, "Pol'zovatelya zovut" followed by that word. The server is not
  asked: the state, with its count of calls, comes back as it was, and neither the
  memory context nor the profile in the state plays a part.
\<close>

theorem extract_facts_short_circuit:
  assumes "split_ws (py_isspace rt) [] user_message = w # ws"
    and "length (w # ws) \<le> 2"
    and "py_isupper rt (hd w)" and "str_isalpha rt w" and "2 \<le> length w"
    and "py_lower rt w \<notin> set facts_stop_words"
  shows "extract_facts_from_conversation rt mdl user_message memory_context s
           = ([user_is_called @ w], s)"
proof -
  from assms(5) obtain c cs where w: "w = c # cs" by (cases w) auto
  with assms(3,4,5) have "looks_like_name rt w" by (simp add: looks_like_name_def)
  with assms(1,2,6) show ?thesis
    by (simp add: extract_facts_from_conversation_def split_ws_strip)
qed

theorem extract_facts_short_circuit_witness:
  "\<forall>mdl memory_context s.
     extract_facts_from_conversation sample_runtime mdl vasya memory_context s
       = ([user_is_called @ vasya], s)"
proof (intro allI)
  fix mdl memory_context s
  have 1: "split_ws (py_isspace sample_runtime) [] vasya = vasya # []"
    by (simp add: sample_runtime_def vasya_def sample_isspace_def)
  show "extract_facts_from_conversation sample_runtime mdl vasya memory_context s
          = ([user_is_called @ vasya], s)"
    by (rule extract_facts_short_circuit [OF 1])
       (simp_all add: sample_runtime_def vasya_def sample_isupper_def sample_isalpha_def
          sample_islower_def str_isalpha_def lower_char_def facts_stop_words_def)
qed

section \<open>The memory context\<close>

lemma get_memory_context_sections:
  "get_memory_context rt mem =
     ebind (getitem mem (u ''user_profile'')) (\<lambda>profile.
       ebind (run_sections (sections rt mem profile) ([], False)) (\<lambda>c.
         if \<not> snd c then Inr memory_is_empty else Inr (join [10, 10] (fst c))))"
  by (simp add: get_memory_context_def sections_def ebind_def split: sum.splits)

lemma scalar_section_of: "section_of (getitem profile key) label (scalar_section rt profile key label)"
  unfolding section_of_def scalar_section_def ebind_def append_part_def
  by (intro allI impI) (auto split: sum.splits if_splits intro!: exI)

lemma list_section_of: "section_of (getitem holder key) label (list_section holder key label)"
  unfolding section_of_def list_section_def ebind_def append_part_def
  by (intro allI impI) (auto split: sum.splits if_splits intro!: exI)

lemma preferences_section_of:
  "section_of (getitem profile (u ''preferences'')) label_preferences (preferences_section rt profile)"
  unfolding section_of_def preferences_section_def ebind_def append_part_def
  by (intro allI impI) (auto split: sum.splits if_splits intro!: exI)

lemma relationships_section_of:
  "section_of (getitem mem (u ''relationships'')) label_relationships (relationships_section rt mem)"
  unfolding section_of_def relationships_section_def ebind_def append_part_def
  by (intro allI impI) (auto split: sum.splits if_splits intro!: exI)

lemma dates_section_of:
  "section_of (getitem mem (u ''important_dates'')) label_dates (dates_section rt mem)"
  unfolding section_of_def dates_section_def ebind_def append_part_def
  by (intro allI impI) (auto split: sum.splits if_splits intro!: exI)

lemma facts_section_of:
  "section_of (getitem mem (u ''facts'')) label_facts (facts_section rt mem)"
  unfolding section_of_def facts_section_def ebind_def append_part_def
  by (intro allI impI) (auto split: sum.splits if_splits intro!: exI)

lemma scalar_section_skips: "section_skips (getitem profile key) (scalar_section rt profile key label)"
  by (auto simp: section_skips_def scalar_section_def ebind_def split: sum.splits if_splits)

lemma list_section_skips: "section_skips (getitem holder key) (list_section holder key label)"
  by (auto simp: section_skips_def list_section_def ebind_def split: sum.splits if_splits)

lemma preferences_section_skips:
  "section_skips (getitem profile (u ''preferences'')) (preferences_section rt profile)"
  by (auto simp: section_skips_def preferences_section_def ebind_def split: sum.splits if_splits)

lemma relationships_section_skips:
  "section_skips (getitem mem (u ''relationships'')) (relationships_section rt mem)"
  by (auto simp: section_skips_def relationships_section_def ebind_def split: sum.splits if_splits)

lemma dates_section_skips:
  "section_skips (getitem mem (u ''important_dates'')) (dates_section rt mem)"
  by (auto simp: section_skips_def dates_section_def ebind_def split: sum.splits if_splits)

lemma facts_section_skips:
  "section_skips (getitem mem (u ''facts'')) (facts_section rt mem)"
  by (auto simp: section_skips_def facts_section_def ebind_def split: sum.splits if_splits)

lemma good_part_label: "good_part label \<Longrightarrow> good_part (label @ x)"
  by (auto simp: good_part_def)

lemma section_step:
  assumes "section_of r label f" and "good_part label" and "f c = Inr c'" and "good_rendering c"
  shows "good_rendering c' \<and> (snd c \<longrightarrow> snd c') \<and> (read_truthy r \<longrightarrow> snd c')"
proof -
  from assms(1,3) obtain v where v: "r = Inr v"
    and c': "if truthy v then (\<exists>x. c' = append_part (label @ x) c) else c' = c"
    unfolding section_of_def by blast
  show ?thesis
  proof (cases "truthy v")
    case True
    with c' obtain x where "c' = append_part (label @ x) c" by auto
    with assms(2,4) show ?thesis
      by (simp add: good_rendering_def append_part_def good_part_label)
  next
    case False
    with c' v assms(4) show ?thesis by (simp add: read_truthy_def)
  qed
qed

lemma sections_tagged: "sections rt mem profile = map (\<lambda>t. snd (snd t)) (tagged_sections rt mem profile)"
  by (simp add: sections_def tagged_sections_def)

lemma reads_tagged:
  "getitem mem (u ''user_profile'') = Inr profile \<Longrightarrow>
   reads mem = map fst (tagged_sections rt mem profile)"
  by (simp add: reads_def tagged_sections_def profile_item_def ebind_def)

lemma tagged_sections_ok:
  "list_all (\<lambda>t. section_of (fst t) (fst (snd t)) (snd (snd t)) \<and> good_part (fst (snd t))
                \<and> section_skips (fst t) (snd (snd t)))
     (tagged_sections rt mem profile)"
  unfolding tagged_sections_def
  by (simp add: scalar_section_of list_section_of preferences_section_of relationships_section_of
        dates_section_of facts_section_of scalar_section_skips list_section_skips
        preferences_section_skips relationships_section_skips dates_section_skips
        facts_section_skips)
     (simp add: good_part_def label_name_def label_nickname_def label_age_def label_location_def
        label_occupation_def label_interests_def label_goals_def label_preferences_def
        label_relationships_def label_dates_def label_habits_def label_facts_def
        memory_is_empty_def)

lemma run_tagged:
  assumes "list_all (\<lambda>t. section_of (fst t) (fst (snd t)) (snd (snd t)) \<and> good_part (fst (snd t))) ts"
    and "run_sections (map (\<lambda>t. snd (snd t)) ts) c = Inr c'"
    and "good_rendering c"
  shows "good_rendering c' \<and> (snd c \<longrightarrow> snd c') \<and> (list_ex read_truthy (map fst ts) \<longrightarrow> snd c')"
  using assms
proof (induction ts arbitrary: c)
  case Nil
  then show ?case by simp
next
  case (Cons t ts)
  from Cons.prems(2) obtain c1 where c1: "snd (snd t) c = Inr c1"
    and rest: "run_sections (map (\<lambda>t. snd (snd t)) ts) c1 = Inr c'"
    by (auto simp: ebind_def split: sum.splits)
  from Cons.prems(1) have sec: "section_of (fst t) (fst (snd t)) (snd (snd t))"
    and lab: "good_part (fst (snd t))"
    and tl: "list_all (\<lambda>t. section_of (fst t) (fst (snd t)) (snd (snd t)) \<and> good_part (fst (snd t))) ts"
    by simp_all
  from section_step [OF sec lab c1 Cons.prems(3)]
  have s1: "good_rendering c1" "snd c \<longrightarrow> snd c1" "read_truthy (fst t) \<longrightarrow> snd c1" by simp_all
  from Cons.IH [OF tl rest s1(1)]
  have s2: "good_rendering c'" "snd c1 \<longrightarrow> snd c'" "list_ex read_truthy (map fst ts) \<longrightarrow> snd c'"
    by simp_all
  from s1 s2 show ?case by auto
qed

lemma run_skips:
  assumes "list_all (\<lambda>t. section_skips (fst t) (snd (snd t))) ts"
    and "list_all read_falsy (map fst ts)"
  shows "run_sections (map (\<lambda>t. snd (snd t)) ts) c = Inr c"
  using assms
proof (induction ts)
  case Nil
  then show ?case by simp
next
  case (Cons t ts)
  from Cons.prems have "snd (snd t) c = Inr c"
    by (cases c) (auto simp: section_skips_def read_falsy_def split: sum.splits)
  with Cons show ?case by (simp add: ebind_def)
qed

lemma join_good:
  assumes "parts \<noteq> []" and "list_all good_part parts"
  shows "join sep parts \<noteq> memory_is_empty"
proof -
  from assms obtain p ps where parts: "parts = p # ps" and p: "good_part p"
    by (cases parts) auto
  have "take 2 (join sep (p # ps)) = take 2 p"
    using p by (cases ps) (auto simp: good_part_def)
  with p show ?thesis unfolding parts by (auto simp: good_part_def)
qed

lemma memory_agent_named:
  "memory agent_named =
     JObj [(u ''user_profile'',
              JObj [(u ''name'', JStr petya), (u ''nickname'', JNull), (u ''age'', JNull),
                    (u ''location'', JNull), (u ''occupation'', JNull),
                    (u ''interests'', JList []), (u ''goals'', JList []),
                    (u ''preferences'', JObj [])]),
           (u ''facts'', JList []),
           (u ''conversations_summary'', JList []),
           (u ''important_dates'', JObj []),
           (u ''relationships'', JObj []),
           (u ''habits'', JList []),
           (u ''created_at'', JStr (u ''2024-01-01T00:00:00'')),
           (u ''updated_at'', JStr (sample_now 1))]"
  by (simp add: agent_named_def update_profile_def new_agent_def empty_memory_def and_then_def
        memory_item_def returns_def raises_def save_memory_def sample_runtime_def)

lemma memory_agent_aged_zero:
  "memory agent_aged_zero =
     JObj [(u ''user_profile'',
              JObj [(u ''name'', JNull), (u ''nickname'', JNull), (u ''age'', JInt 0),
                    (u ''location'', JNull), (u ''occupation'', JNull),
                    (u ''interests'', JList []), (u ''goals'', JList []),
                    (u ''preferences'', JObj [])]),
           (u ''facts'', JList []),
           (u ''conversations_summary'', JList []),
           (u ''important_dates'', JObj []),
           (u ''relationships'', JObj []),
           (u ''habits'', JList []),
           (u ''created_at'', JStr (u ''2024-01-01T00:00:00'')),
           (u ''updated_at'', JStr (sample_now 1))]"
  by (simp add: agent_aged_zero_def update_profile_def new_agent_def empty_memory_def and_then_def
        memory_item_def returns_def raises_def save_memory_def sample_runtime_def)

text \<open>
  Claim C5, as the code has it. When each of the twelve values \<open>get_memory_context\<close>
  tests can be read and is falsy (\<open>None\<close>, an empty string, list or dict, zero or
  \<open>False\<close>), the context is the sentinel. When one of them is truthy, the result is
  never the sentinel: it is a text that starts with a section label, or an exception.
\<close>

theorem memory_context_sentinel:
  "(list_all read_falsy (reads mem) \<longrightarrow> get_memory_context rt mem = Inr memory_is_empty)
   \<and> (list_ex read_truthy (reads mem) \<longrightarrow> get_memory_context rt mem \<noteq> Inr memory_is_empty)"
proof (cases "getitem mem (u ''user_profile'')")
  case (Inl e)
  then have "get_memory_context rt mem = Inl e"
    by (simp add: get_memory_context_sections ebind_def)
  moreover have "\<not> list_all read_falsy (reads mem)"
    using Inl by (simp add: reads_def profile_item_def ebind_def read_falsy_def)
  ultimately show ?thesis by simp
next
  case (Inr profile)
  let ?ts = "tagged_sections rt mem profile"
  have reads: "reads mem = map fst ?ts" using Inr by (rule reads_tagged)
  have ok: "list_all (\<lambda>t. section_of (fst t) (fst (snd t)) (snd (snd t)) \<and> good_part (fst (snd t))) ?ts"
    and skips: "list_all (\<lambda>t. section_skips (fst t) (snd (snd t))) ?ts"
    using tagged_sections_ok [of rt mem profile] by (simp_all add: list_all_iff)
  have ctx: "get_memory_context rt mem =
       ebind (run_sections (map (\<lambda>t. snd (snd t)) ?ts) ([], False)) (\<lambda>c.
         if \<not> snd c then Inr memory_is_empty else Inr (join [10, 10] (fst c)))"
    using Inr by (simp add: get_memory_context_sections ebind_def sections_tagged)
  show ?thesis
  proof (intro conjI impI)
    assume "list_all read_falsy (reads mem)"
    then have "run_sections (map (\<lambda>t. snd (snd t)) ?ts) ([], False) = Inr ([], False)"
      using run_skips [OF skips] reads by simp
    then show "get_memory_context rt mem = Inr memory_is_empty"
      by (simp add: ctx ebind_def)
  next
    assume some: "list_ex read_truthy (reads mem)"
    show "get_memory_context rt mem \<noteq> Inr memory_is_empty"
    proof (cases "run_sections (map (\<lambda>t. snd (snd t)) ?ts) ([], False)")
      case (Inl e)
      then show ?thesis by (simp add: ctx ebind_def)
    next
      case (Inr c)
      have "good_rendering ([], False)" by (simp add: good_rendering_def)
      from run_tagged [OF ok Inr this] some reads
      have "good_rendering c" and "snd c" by simp_all
      then have "join [10, 10] (fst c) \<noteq> memory_is_empty"
        by (intro join_good) (simp_all add: good_rendering_def)
      with Inr \<open>snd c\<close> show ?thesis by (simp add: ctx ebind_def)
    qed
  qed
qed

theorem memory_context_sentinel_witness:
  "list_all read_falsy (reads (memory new_agent))
   \<and> get_memory_context sample_runtime (memory new_agent) = Inr memory_is_empty
   \<and> list_ex read_truthy (reads (memory agent_named))
   \<and> get_memory_context sample_runtime (memory agent_named) \<noteq> Inr memory_is_empty"
proof -
  have 1: "list_all read_falsy (reads (memory new_agent))"
    by (simp add: new_agent_def empty_memory_def reads_def profile_item_def ebind_def read_falsy_def)
  have 2: "list_ex read_truthy (reads (memory agent_named))"
    by (simp add: memory_agent_named reads_def profile_item_def ebind_def read_truthy_def petya_def)
  from 1 2 memory_context_sentinel [of "memory new_agent" sample_runtime]
    memory_context_sentinel [of "memory agent_named" sample_runtime]
  show ?thesis by simp
qed

text \<open>
  The claim as it is worded fails on a field that is present with a falsy value: after
  \<open>update_profile('age', 0)\<close> on a new agent the profile holds the age 0, and the
  context is still the sentinel.
\<close>

theorem zero_age_counterexample:
  "profile_item (memory agent_aged_zero) (u ''age'') = Inr (JInt 0)
   \<and> get_memory_context sample_runtime (memory agent_aged_zero) = Inr memory_is_empty"
  by (simp add: memory_agent_aged_zero profile_item_def ebind_def get_memory_context_def
        scalar_section_def list_section_def preferences_section_def relationships_section_def
        dates_section_def facts_section_def)

section \<open>Running the examples\<close>

lemmas sample_defs =
  sample_isspace_def sample_isupper_def sample_islower_def sample_isalpha_def
  lower_char_def upper_char_def sample_capitalize_def

lemmas word_defs =
  w_menya_def w_zovut_def w_moe_def w_imya_def w_ya_def w_dash_def w_no_def w_ty_def
  w_mozhesh_def w_zvat_def w_zovi_def w_prozvishche_def captured_name_def

lemmas action_defs =
  and_then_def returns_def raises_def lift_def memory_item_def ebind_def

lemmas section_defs =
  get_memory_context_def scalar_section_def list_section_def preferences_section_def
  relationships_section_def dates_section_def facts_section_def

lemma u_simps: "u [] = []" "u (c # cs) = of_char c # u cs"
  by (simp_all add: u_def)

lemma sample_fields [simp]:
  "py_isspace sample_runtime = sample_isspace" "py_lower sample_runtime = map lower_char"
  "py_isupper sample_runtime = sample_isupper" "py_isalpha sample_runtime = sample_isalpha"
  "py_capitalize sample_runtime = sample_capitalize" "py_int sample_runtime = sample_int"
  "json_loads sample_runtime = sample_loads" "py_format sample_runtime = sample_format"
  "now_iso sample_runtime = sample_now" "post sample_runtime = (\<lambda>n req. RequestException)"
  "MEMORY_FILE sample_runtime = u ''/home/user/.personal_agent/memory.json''"
  "re_literal sample_runtime = (\<lambda>p c. lower_char c = lower_char p)"
  "re_letter sample_runtime = sample_isalpha"
  by (simp_all add: sample_runtime_def)

lemma names_nonempty [simp]: "yan \<noteq> []" "petya \<noteq> []" "vasya \<noteq> []" "petrukha \<noteq> []"
  by (simp_all add: yan_def petya_def vasya_def petrukha_def)

lemma new_agent_memory:
  "memory new_agent =
     JObj [(u ''user_profile'',
              JObj [(u ''name'', JNull), (u ''nickname'', JNull), (u ''age'', JNull),
                    (u ''location'', JNull), (u ''occupation'', JNull),
                    (u ''interests'', JList []), (u ''goals'', JList []),
                    (u ''preferences'', JObj [])]),
           (u ''facts'', JList []),
           (u ''conversations_summary'', JList []),
           (u ''important_dates'', JObj []),
           (u ''relationships'', JObj []),
           (u ''habits'', JList []),
           (u ''created_at'', JStr (u ''2024-01-01T00:00:00'')),
           (u ''updated_at'', JNull)]"
  by (simp add: new_agent_def empty_memory_def)

lemma context_new: "get_memory_context sample_runtime (memory new_agent) = Inr memory_is_empty"
  by (simp add: new_agent_memory ebind_def section_defs)

lemma parse_nothing: "parse_facts rt [] = []"
  by (simp add: parse_facts_def parse_facts_try_def py_rfind_def)

section \<open>Writing the profile\<close>

lemma map_of_dict_set: "map_of (dict_set k v d) k' = (if k' = k then Some v else map_of d k')"
  by (induction d) auto

lemma keys_dict_set_if:
  "map fst (dict_set k v d) = (if k \<in> set (map fst d) then map fst d else map fst d @ [k])"
  by (induction d) force+

lemma keys_dict_set: "k \<in> set (map fst d) \<Longrightarrow> map fst (dict_set k v d) = map fst d"
  by (simp add: keys_dict_set_if)

lemma update_profile_known:
  assumes "memory s = JObj m" and "map_of m (u ''user_profile'') = Some (JObj p)"
    and "field \<in> set (map fst p)"
  shows "update_profile rt field v s = (Inr True, profile_written rt field v m p s)"
  using assms
  by (simp add: update_profile_def and_then_def memory_item_def returns_def raises_def
        save_memory_def profile_written_def Let_def)

lemma update_profile_unknown:
  assumes "memory s = JObj m" and "map_of m (u ''user_profile'') = Some (JObj p)"
    and "field \<notin> set (map fst p)"
  shows "update_profile rt field v s = (Inr False, s)"
  using assms
  by (simp add: update_profile_def and_then_def memory_item_def returns_def raises_def)

lemma profile_item_written:
  "profile_item (memory (profile_written rt field v m p s)) k
     = (if k = field then Inr v else (case map_of p k of None \<Rightarrow> Inl KeyError | Some w \<Rightarrow> Inr w))"
  by (simp add: profile_written_def Let_def profile_item_def ebind_def map_of_dict_set)

lemma profile_item_dict:
  "memory s = JObj m \<Longrightarrow> map_of m (u ''user_profile'') = Some (JObj p) \<Longrightarrow>
   profile_item (memory s) k = (case map_of p k of None \<Rightarrow> Inl KeyError | Some w \<Rightarrow> Inr w)"
  by (simp add: profile_item_def ebind_def)

section \<open>The name in a short message\<close>

lemma short_message_name_fires:
  "(short_message_name rt user_message profile = Inr (Some w)) =
     ((\<exists>ws. split_ws (py_isspace rt) [] user_message = w # ws \<and> length (w # ws) \<le> 2)
      \<and> py_isupper rt (hd w) \<and> str_isalpha rt w \<and> 2 \<le> length w
      \<and> py_lower rt w \<notin> set name_stop_words
      \<and> (\<exists>n. get_method profile (u ''name'') = Inr n \<and> \<not> truthy n)
      \<and> (\<exists>k. get_method profile (u ''nickname'') = Inr k \<and> \<not> truthy k))"
  by (cases "split_ws (py_isspace rt) [] user_message")
     (auto simp: short_message_name_def split_ws_strip ebind_def looks_like_name_def Let_def
        str_isalpha_def split: sum.splits list.splits if_splits)

lemma short_message_name_named:
  "get_method profile (u ''name'') = Inr n \<Longrightarrow> truthy n \<Longrightarrow>
   short_message_name rt user_message profile = Inr None"
  by (simp add: short_message_name_def ebind_def Let_def)

lemma extract_name_short:
  assumes "memory s = JObj m" and "map_of m (u ''user_profile'') = Some (JObj p)"
    and "u ''name'' \<in> set (map fst p)"
    and "short_message_name rt user_message (JObj p) = Inr (Some w)"
  shows "extract_name_directly rt user_message s
           = (Inr True, profile_written rt (u ''name'') (JStr w) m p s)"
  using assms
  by (simp add: extract_name_directly_def and_then_def memory_item_def lift_def returns_def
        update_profile_known)

lemma split_vasya: "split_ws sample_isspace [] vasya = [vasya]"
  by (simp add: vasya_def sample_isspace_def)

lemma short_vasya_new:
  "short_message_name sample_runtime vasya
     (JObj [(u ''name'', JNull), (u ''nickname'', JNull), (u ''age'', JNull),
            (u ''location'', JNull), (u ''occupation'', JNull),
            (u ''interests'', JList []), (u ''goals'', JList []),
            (u ''preferences'', JObj [])]) = Inr (Some vasya)"
  by (simp add: short_message_name_def split_ws_strip split_vasya ebind_def looks_like_name_def
        str_isalpha_def)
     (simp add: vasya_def sample_defs name_stop_words_def str_isalpha_def)

lemma scan_vasya:
  "scan_patterns sample_runtime 2 name_patterns (strip_ws sample_isspace (map lower_char vasya))
     = Inr None"
  "scan_patterns sample_runtime (Suc 0) nickname_patterns
     (strip_ws sample_isspace (map lower_char vasya)) = Inr None"
  by (simp_all add: vasya_def name_patterns_def nickname_patterns_def word_defs sample_defs
        strip_ws_def)

lemma extract_vasya_named:
  "extract_name_directly sample_runtime vasya agent_named = (Inr False, agent_named)"
  by (simp add: extract_name_directly_def pattern_names_def action_defs memory_agent_named
        short_message_name_named [where n = "JStr petya"] scan_vasya store_found_def Let_def)

section \<open>The loops over the patterns\<close>

lemma rx_match_group:
  "(g', rest) \<in> set (rx_match rt r s g) \<Longrightarrow> sets_group r \<or> g \<noteq> None \<Longrightarrow> g' \<noteq> None"
proof (induction r arbitrary: s g g' rest)
  case (Cat r1 r2)
  from Cat.prems(1) obtain g1 rest1 where 1: "(g1, rest1) \<in> set (rx_match rt r1 s g)"
    and 2: "(g', rest) \<in> set (rx_match rt r2 rest1 g1)"
    by auto
  show ?case
  proof (cases "sets_group r2")
    case True
    with Cat.IH(2) [OF 2] show ?thesis by simp
  next
    case False
    with Cat.prems(2) have "sets_group r1 \<or> g \<noteq> None" by auto
    with Cat.IH(1) [OF 1] have "g1 \<noteq> None" by simp
    with Cat.IH(2) [OF 2] show ?thesis by simp
  qed
qed (auto split: list.splits if_splits)

lemma rx_match_first_group:
  assumes "rx_match rt r s None = (a, b) # xs" and "sets_group r"
  shows "a \<noteq> None"
proof -
  have "(a, b) \<in> set (rx_match rt r s None)" using assms(1) by simp
  then show ?thesis using assms(2) by (rule rx_match_group [OF _ disjI1])
qed

lemma re_search_group: "sets_group r \<Longrightarrow> re_search rt r s \<noteq> Some None"
proof (induction s)
  case Nil
  then show ?case by (auto split: list.splits dest: rx_match_first_group)
next
  case (Cons c cs)
  then show ?case by (auto split: list.splits dest: rx_match_first_group)
qed

lemma program_patterns_group:
  "list_all sets_group name_patterns" "list_all sets_group nickname_patterns"
  by (simp_all add: name_patterns_def nickname_patterns_def captured_name_def)

lemma scan_yan:
  "scan_patterns sample_runtime 2 name_patterns
     (strip_ws sample_isspace (map lower_char (call_me yan))) = Inr None"
  "scan_patterns sample_runtime (Suc 0) nickname_patterns
     (strip_ws sample_isspace (map lower_char (call_me yan))) = Inr (Some yan)"
  by (simp_all add: call_me_def yan_def name_patterns_def nickname_patterns_def word_defs
        sample_defs strip_ws_def name_stop_words_def)

lemma short_yan: "short_message_name sample_runtime (call_me yan) p = Inr None"
  by (simp add: short_message_name_def call_me_def yan_def word_defs sample_defs strip_ws_def)

lemma extract_yan:
  "fst (extract_name_directly sample_runtime (call_me yan) new_agent) = Inr True"
  "profile_item (memory (snd (extract_name_directly sample_runtime (call_me yan) new_agent)))
       (u ''nickname'') = Inr (JStr yan)"
  by (simp_all add: extract_name_directly_def pattern_names_def action_defs new_agent_memory
        short_yan scan_yan store_found_def update_profile_def save_memory_def profile_item_def
        Let_def)

section \<open>A turn while the server cannot be reached\<close>

lemma and_then_Inr:
  "and_then m f s = (Inr r, s') \<Longrightarrow> \<exists>x s1. m s = (Inr x, s1) \<and> f x s1 = (Inr r, s')"
  by (auto simp: and_then_def split: prod.splits sum.splits)

lemma respond_unreachable:
  assumes "post rt (calls s) (ChatRequest (model s) (conversation_history s) ctx) = RequestException"
  shows "respond rt msg nf ctx s =
           and_then (\<lambda>s1. (Inr (), s1\<lparr>calls := Suc (calls s1)\<rparr>)) (\<lambda>_.
           and_then (log_exchange rt msg [] nf) (\<lambda>_.
           and_then (append_history (u ''assistant'') []) (\<lambda>_. returns []))) s"
  using assms by (simp add: respond_def chat_with_model_def and_then_def)

lemma split_how:
  "split_ws sample_isspace [] (strip_ws sample_isspace how_are_you)
     = [u ''how'', u ''are'', u ''you'', u ''today'']"
  by (simp add: how_are_you_def split_ws_strip u_simps sample_isspace_def)

lemma short_how: "short_message_name sample_runtime how_are_you p = Inr None"
  by (simp add: short_message_name_def split_how)

lemma lower_how: "strip_ws sample_isspace (map lower_char how_are_you) = how_are_you"
  by (simp add: how_are_you_def u_simps lower_char_def strip_ws_def sample_isspace_def)

lemma scan_how:
  "scan_patterns sample_runtime 2 name_patterns how_are_you = Inr None"
  "scan_patterns sample_runtime (Suc 0) nickname_patterns how_are_you = Inr None"
  by (simp_all add: how_are_you_def u_simps name_patterns_def nickname_patterns_def word_defs
        sample_defs)

lemma extract_how:
  "extract_name_directly sample_runtime how_are_you new_agent = (Inr False, new_agent)"
  by (simp add: extract_name_directly_def pattern_names_def action_defs new_agent_memory short_how
        lower_how scan_how store_found_def Let_def)

lemma facts_how:
  "extract_facts_from_conversation sample_runtime mdl how_are_you ctx s
     = ([], s\<lparr>calls := Suc (calls s)\<rparr>)"
  by (simp add: extract_facts_from_conversation_def split_how chat_with_model_def parse_nothing)

lemma facts_of_turn_how:
  "facts_of_turn sample_runtime how_are_you new_agent
     = (Inr [], new_agent\<lparr>calls := Suc (calls new_agent)\<rparr>)"
  by (simp add: facts_of_turn_def and_then_def extract_how context_new facts_how
        with_name_fact_def returns_def)

lemma process_how:
  "fst (process_message sample_runtime how_are_you new_agent) = Inr []"
  "conversation_history (snd (process_message sample_runtime how_are_you new_agent))
     = [(u ''user'', how_are_you), (u ''assistant'', [])]"
  "map assistant (log_lines (snd (process_message sample_runtime how_are_you new_agent))) = [[]]"
  by (simp_all add: process_message_def and_then_def facts_of_turn_how store_turn_def returns_def
        append_history_def context_new [unfolded new_agent_memory] new_agent_memory respond_def
        chat_with_model_def log_exchange_def)
     (simp_all add: new_agent_def and_then_def append_history_def returns_def)

text \<open>
  Claim C1, as the code has it. \<open>chat_with_model\<close> catches the transport error and
  returns the empty string, so when the chat request fails \<open>process_message\<close> is the
  turn in which the response is the empty string: after the facts of the turn were
  gathered and stored, the call is counted, the exchange is logged with the empty
  response, the empty response is appended to the history and returned. Whenever the turn
  returns, then, it returns the empty string, the history ends with an empty assistant
  entry and, with a log file open, so does the log. An exception can only come from the
  steps before the request.
\<close>

theorem unreachable_server_empty_response:
  assumes "\<forall>n m h c. post rt n (ChatRequest m h c) = RequestException"
  shows "process_message rt user_message s =
           and_then (facts_of_turn rt user_message) (\<lambda>new_facts.
           and_then (store_turn rt user_message new_facts) (\<lambda>system_context.
           and_then (\<lambda>s1. (Inr (), s1\<lparr>calls := Suc (calls s1)\<rparr>)) (\<lambda>_.
           and_then (log_exchange rt user_message [] new_facts) (\<lambda>_.
           and_then (append_history (u ''assistant'') []) (\<lambda>_. returns []))))) s
         \<and> (\<forall>r s'. process_message rt user_message s = (Inr r, s') \<longrightarrow>
               r = []
               \<and> (\<exists>h. conversation_history s' = h @ [(u ''assistant'', [])])
               \<and> (current_file s' \<noteq> None \<longrightarrow>
                    (\<exists>l e. log_lines s' = l @ [e] \<and> user e = user_message \<and> assistant e = [])))"
proof
  have resp: "respond rt user_message nf ctx s1 =
           and_then (\<lambda>s1. (Inr (), s1\<lparr>calls := Suc (calls s1)\<rparr>)) (\<lambda>_.
           and_then (log_exchange rt user_message [] nf) (\<lambda>_.
           and_then (append_history (u ''assistant'') []) (\<lambda>_. returns []))) s1" for nf ctx s1
    using assms by (intro respond_unreachable) simp
  then have resp': "respond rt user_message nf ctx =
           and_then (\<lambda>s1. (Inr (), s1\<lparr>calls := Suc (calls s1)\<rparr>)) (\<lambda>_.
           and_then (log_exchange rt user_message [] nf) (\<lambda>_.
           and_then (append_history (u ''assistant'') []) (\<lambda>_. returns [])))" for nf ctx
    by (intro ext) simp
  show eq: "process_message rt user_message s =
           and_then (facts_of_turn rt user_message) (\<lambda>new_facts.
           and_then (store_turn rt user_message new_facts) (\<lambda>system_context.
           and_then (\<lambda>s1. (Inr (), s1\<lparr>calls := Suc (calls s1)\<rparr>)) (\<lambda>_.
           and_then (log_exchange rt user_message [] new_facts) (\<lambda>_.
           and_then (append_history (u ''assistant'') []) (\<lambda>_. returns []))))) s"
    by (simp add: process_message_def resp')
  show "\<forall>r s'. process_message rt user_message s = (Inr r, s') \<longrightarrow>
               r = []
               \<and> (\<exists>h. conversation_history s' = h @ [(u ''assistant'', [])])
               \<and> (current_file s' \<noteq> None \<longrightarrow>
                    (\<exists>l e. log_lines s' = l @ [e] \<and> user e = user_message \<and> assistant e = []))"
  proof (intro allI impI)
    fix r s'
    assume "process_message rt user_message s = (Inr r, s')"
    with eq have "and_then (facts_of_turn rt user_message) (\<lambda>new_facts.
           and_then (store_turn rt user_message new_facts) (\<lambda>system_context.
           and_then (\<lambda>s1. (Inr (), s1\<lparr>calls := Suc (calls s1)\<rparr>)) (\<lambda>_.
           and_then (log_exchange rt user_message [] new_facts) (\<lambda>_.
           and_then (append_history (u ''assistant'') []) (\<lambda>_. returns []))))) s = (Inr r, s')"
      by simp
    from and_then_Inr [OF this] obtain nf s1 where
      "and_then (store_turn rt user_message nf) (\<lambda>system_context.
           and_then (\<lambda>s1. (Inr (), s1\<lparr>calls := Suc (calls s1)\<rparr>)) (\<lambda>_.
           and_then (log_exchange rt user_message [] nf) (\<lambda>_.
           and_then (append_history (u ''assistant'') []) (\<lambda>_. returns [])))) s1 = (Inr r, s')"
      by blast
    from and_then_Inr [OF this] obtain s2 where
      "and_then (\<lambda>s1. (Inr (), s1\<lparr>calls := Suc (calls s1)\<rparr>)) (\<lambda>_.
           and_then (log_exchange rt user_message [] nf) (\<lambda>_.
           and_then (append_history (u ''assistant'') []) (\<lambda>_. returns []))) s2 = (Inr r, s')"
      by blast
    then show "r = []
               \<and> (\<exists>h. conversation_history s' = h @ [(u ''assistant'', [])])
               \<and> (current_file s' \<noteq> None \<longrightarrow>
                    (\<exists>l e. log_lines s' = l @ [e] \<and> user e = user_message \<and> assistant e = []))"
      by (auto simp: and_then_def log_exchange_def append_history_def returns_def
            split: option.splits)
  qed
qed

theorem unreachable_server_empty_response_witness:
  "(\<forall>n m h c. post sample_runtime n (ChatRequest m h c) = RequestException)
   \<and> fst (process_message sample_runtime how_are_you new_agent) = Inr []
   \<and> (\<exists>h. conversation_history (snd (process_message sample_runtime how_are_you new_agent))
            = h @ [(u ''assistant'', [])])
   \<and> (\<exists>l e. log_lines (snd (process_message sample_runtime how_are_you new_agent)) = l @ [e]
            \<and> user e = how_are_you \<and> assistant e = [])"
proof -
  have down: "\<forall>n m h c. post sample_runtime n (ChatRequest m h c) = RequestException"
    by simp
  let ?s' = "snd (process_message sample_runtime how_are_you new_agent)"
  have run: "process_message sample_runtime how_are_you new_agent = (Inr [], ?s')"
    using process_how(1) by (simp add: prod_eq_iff)
  have opened: "current_file ?s' \<noteq> None"
    by (simp add: process_message_def and_then_def facts_of_turn_how store_turn_def returns_def
          append_history_def context_new [unfolded new_agent_memory] new_agent_memory respond_def
          chat_with_model_def log_exchange_def)
       (simp add: new_agent_def and_then_def append_history_def returns_def)
  from unreachable_server_empty_response [OF down, of how_are_you new_agent] run opened
  have "(\<exists>h. conversation_history ?s' = h @ [(u ''assistant'', [])])
      \<and> (\<exists>l e. log_lines ?s' = l @ [e] \<and> user e = how_are_you \<and> assistant e = [])"
    by blast
  with down process_how(1) show ?thesis by blast
qed

text \<open>
  The claim as it is worded fails: with a server that cannot be reached, the turn "how are
  you today" of a new agent is not aborted. It returns the empty string, which is then
  the assistant's entry in the history and in the exchange log.
\<close>

theorem unreachable_server_counterexample:
  "post sample_runtime = (\<lambda>n req. RequestException)
   \<and> fst (process_message sample_runtime how_are_you new_agent) = Inr []
   \<and> conversation_history (snd (process_message sample_runtime how_are_you new_agent))
       = [(u ''user'', how_are_you), (u ''assistant'', [])]
   \<and> map assistant (log_lines (snd (process_message sample_runtime how_are_you new_agent))) = [[]]"
  by (simp add: process_how)

section \<open>The facts of a turn\<close>

lemma with_name_fact_result:
  assumes "with_name_fact rt name_extracted facts s = (Inr fs, s')"
  shows "s' = s
       \<and> fs = facts @ (if name_extracted \<and> truthy (profile_name s) \<and> \<not> has_name_fact rt facts
                       then [user_is_called @ py_format rt (profile_name s)] else [])"
proof (cases name_extracted)
  case False
  with assms show ?thesis by (simp add: with_name_fact_def returns_def)
next
  case True
  with assms obtain p n where p: "getitem (memory s) (u ''user_profile'') = Inr p"
    and n: "get_method p (u ''name'') = Inr n"
    by (auto simp: with_name_fact_def action_defs split: sum.splits)
  then have pn: "profile_name s = n" by (simp add: profile_name_def ebind_def)
  show ?thesis
  proof (cases "truthy n \<and> \<not> has_name_fact rt facts")
    case False
    with assms True p n pn show ?thesis
      by (auto simp: with_name_fact_def action_defs split: if_splits)
  next
    case yes: True
    with n obtain d where "p = JObj d" and "map_of d (u ''name'') = Some n"
      by (cases p) (auto split: option.splits)
    then have "getitem p (u ''name'') = Inr n" by simp
    with assms True p n pn yes show ?thesis
      by (auto simp: with_name_fact_def action_defs)
  qed
qed

lemma agent_named_fields:
  "model agent_named = u ''qwen2.5:7b''" "current_session agent_named = u ''2024-01-01''"
  "current_file agent_named = Some (u ''conversation_20240101_000000.jsonl'')"
  "log_lines agent_named = []" "conversation_history agent_named = []"
  "clock agent_named = 2" "calls agent_named = 0"
  by (simp_all add: agent_named_def update_profile_def action_defs new_agent_memory save_memory_def)
     (simp_all add: new_agent_def)

lemma short_petrukha: "short_message_name sample_runtime (call_me petrukha) p = Inr None"
  by (simp add: short_message_name_def call_me_def petrukha_def word_defs sample_defs strip_ws_def)

lemma scan_petrukha:
  "scan_patterns sample_runtime 2 name_patterns
     (strip_ws sample_isspace (map lower_char (call_me petrukha))) = Inr None"
  "scan_patterns sample_runtime (Suc 0) nickname_patterns
     (strip_ws sample_isspace (map lower_char (call_me petrukha))) = Inr (Some petrukha)"
  by (simp_all add: call_me_def petrukha_def name_patterns_def nickname_patterns_def word_defs
        sample_defs strip_ws_def name_stop_words_def)

lemma split_petrukha:
  "split_ws sample_isspace [] (strip_ws sample_isspace (call_me petrukha))
     = [w_zovi, w_menya, petrukha]"
  by (simp add: split_ws_strip call_me_def petrukha_def word_defs sample_isspace_def)

lemma facts_petrukha:
  "extract_facts_from_conversation sample_runtime mdl (call_me petrukha) ctx s
     = ([], s\<lparr>calls := Suc (calls s)\<rparr>)"
  by (simp add: extract_facts_from_conversation_def split_petrukha chat_with_model_def
        parse_nothing)

lemma extract_petrukha:
  "fst (extract_name_directly sample_runtime (call_me petrukha) agent_named) = Inr True"
  "memory (snd (extract_name_directly sample_runtime (call_me petrukha) agent_named)) =
     JObj [(u ''user_profile'',
              JObj [(u ''name'', JStr petya), (u ''nickname'', JStr petrukha), (u ''age'', JNull),
                    (u ''location'', JNull), (u ''occupation'', JNull),
                    (u ''interests'', JList []), (u ''goals'', JList []),
                    (u ''preferences'', JObj [])]),
           (u ''facts'', JList []),
           (u ''conversations_summary'', JList []),
           (u ''important_dates'', JObj []),
           (u ''relationships'', JObj []),
           (u ''habits'', JList []),
           (u ''created_at'', JStr (u ''2024-01-01T00:00:00'')),
           (u ''updated_at'', JStr (sample_now 2))]"
  by (simp_all add: extract_name_directly_def pattern_names_def action_defs memory_agent_named
        short_petrukha scan_petrukha store_found_def update_profile_def save_memory_def Let_def)
     (simp_all add: agent_named_fields)

lemma extract_petrukha_fields:
  "model (snd (extract_name_directly sample_runtime (call_me petrukha) agent_named)) = u ''qwen2.5:7b''"
  "current_session (snd (extract_name_directly sample_runtime (call_me petrukha) agent_named))
     = u ''2024-01-01''"
  "current_file (snd (extract_name_directly sample_runtime (call_me petrukha) agent_named))
     = Some (u ''conversation_20240101_000000.jsonl'')"
  "log_lines (snd (extract_name_directly sample_runtime (call_me petrukha) agent_named)) = []"
  "conversation_history (snd (extract_name_directly sample_runtime (call_me petrukha) agent_named)) = []"
  "clock (snd (extract_name_directly sample_runtime (call_me petrukha) agent_named)) = 3"
  "calls (snd (extract_name_directly sample_runtime (call_me petrukha) agent_named)) = 0"
  by (simp_all add: extract_name_directly_def pattern_names_def action_defs memory_agent_named
        short_petrukha scan_petrukha store_found_def update_profile_def save_memory_def Let_def
        agent_named_fields)

lemma context_petrukha:
  "get_memory_context sample_runtime
     (memory (snd (extract_name_directly sample_runtime (call_me petrukha) agent_named)))
   = Inr (join [10, 10] [label_name @ petya, label_nickname @ petrukha])"
  by (simp add: extract_petrukha(2) section_defs ebind_def append_part_def)

lemma turn_petrukha:
  "facts_of_turn sample_runtime (call_me petrukha) agent_named
     = (Inr [user_is_called @ petya],
        (snd (extract_name_directly sample_runtime (call_me petrukha) agent_named))\<lparr>calls := 1\<rparr>)"
proof -
  obtain s1 where s1: "extract_name_directly sample_runtime (call_me petrukha) agent_named = (Inr True, s1)"
    using extract_petrukha(1) by (cases "extract_name_directly sample_runtime (call_me petrukha) agent_named") auto
  with extract_petrukha(2) extract_petrukha_fields context_petrukha
  have mem: "memory s1 = JObj [(u ''user_profile'',
              JObj [(u ''name'', JStr petya), (u ''nickname'', JStr petrukha), (u ''age'', JNull),
                    (u ''location'', JNull), (u ''occupation'', JNull),
                    (u ''interests'', JList []), (u ''goals'', JList []),
                    (u ''preferences'', JObj [])]),
           (u ''facts'', JList []),
           (u ''conversations_summary'', JList []),
           (u ''important_dates'', JObj []),
           (u ''relationships'', JObj []),
           (u ''habits'', JList []),
           (u ''created_at'', JStr (u ''2024-01-01T00:00:00'')),
           (u ''updated_at'', JStr (sample_now 2))]"
    and calls: "calls s1 = 0"
    and ctx: "get_memory_context sample_runtime (memory s1)
                = Inr (join [10, 10] [label_name @ petya, label_nickname @ petrukha])"
    by simp_all
  have "facts_of_turn sample_runtime (call_me petrukha) agent_named
          = (Inr [user_is_called @ petya], s1\<lparr>calls := 1\<rparr>)"
    unfolding facts_of_turn_def
    by (simp add: and_then_def s1 ctx [unfolded mem] facts_petrukha with_name_fact_def
          memory_item_def lift_def returns_def mem has_name_fact_def calls)
  with s1 show ?thesis by simp
qed


lemma facts_of_turn_result:
  assumes "facts_of_turn rt user_message s = (Inr new_facts, s')"
  shows "\<exists>name_extracted s1 ctx extracted.
           extract_name_directly rt user_message s = (Inr name_extracted, s1)
         \<and> get_memory_context rt (memory s1) = Inr ctx
         \<and> extract_facts_from_conversation rt (model s1) user_message ctx s1 = (extracted, s')
         \<and> new_facts = extracted
              @ (if name_extracted \<and> truthy (profile_name s') \<and> \<not> has_name_fact rt extracted
                 then [user_is_called @ py_format rt (profile_name s')] else [])"
proof -
  from and_then_Inr [OF assms [unfolded facts_of_turn_def]] obtain ne s1
    where 1: "extract_name_directly rt user_message s = (Inr ne, s1)"
      and r1: "and_then (\<lambda>s. (get_memory_context rt (memory s), s)) (\<lambda>memory_context.
                and_then (\<lambda>s. case extract_facts_from_conversation rt (model s) user_message
                                      memory_context s of
                                 (facts, s') \<Rightarrow> (Inr facts, s')) (\<lambda>extracted.
                  with_name_fact rt ne extracted)) s1 = (Inr new_facts, s')"
    by blast
  from and_then_Inr [OF r1] obtain ctx s1' where c: "(get_memory_context rt (memory s1), s1) = (Inr ctx, s1')"
    and r2': "and_then (\<lambda>s. case extract_facts_from_conversation rt (model s) user_message
                                      ctx s of
                                 (facts, s') \<Rightarrow> (Inr facts, s')) (\<lambda>extracted.
                  with_name_fact rt ne extracted) s1' = (Inr new_facts, s')"
    by blast
  from c have 2: "get_memory_context rt (memory s1) = Inr ctx" and s1': "s1' = s1" by auto
  note r2 = r2' [unfolded s1']
  from and_then_Inr [OF r2] obtain extracted s2
    where e: "(case extract_facts_from_conversation rt (model s1) user_message ctx s1 of
                 (facts, s') \<Rightarrow> (Inr facts :: py_error + ustring list, s')) = (Inr extracted, s2)"
      and r3: "with_name_fact rt ne extracted s2 = (Inr new_facts, s')"
    by blast
  from e have 3: "extract_facts_from_conversation rt (model s1) user_message ctx s1 = (extracted, s2)"
    by (simp split: prod.splits)
  from with_name_fact_result [OF r3] have "s' = s2"
    and "new_facts = extracted
              @ (if ne \<and> truthy (profile_name s2) \<and> \<not> has_name_fact rt extracted
                 then [user_is_called @ py_format rt (profile_name s2)] else [])"
    by simp_all
  with 1 2 3 show ?thesis by blast
qed

text \<open>
  Claim C6, as the code has it. The facts of a turn are the facts the extractor returned,
  followed by the fact "Pol'zovatelya zovut X" exactly when \<open>_extract_name_directly\<close>
  returned \<open>True\<close> (it wrote the name or the nickname), the profile then holds a
  truthy name X, and no returned fact contains "zovut" or "imya" in lower case. These are
  the facts that are stored and, with a log file open, logged with the exchange.
\<close>

theorem synthetic_name_fact:
  "(facts_of_turn rt user_message s = (Inr new_facts, s') \<longrightarrow>
      (\<exists>name_extracted s1 ctx extracted.
           extract_name_directly rt user_message s = (Inr name_extracted, s1)
         \<and> get_memory_context rt (memory s1) = Inr ctx
         \<and> extract_facts_from_conversation rt (model s1) user_message ctx s1 = (extracted, s')
         \<and> new_facts = extracted
              @ (if name_extracted \<and> truthy (profile_name s') \<and> \<not> has_name_fact rt extracted
                 then [user_is_called @ py_format rt (profile_name s')] else [])))
   \<and> (process_message rt user_message s = (Inr r, s'') \<longrightarrow>
      (\<exists>facts s1 s2.
           facts_of_turn rt user_message s = (Inr facts, s1)
         \<and> add_facts rt facts s1 = (Inr (), s2)
         \<and> (current_file s'' \<noteq> None \<longrightarrow>
              (\<exists>l e. log_lines s'' = l @ [e] \<and> extracted_facts e = facts))))"
proof (intro conjI impI)
  assume "facts_of_turn rt user_message s = (Inr new_facts, s')"
  then show "\<exists>name_extracted s1 ctx extracted.
           extract_name_directly rt user_message s = (Inr name_extracted, s1)
         \<and> get_memory_context rt (memory s1) = Inr ctx
         \<and> extract_facts_from_conversation rt (model s1) user_message ctx s1 = (extracted, s')
         \<and> new_facts = extracted
              @ (if name_extracted \<and> truthy (profile_name s') \<and> \<not> has_name_fact rt extracted
                 then [user_is_called @ py_format rt (profile_name s')] else [])"
    by (rule facts_of_turn_result)
next
  assume "process_message rt user_message s = (Inr r, s'')"
  from and_then_Inr [OF this [unfolded process_message_def]] obtain facts s1
    where 1: "facts_of_turn rt user_message s = (Inr facts, s1)"
      and r1: "and_then (store_turn rt user_message facts) (\<lambda>system_context.
                 respond rt user_message facts system_context) s1 = (Inr r, s'')"
    by blast
  from and_then_Inr [OF r1] obtain sc s3
    where st: "store_turn rt user_message facts s1 = (Inr sc, s3)"
      and resp: "respond rt user_message facts sc s3 = (Inr r, s'')"
    by blast
  from and_then_Inr [OF st [unfolded store_turn_def]] obtain x s2
    where "add_facts rt facts s1 = (Inr x, s2)"
    by blast
  then have 2: "add_facts rt facts s1 = (Inr (), s2)" by simp
  from resp have 3: "current_file s'' \<noteq> None \<longrightarrow>
              (\<exists>l e. log_lines s'' = l @ [e] \<and> extracted_facts e = facts)"
    by (auto simp: respond_def and_then_def log_exchange_def append_history_def returns_def
          split: prod.splits option.splits)
  from 1 2 3 show "\<exists>facts s1 s2.
           facts_of_turn rt user_message s = (Inr facts, s1)
         \<and> add_facts rt facts s1 = (Inr (), s2)
         \<and> (current_file s'' \<noteq> None \<longrightarrow>
              (\<exists>l e. log_lines s'' = l @ [e] \<and> extracted_facts e = facts))"
    by blast
qed

theorem synthetic_name_fact_witness:
  "\<exists>name_extracted s1 ctx extracted s'.
       extract_name_directly sample_runtime (call_me petrukha) agent_named = (Inr name_extracted, s1)
     \<and> get_memory_context sample_runtime (memory s1) = Inr ctx
     \<and> extract_facts_from_conversation sample_runtime (model s1) (call_me petrukha) ctx s1
          = (extracted, s')
     \<and> [user_is_called @ petya] = extracted
          @ (if name_extracted \<and> truthy (profile_name s')
                \<and> \<not> has_name_fact sample_runtime extracted
             then [user_is_called @ sample_format (profile_name s')] else [])"
proof -
  let ?s' = "(snd (extract_name_directly sample_runtime (call_me petrukha) agent_named))\<lparr>calls := 1\<rparr>"
  have run: "facts_of_turn sample_runtime (call_me petrukha) agent_named
               = (Inr [user_is_called @ petya], ?s')"
    by (rule turn_petrukha)
  note inst = synthetic_name_fact [of sample_runtime "call_me petrukha" agent_named
      "[user_is_called @ petya]" ?s', THEN conjunct1, rule_format, OF run]
  then obtain name_extracted s1 ctx extracted where
    "extract_name_directly sample_runtime (call_me petrukha) agent_named = (Inr name_extracted, s1)"
    "get_memory_context sample_runtime (memory s1) = Inr ctx"
    "extract_facts_from_conversation sample_runtime (model s1) (call_me petrukha) ctx s1
          = (extracted, ?s')"
    "[user_is_called @ petya] = extracted
          @ (if name_extracted \<and> truthy (profile_name ?s')
                \<and> \<not> has_name_fact sample_runtime extracted
             then [user_is_called @ py_format sample_runtime (profile_name ?s')] else [])"
    by blast
  then show ?thesis
    unfolding sample_fields by (intro exI conjI) assumption+
qed

text \<open>
  The claim as it is worded fails when the fast path changes the nickname only. For an
  agent whose profile holds the name "Petya", the message "zovi menya Petrukha" leaves
  the name as it is and sets the nickname; the extractor returns no fact (here the server
  cannot be reached); and still the fact "Pol'zovatelya zovut Petya" is added.
\<close>

theorem nickname_only_counterexample:
  "profile_item (memory agent_named) (u ''name'') = Inr (JStr petya)
   \<and> profile_item (memory (snd (extract_name_directly sample_runtime (call_me petrukha) agent_named)))
        (u ''name'') = Inr (JStr petya)
   \<and> profile_item (memory (snd (extract_name_directly sample_runtime (call_me petrukha) agent_named)))
        (u ''nickname'') = Inr (JStr petrukha)
   \<and> (\<forall>mdl ctx s. fst (extract_facts_from_conversation sample_runtime mdl (call_me petrukha) ctx s) = [])
   \<and> fst (facts_of_turn sample_runtime (call_me petrukha) agent_named)
        = Inr [user_is_called @ petya]"
  by (simp add: memory_agent_named extract_petrukha(2) profile_item_def ebind_def facts_petrukha
        turn_petrukha)

section \<open>Export and import\<close>

lemma map_of_dict_update:
  "distinct (map fst data) \<Longrightarrow>
   map_of (dict_update d data) k = (case map_of data k of Some v \<Rightarrow> Some v | None \<Rightarrow> map_of d k)"
proof (induction data arbitrary: d)
  case Nil
  then show ?case by (simp add: dict_update_def)
next
  case (Cons kv data)
  obtain k' v' where kv: "kv = (k', v')" by (cases kv)
  from Cons.prems have dist: "distinct (map fst data)" and fresh: "k' \<notin> set (map fst data)"
    by (simp_all add: kv)
  have step: "dict_update d (kv # data) = dict_update (dict_set k' v' d) data"
    by (simp add: dict_update_def kv)
  from fresh have none: "map_of data k' = None" by (simp add: map_of_eq_None_iff)
  show ?case
    unfolding step Cons.IH [OF dist]
    by (cases "k = k'") (simp_all add: kv none map_of_dict_set split: option.splits)
qed

lemma import_memory_dict:
  assumes "files s0 path = Some (Document (JObj data))" and "memory s0 = JObj d"
  shows "import_memory rt path s0 =
           (Inr (), s0\<lparr>memory := JObj (dict_set (u ''updated_at'') (JStr (now_iso rt (clock s0)))
                                      (dict_update d data)),
                      files := (files s0)(MEMORY_FILE rt \<mapsto>
                                 Document (JObj (dict_set (u ''updated_at'')
                                    (JStr (now_iso rt (clock s0))) (dict_update d data)))),
                      clock := Suc (clock s0)\<rparr>)"
  using assms by (simp add: import_memory_def save_memory_def)

text \<open>
  Claim C2, as the code has it. \<open>export_memory\<close> writes the memory to the file; when
  that file is imported into a memory system that starts from an empty memory, the import
  succeeds and every top-level key of the exported memory has its exported value again,
  but for \<open>updated_at\<close>, which \<open>_save_memory\<close> sets to the time of the import. A key
  the exported memory does not have keeps the value of the empty memory. The result is
  also what the memory file then holds.
\<close>

theorem import_after_export:
  assumes "memory s = JObj d" and "distinct (map fst d)"
    and "memory s0 = empty_memory t"
    and "files s0 path = files (snd (export_memory path s)) path"
  shows "files (snd (export_memory path s)) path = Some (Document (memory s))
       \<and> (\<exists>s2. import_memory rt path s0 = (Inr (), s2)
             \<and> (\<forall>k. getitem (memory s2) k =
                      (if k = u ''updated_at'' then Inr (JStr (now_iso rt (clock s0)))
                       else case map_of d k of
                              Some v \<Rightarrow> Inr v
                            | None \<Rightarrow> getitem (empty_memory t) k))
             \<and> files s2 (MEMORY_FILE rt) = Some (Document (memory s2)))"
proof
  show written: "files (snd (export_memory path s)) path = Some (Document (memory s))"
    by (simp add: export_memory_def)
  obtain e where e: "empty_memory t = JObj e" by (simp add: empty_memory_def)
  from assms(4) written assms(1) have on_disk: "files s0 path = Some (Document (JObj d))" by simp
  from assms(3) e have mem0: "memory s0 = JObj e" by simp
  note run = import_memory_dict [OF on_disk mem0, of rt]
  have "getitem (JObj (dict_set (u ''updated_at'') (JStr (now_iso rt (clock s0)))
                                      (dict_update e d))) k =
                      (if k = u ''updated_at'' then Inr (JStr (now_iso rt (clock s0)))
                       else case map_of d k of
                              Some v \<Rightarrow> Inr v
                            | None \<Rightarrow> getitem (empty_memory t) k)" for k
    by (simp add: map_of_dict_set map_of_dict_update [OF assms(2)] e split: option.splits)
  then show "\<exists>s2. import_memory rt path s0 = (Inr (), s2)
             \<and> (\<forall>k. getitem (memory s2) k =
                      (if k = u ''updated_at'' then Inr (JStr (now_iso rt (clock s0)))
                       else case map_of d k of
                              Some v \<Rightarrow> Inr v
                            | None \<Rightarrow> getitem (empty_memory t) k))
             \<and> files s2 (MEMORY_FILE rt) = Some (Document (memory s2))"
    unfolding run by simp
qed

lemma agent_named_files:
  "files (snd (export_memory backup agent_named)) backup = Some (Document (memory agent_named))"
  by (simp add: export_memory_def)

theorem import_after_export_witness:
  "\<exists>s2. import_memory sample_runtime backup
            ((snd (export_memory backup agent_named))
               \<lparr>memory := empty_memory (sample_now 2), clock := 3\<rparr>) = (Inr (), s2)
       \<and> getitem (memory s2) (u ''updated_at'') = Inr (JStr (sample_now 3))
       \<and> getitem (memory s2) (u ''created_at'') = Inr (JStr (u ''2024-01-01T00:00:00''))
       \<and> profile_item (memory s2) (u ''name'') = Inr (JStr petya)"
proof -
  let ?d = "[(u ''user_profile'',
              JObj [(u ''name'', JStr petya), (u ''nickname'', JNull), (u ''age'', JNull),
                    (u ''location'', JNull), (u ''occupation'', JNull),
                    (u ''interests'', JList []), (u ''goals'', JList []),
                    (u ''preferences'', JObj [])]),
           (u ''facts'', JList []),
           (u ''conversations_summary'', JList []),
           (u ''important_dates'', JObj []),
           (u ''relationships'', JObj []),
           (u ''habits'', JList []),
           (u ''created_at'', JStr (u ''2024-01-01T00:00:00'')),
           (u ''updated_at'', JStr (sample_now 1))]"
  let ?s0 = "(snd (export_memory backup agent_named))
               \<lparr>memory := empty_memory (sample_now 2), clock := 3\<rparr>"
  have 1: "memory agent_named = JObj ?d" by (rule memory_agent_named)
  have 2: "distinct (map fst ?d)" by simp
  have 3: "memory ?s0 = empty_memory (sample_now 2)" by simp
  have 4: "files ?s0 backup = files (snd (export_memory backup agent_named)) backup" by simp
  from import_after_export [OF 1 2 3 4, of sample_runtime]
  obtain s2 where run: "import_memory sample_runtime backup ?s0 = (Inr (), s2)"
    and keys: "\<And>k. getitem (memory s2) k =
                      (if k = u ''updated_at'' then Inr (JStr (now_iso sample_runtime (clock ?s0)))
                       else case map_of ?d k of
                              Some v \<Rightarrow> Inr v
                            | None \<Rightarrow> getitem (empty_memory (sample_now 2)) k)"
    by blast
  have "getitem (memory s2) (u ''updated_at'') = Inr (JStr (sample_now 3))"
    and "getitem (memory s2) (u ''created_at'') = Inr (JStr (u ''2024-01-01T00:00:00''))"
    and "profile_item (memory s2) (u ''name'') = Inr (JStr petya)"
    by (simp_all add: keys profile_item_def ebind_def)
  with run show ?thesis by blast
qed

lemma agent_restored_memory:
  "memory agent_restored =
     JObj [(u ''user_profile'',
              JObj [(u ''name'', JStr petya), (u ''nickname'', JNull), (u ''age'', JNull),
                    (u ''location'', JNull), (u ''occupation'', JNull),
                    (u ''interests'', JList []), (u ''goals'', JList []),
                    (u ''preferences'', JObj [])]),
           (u ''facts'', JList []),
           (u ''conversations_summary'', JList []),
           (u ''important_dates'', JObj []),
           (u ''relationships'', JObj []),
           (u ''habits'', JList []),
           (u ''created_at'', JStr (u ''2024-01-01T00:00:00'')),
           (u ''updated_at'', JStr (sample_now 3))]"
  by (simp add: agent_restored_def import_memory_def export_memory_def memory_agent_named
        empty_memory_def save_memory_def dict_update_def)

text \<open>
  The claim as it is worded, with \<open>updated_at\<close> among the keys reproduced, fails: the
  exported memory was last updated at second 1, the imported one says second 3.
\<close>

theorem updated_at_counterexample:
  "getitem (memory agent_named) (u ''updated_at'') = Inr (JStr (sample_now 1))
   \<and> getitem (memory agent_restored) (u ''updated_at'') = Inr (JStr (sample_now 3))
   \<and> sample_now 3 \<noteq> sample_now 1
   \<and> memory agent_restored \<noteq> memory agent_named"
  by (simp add: memory_agent_named agent_restored_memory sample_now_def)

section \<open>The merge of profile updates\<close>

lemma merge_step:
  assumes "memory s = JObj m" and "map_of m (u ''user_profile'') = Some (JObj p)"
  shows "merge_updates rt ((field, v) # rest) updated s =
           (case written rt (map_of p field) field v of
              None \<Rightarrow> merge_updates rt rest updated s
            | Some v' \<Rightarrow> merge_updates rt rest True (profile_written rt field v' m p s))"
proof (cases "v = JNull \<or> map_of p field = None")
  case True
  then consider "v = JNull" | "v \<noteq> JNull" "map_of p field = None" by auto
  then show ?thesis
  proof cases
    case 1
    then show ?thesis
      using assms by (simp add: and_then_def memory_item_def written_def)
  next
    case 2
    then have "field \<notin> set (map fst p)"
      by (simp add: map_of_eq_None_iff)
    with 2 show ?thesis
      using assms by (simp add: and_then_def memory_item_def written_def)
  qed
next
  case False
  then obtain cur where cur: "map_of p field = Some cur" and v: "v \<noteq> JNull" by auto
  then have known: "field \<in> set (map fst p)"
    by (metis map_of_eq_None_iff option.distinct(1) set_map)
  show ?thesis
    using assms cur v known
    by (simp add: and_then_def memory_item_def lift_def written_def update_profile_known
          split: option.splits)
qed

lemma profile_written_memory:
  "\<exists>m'. memory (profile_written rt field v m p s) = JObj m'
        \<and> map_of m' (u ''user_profile'') = Some (JObj (dict_set field v p))"
  by (simp add: profile_written_def Let_def map_of_dict_set)

lemma merge_updates_merged:
  assumes "memory s = JObj m" and "map_of m (u ''user_profile'') = Some (JObj p)"
  shows "\<exists>s' m'. merge_updates rt updates updated s = (Inr (snd (merged rt updates (p, updated))), s')
           \<and> memory s' = JObj m'
           \<and> map_of m' (u ''user_profile'') = Some (JObj (fst (merged rt updates (p, updated))))"
  using assms
proof (induction updates arbitrary: s m p updated)
  case Nil
  then show ?case by (simp add: returns_def)
next
  case (Cons kv updates)
  obtain field v where kv: "kv = (field, v)" by (cases kv)
  show ?case
  proof (cases "written rt (map_of p field) field v")
    case None
    with Cons.IH [OF Cons.prems, of updated] show ?thesis
      by (simp add: kv merge_step [OF Cons.prems] del: merge_updates.simps)
  next
    case (Some v')
    from profile_written_memory [of rt field v' m p s] obtain m1
      where 1: "memory (profile_written rt field v' m p s) = JObj m1"
        and 2: "map_of m1 (u ''user_profile'') = Some (JObj (dict_set field v' p))"
      by blast
    from Cons.IH [OF 1 2, of True] Some show ?thesis
      by (simp add: kv merge_step [OF Cons.prems] del: merge_updates.simps)
  qed
qed


subsection \<open>The loop on the profile alone\<close>

lemma written_known:
  "written rt stored field v = Some v' \<Longrightarrow> \<exists>cur. stored = Some cur"
  by (cases stored) (simp_all add: written_def split: if_splits)

lemma merged_keys: "map fst (fst (merged rt updates (p, b))) = map fst p"
proof (induction updates arbitrary: p b)
  case Nil
  show ?case by simp
next
  case (Cons kv updates)
  obtain field v where kv: "kv = (field, v)" by (cases kv)
  show ?case
  proof (cases "written rt (map_of p field) field v")
    case None
    then show ?thesis by (simp add: kv Cons.IH)
  next
    case (Some v')
    from written_known [OF Some] have "field \<in> set (map fst p)"
      by (metis map_of_eq_None_iff option.distinct(1) set_map)
    with Some show ?thesis by (simp add: kv Cons.IH keys_dict_set)
  qed
qed

lemma merged_lookup:
  assumes "distinct (map fst updates)"
  shows "map_of (fst (merged rt updates (p, b))) k =
           (case map_of updates k of
              None \<Rightarrow> map_of p k
            | Some v \<Rightarrow> (case written rt (map_of p k) k v of
                          None \<Rightarrow> map_of p k
                        | Some v' \<Rightarrow> Some v'))"
  using assms
proof (induction updates arbitrary: p b k)
  case Nil
  show ?case by simp
next
  case (Cons kv updates)
  obtain field v where kv: "kv = (field, v)" by (cases kv)
  from Cons.prems have fresh: "map_of updates field = None" and rest: "distinct (map fst updates)"
    by (simp_all add: kv map_of_eq_None_iff)
  show ?case
  proof (cases "k = field")
    case True
    then show ?thesis
      by (simp add: kv Cons.IH [OF rest] fresh map_of_dict_set split: option.splits)
  next
    case False
    then show ?thesis
      by (simp add: kv Cons.IH [OF rest] map_of_dict_set split: option.splits)
  qed
qed

lemma merged_flag:
  assumes "distinct (map fst updates)"
  shows "snd (merged rt updates (p, b)) =
           (b \<or> (\<exists>(k, v)\<in>set updates. written rt (map_of p k) k v \<noteq> None))"
  using assms
proof (induction updates arbitrary: p b)
  case Nil
  show ?case by simp
next
  case (Cons kv updates)
  obtain field v where kv: "kv = (field, v)" by (cases kv)
  from Cons.prems have other: "\<And>k w. (k, w) \<in> set updates \<Longrightarrow> k \<noteq> field"
    by (force simp: kv)
  from Cons.prems have rest: "distinct (map fst updates)"
    by simp
  show ?case
  proof (cases "written rt (map_of p field) field v")
    case None
    then show ?thesis by (simp add: kv Cons.IH [OF rest])
  next
    case (Some v')
    then show ?thesis by (simp add: kv Cons.IH [OF rest])
  qed
qed

subsection \<open>Equality of values\<close>

lemma py_lookup_eq_member:
  "distinct (map fst b) \<Longrightarrow> (k, v) \<in> set b \<Longrightarrow> py_eq v v \<Longrightarrow> py_lookup_eq v k b"
  by (induction b) (auto, force)

lemma py_eq_refl_all:
  "wf_json v \<longrightarrow> py_eq v v"
  "wf_list xs \<longrightarrow> py_eq_list xs xs"
  "wf_dict d \<longrightarrow> (\<forall>b. distinct (map fst b) \<longrightarrow> set d \<subseteq> set b \<longrightarrow> py_sub_dict d b)"
  by (induction v and xs and d rule: wf_json_wf_list_wf_dict.induct)
     (auto simp: py_lookup_eq_member)

lemma py_eq_refl: "wf_json v \<Longrightarrow> py_eq v v"
  by (simp add: py_eq_refl_all)

lemma coerce_age_wf: "coerce_age rt field v = Some v' \<Longrightarrow> wf_json v \<Longrightarrow> wf_json v'"
  by (cases v) (auto simp: coerce_age_def split: if_splits option.splits)

lemma coerce_age_not_null: "coerce_age rt field v = Some v' \<Longrightarrow> v \<noteq> JNull \<Longrightarrow> v' \<noteq> JNull"
  by (cases v) (auto simp: coerce_age_def split: if_splits option.splits)

lemma written_differs:
  assumes "written rt (Some cur) field v = Some v'" and "wf_json v"
  shows "v' \<noteq> cur"
proof -
  from assms(1) have v: "v \<noteq> JNull" and c: "coerce_age rt field v = Some v'"
    and w: "cur = JNull \<or> \<not> py_eq cur v'"
    by (auto simp: written_def split: if_splits option.splits)
  from coerce_age_wf [OF c assms(2)] have "py_eq v' v'" by (rule py_eq_refl)
  with w coerce_age_not_null [OF c v] show ?thesis by auto
qed

section \<open>The profile merge policy\<close>

lemma memory_agent_ann:
  "memory agent_ann =
     JObj [(u ''user_profile'',
              JObj [(u ''name'', JStr (u ''Ann'')), (u ''nickname'', JNull), (u ''age'', JNull),
                    (u ''location'', JNull), (u ''occupation'', JNull),
                    (u ''interests'', JList []), (u ''goals'', JList []),
                    (u ''preferences'', JObj [])]),
           (u ''facts'', JList []),
           (u ''conversations_summary'', JList []),
           (u ''important_dates'', JObj []),
           (u ''relationships'', JObj []),
           (u ''habits'', JList []),
           (u ''created_at'', JStr (u ''2024-01-01T00:00:00'')),
           (u ''updated_at'', JStr (sample_now 1))]"
  by (simp add: agent_ann_def update_profile_def new_agent_def empty_memory_def and_then_def
        memory_item_def save_memory_def returns_def raises_def)

text \<open>
  Claim C4. Let the memory be a dict whose \<open>user_profile\<close> is a dict \<open>p\<close>, and let the
  updates be a dict of values as \<open>json.loads\<close> builds them. Then the merge returns, and
  when it has returned, every field of the profile holds what it held before, except
  the fields for which the updates have an entry that is not null, whose key the
  profile has, and whose value the stored value is null or differs from: such a field
  holds the value of the entry. A key that the profile does not have is still not in
  it. The merge returns \<open>True\<close> exactly when some field of the profile has changed.
\<close>

theorem profile_merge_policy:
  assumes "memory s = JObj m" and "map_of m (u ''user_profile'') = Some (JObj p)"
    and "distinct (map fst updates)" and "list_all (\<lambda>kv. wf_json (snd kv)) updates"
  shows "case merge_updates rt updates False s of
           (r, s') \<Rightarrow>
             (\<exists>updated. r = Inr updated
                \<and> updated = (\<exists>k. profile_item (memory s') k \<noteq> profile_item (memory s) k))
             \<and> (\<forall>k. profile_item (memory s') k =
                      (case map_of p k of
                         None \<Rightarrow> Inl KeyError
                       | Some cur \<Rightarrow>
                           Inr (case map_of updates k of
                                  None \<Rightarrow> cur
                                | Some v \<Rightarrow> (case written rt (Some cur) k v of
                                              None \<Rightarrow> cur
                                            | Some v' \<Rightarrow> v'))))"
proof -
  let ?p' = "fst (merged rt updates (p, False))"
  let ?b = "snd (merged rt updates (p, False))"
  from merge_updates_merged [OF assms(1,2), of rt updates False] obtain s' m'
    where run: "merge_updates rt updates False s = (Inr ?b, s')"
      and mem: "memory s' = JObj m'"
      and prof: "map_of m' (u ''user_profile'') = Some (JObj ?p')"
    by blast
  have before: "\<And>k. profile_item (memory s) k
                  = (case map_of p k of None \<Rightarrow> Inl KeyError | Some w \<Rightarrow> Inr w)"
    by (rule profile_item_dict [OF assms(1,2)])
  have after: "\<And>k. profile_item (memory s') k
                  = (case map_of ?p' k of None \<Rightarrow> Inl KeyError | Some w \<Rightarrow> Inr w)"
    by (rule profile_item_dict [OF mem prof])
  have look: "\<And>k. map_of ?p' k =
                 (case map_of updates k of
                    None \<Rightarrow> map_of p k
                  | Some v \<Rightarrow> (case written rt (map_of p k) k v of
                                None \<Rightarrow> map_of p k
                              | Some v' \<Rightarrow> Some v'))"
    by (rule merged_lookup [OF assms(3)])
  have flag: "?b = (\<exists>(k, v)\<in>set updates. written rt (map_of p k) k v \<noteq> None)"
    by (simp add: merged_flag [OF assms(3)])
  have fields: "\<And>k. profile_item (memory s') k =
                  (case map_of p k of
                     None \<Rightarrow> Inl KeyError
                   | Some cur \<Rightarrow>
                       Inr (case map_of updates k of
                              None \<Rightarrow> cur
                            | Some v \<Rightarrow> (case written rt (Some cur) k v of
                                          None \<Rightarrow> cur
                                        | Some v' \<Rightarrow> v')))"
    by (auto simp: after look split: option.splits dest: written_known)
  have changed: "?b = (\<exists>k. profile_item (memory s') k \<noteq> profile_item (memory s) k)"
  proof
    assume ?b
    with flag obtain k v v' where kv: "(k, v) \<in> set updates"
      and w: "written rt (map_of p k) k v = Some v'"
      by auto
    from written_known [OF w] obtain cur where cur: "map_of p k = Some cur" by blast
    from kv assms(3) have entry: "map_of updates k = Some v" by simp
    from kv assms(4) have "wf_json v" by (auto simp: list_all_iff)
    with w cur have "v' \<noteq> cur" by (auto dest: written_differs)
    with w cur entry have "profile_item (memory s') k \<noteq> profile_item (memory s) k"
      by (simp add: fields before)
    then show "\<exists>k. profile_item (memory s') k \<noteq> profile_item (memory s) k" ..
  next
    assume "\<exists>k. profile_item (memory s') k \<noteq> profile_item (memory s) k"
    then obtain k where k: "profile_item (memory s') k \<noteq> profile_item (memory s) k" ..
    then obtain cur v v' where "map_of p k = Some cur" "map_of updates k = Some v"
      "written rt (Some cur) k v = Some v'"
      by (auto simp: fields before split: option.splits)
    moreover from this have "(k, v) \<in> set updates" by (simp add: map_of_SomeD)
    ultimately show ?b by (auto simp: flag intro!: bexI [of _ "(k, v)"])
  qed
  from run changed fields show ?thesis by simp
qed

text \<open>
  The theorem at the profile whose name is Ann: the updates
  \<open>{name: "Ann", location: "Oslo"}\<close> change the location and nothing else, and the merge
  returns \<open>True\<close>; the updates \<open>{name: null}\<close> change nothing, and it returns \<open>False\<close>.
\<close>

theorem profile_merge_policy_witness:
  "(case merge_updates sample_runtime
           [(u ''name'', JStr (u ''Ann'')), (u ''location'', JStr (u ''Oslo''))] False agent_ann of
      (r, s') \<Rightarrow>
        r = Inr True
        \<and> (\<forall>k. profile_item (memory s') k =
                 (if k = u ''location'' then Inr (JStr (u ''Oslo''))
                  else profile_item (memory agent_ann) k)))
   \<and> (case merge_updates sample_runtime [(u ''name'', JNull)] False agent_ann of
        (r, s') \<Rightarrow>
          r = Inr False
          \<and> (\<forall>k. profile_item (memory s') k = profile_item (memory agent_ann) k))"
proof -
  let ?p = "[(u ''name'', JStr (u ''Ann'')), (u ''nickname'', JNull), (u ''age'', JNull),
             (u ''location'', JNull), (u ''occupation'', JNull),
             (u ''interests'', JList []), (u ''goals'', JList []),
             (u ''preferences'', JObj [])]"
  have shape: "map_of [(u ''user_profile'', JObj ?p),
           (u ''facts'', JList []),
           (u ''conversations_summary'', JList []),
           (u ''important_dates'', JObj []),
           (u ''relationships'', JObj []),
           (u ''habits'', JList []),
           (u ''created_at'', JStr (u ''2024-01-01T00:00:00'')),
           (u ''updated_at'', JStr (sample_now 1))] (u ''user_profile'') = Some (JObj ?p)"
    by simp
  have before: "\<And>k. profile_item (memory agent_ann) k
                  = (case map_of ?p k of None \<Rightarrow> Inl KeyError | Some w \<Rightarrow> Inr w)"
    by (rule profile_item_dict [OF memory_agent_ann shape])
  let ?u1 = "[(u ''name'', JStr (u ''Ann'')), (u ''location'', JStr (u ''Oslo''))]"
  let ?u2 = "[(u ''name'', JNull)]"
  have ok1: "distinct (map fst ?u1)" "list_all (\<lambda>kv. wf_json (snd kv)) ?u1"
    by simp_all
  have ok2: "distinct (map fst ?u2)" "list_all (\<lambda>kv. wf_json (snd kv)) ?u2"
    by simp_all
  note first = profile_merge_policy [OF memory_agent_ann shape ok1, of sample_runtime]
  note second = profile_merge_policy [OF memory_agent_ann shape ok2, of sample_runtime]
  obtain r1 s1 where run1: "merge_updates sample_runtime ?u1 False agent_ann = (r1, s1)"
    by (cases "merge_updates sample_runtime ?u1 False agent_ann")
  obtain r2 s2 where run2: "merge_updates sample_runtime ?u2 False agent_ann = (r2, s2)"
    by (cases "merge_updates sample_runtime ?u2 False agent_ann")
  from first run1
  have flag1: "\<exists>updated. r1 = Inr updated
          \<and> updated = (\<exists>k. profile_item (memory s1) k \<noteq> profile_item (memory agent_ann) k)"
    and fields1: "\<forall>k. profile_item (memory s1) k =
                   (if k = u ''location'' then Inr (JStr (u ''Oslo''))
                    else profile_item (memory agent_ann) k)"
    by (simp_all add: before written_def coerce_age_def)
  from second run2
  have flag2: "\<exists>updated. r2 = Inr updated
          \<and> updated = (\<exists>k. profile_item (memory s2) k \<noteq> profile_item (memory agent_ann) k)"
    and fields2: "\<forall>k. profile_item (memory s2) k = profile_item (memory agent_ann) k"
    by (simp_all add: before written_def coerce_age_def)
  have "profile_item (memory s1) (u ''location'') \<noteq> profile_item (memory agent_ann) (u ''location'')"
    by (simp add: fields1 before)
  with flag1 have "r1 = Inr True" by blast
  moreover from flag2 fields2 have "r2 = Inr False" by auto
  ultimately show ?thesis
    using fields1 fields2 unfolding run1 run2 by simp
qed


section \<open>An age that arrives as a string\<close>

lemma written_age_string:
  "written rt stored (u ''age'') (JStr t) =
     (case py_int rt t of
        None \<Rightarrow> None
      | Some n \<Rightarrow> written rt stored (u ''age'') (JInt n))"
  by (simp add: written_def coerce_age_def split: option.splits)

lemma merge_age_string:
  assumes "memory s = JObj m" and "map_of m (u ''user_profile'') = Some (JObj p)"
  shows "merge_updates rt ((u ''age'', JStr t) # later) updated s =
           merge_updates rt
             ((case py_int rt t of None \<Rightarrow> [] | Some n \<Rightarrow> [(u ''age'', JInt n)]) @ later)
             updated s"
  by (cases "py_int rt t")
     (simp_all add: merge_step [OF assms] written_age_string del: merge_updates.simps)

text \<open>
  Claim C8. Let the memory be a dict whose \<open>user_profile\<close> is a dict. An entry of the
  updates that gives the age as a string counts as the entry that gives it as the
  integer \<open>int\<close> makes of the string; when \<open>int\<close> raises \<open>ValueError\<close> it counts as no
  entry at all, and the entries before it and after it are merged as they are without
  it.
\<close>

theorem age_string_coercion:
  assumes "memory s = JObj m" and "map_of m (u ''user_profile'') = Some (JObj p)"
  shows "merge_updates rt (earlier @ (u ''age'', JStr t) # later) updated s =
           merge_updates rt
             (earlier @ (case py_int rt t of None \<Rightarrow> [] | Some n \<Rightarrow> [(u ''age'', JInt n)]) @ later)
             updated s"
  using assms
proof (induction earlier arbitrary: s m p updated)
  case Nil
  then show ?case by (simp add: merge_age_string del: merge_updates.simps)
next
  case (Cons kv earlier)
  obtain field v where kv: "kv = (field, v)" by (cases kv)
  show ?case
  proof (cases "written rt (map_of p field) field v")
    case None
    with Cons.IH [OF Cons.prems, of updated] show ?thesis
      by (simp add: kv merge_step [OF Cons.prems] del: merge_updates.simps)
  next
    case (Some v')
    from profile_written_memory [of rt field v' m p s] obtain m1
      where 1: "memory (profile_written rt field v' m p s) = JObj m1"
        and 2: "map_of m1 (u ''user_profile'') = Some (JObj (dict_set field v' p))"
      by blast
    from Cons.IH [OF 1 2, of True] Some show ?thesis
      by (simp add: kv merge_step [OF Cons.prems] del: merge_updates.simps)
  qed
qed

lemma new_agent_profile:
  "map_of [(u ''user_profile'',
              JObj [(u ''name'', JNull), (u ''nickname'', JNull), (u ''age'', JNull),
                    (u ''location'', JNull), (u ''occupation'', JNull),
                    (u ''interests'', JList []), (u ''goals'', JList []),
                    (u ''preferences'', JObj [])]),
           (u ''facts'', JList []),
           (u ''conversations_summary'', JList []),
           (u ''important_dates'', JObj []),
           (u ''relationships'', JObj []),
           (u ''habits'', JList []),
           (u ''created_at'', JStr (u ''2024-01-01T00:00:00'')),
           (u ''updated_at'', JNull)] (u ''user_profile'')
   = Some (JObj [(u ''name'', JNull), (u ''nickname'', JNull), (u ''age'', JNull),
                 (u ''location'', JNull), (u ''occupation'', JNull),
                 (u ''interests'', JList []), (u ''goals'', JList []),
                 (u ''preferences'', JObj [])])"
  by simp

lemma int_of_25: "sample_int (u ''25'') = Some 25"
  by (simp add: sample_int_def strip_ws_def int_space_def sample_isspace_def u_simps)

lemma int_of_twenty: "sample_int (u ''twenty'') = None"
  by (simp add: sample_int_def strip_ws_def int_space_def sample_isspace_def u_simps)

text \<open>
  The theorem at a new agent: the updates \<open>{age: "25"}\<close> store the integer 25; the
  updates \<open>{age: "twenty", location: "Oslo"}\<close> leave the age as it was and store the
  location.
\<close>

theorem age_string_coercion_witness:
  "profile_item
     (memory (snd (merge_updates sample_runtime [(u ''age'', JStr (u ''25''))] False new_agent)))
     (u ''age'') = Inr (JInt 25)
   \<and> (let s' = snd (merge_updates sample_runtime
                      [(u ''age'', JStr (u ''twenty'')), (u ''location'', JStr (u ''Oslo''))]
                      False new_agent)
      in profile_item (memory s') (u ''age'') = Inr JNull
         \<and> profile_item (memory s') (u ''location'') = Inr (JStr (u ''Oslo'')))"
proof -
  note shape = new_agent_memory new_agent_profile
  have "merge_updates sample_runtime [(u ''age'', JStr (u ''25''))] False new_agent
          = merge_updates sample_runtime [(u ''age'', JInt 25)] False new_agent"
    using age_string_coercion [OF shape, of sample_runtime "[]" "u ''25''" "[]" False]
    by (simp add: int_of_25 del: merge_updates.simps)
  moreover
  have "merge_updates sample_runtime
          [(u ''age'', JStr (u ''twenty'')), (u ''location'', JStr (u ''Oslo''))] False new_agent
          = merge_updates sample_runtime [(u ''location'', JStr (u ''Oslo''))] False new_agent"
    using age_string_coercion [OF shape, of sample_runtime "[]" "u ''twenty''"
            "[(u ''location'', JStr (u ''Oslo''))]" False]
    by (simp add: int_of_twenty del: merge_updates.simps)
  ultimately show ?thesis
    by (simp add: merge_step [OF shape] written_def coerce_age_def returns_def
          profile_item_written Let_def del: merge_updates.simps(2))
qed

section \<open>Two answers of the model, parsed\<close>

lemma answering_fields [simp]:
  "py_int (answering a) = sample_int" "json_loads (answering a) = sample_loads"
  "now_iso (answering a) = sample_now" "post (answering a) = (\<lambda>n req. Content a)"
  "MEMORY_FILE (answering a) = u ''/home/user/.personal_agent/memory.json''"
  by (simp_all add: answering_def sample_runtime_def)

text \<open>The facts in an answer that wraps the list in prose: the empty string and the
  number are dropped.\<close>

lemma parse_facts_example:
  "parse_facts sample_runtime (u ''Facts: [\"likes jazz\", \"\", 5] .'') = [u ''likes jazz'']"
  by (simp add: parse_facts_def parse_facts_try_def py_rfind_def slice_def sample_loads_def
        u_simps Let_def)

text \<open>
  A whole call of \<open>update_profile_from_facts\<close> on a new agent, the model answering
  with an age in quotes: the age is stored as the integer, the location as it is, and
  the call returns \<open>True\<close>.
\<close>

lemma profile_updates_example:
  "profile_updates_try rt (u ''Profile: {\"age\": \"25\", \"location\": \"Oslo\"}'') s =
     (case json_loads rt (u ''{\"age\": \"25\", \"location\": \"Oslo\"}'') of
        None \<Rightarrow> raises ValueError s
      | Some profile_updates \<Rightarrow>
          and_then (lift (items profile_updates)) (\<lambda>kvs.
            and_then (merge_updates rt kvs False) (\<lambda>updated. returns (Some updated))) s)"
  by (simp add: profile_updates_try_def py_rfind_def slice_def u_simps Let_def
        split: option.splits)

lemma update_profile_from_facts_example:
  "case update_profile_from_facts
          (answering (u ''Profile: {\"age\": \"25\", \"location\": \"Oslo\"}''))
          [u ''I am 25 and live in Oslo''] new_agent of
     (r, s') \<Rightarrow>
       r = Inr True
       \<and> profile_item (memory s') (u ''age'') = Inr (JInt 25)
       \<and> profile_item (memory s') (u ''location'') = Inr (JStr (u ''Oslo''))
       \<and> profile_item (memory s') (u ''name'') = Inr JNull"
proof -
  let ?rt = "answering (u ''Profile: {\"age\": \"25\", \"location\": \"Oslo\"}'')"
  let ?s = "new_agent\<lparr>calls := Suc (calls new_agent)\<rparr>"
  let ?p = "[(u ''name'', JNull), (u ''nickname'', JNull), (u ''age'', JNull),
             (u ''location'', JNull), (u ''occupation'', JNull),
             (u ''interests'', JList []), (u ''goals'', JList []),
             (u ''preferences'', JObj [])]"
  let ?updates = "[(u ''age'', JStr (u ''25'')), (u ''location'', JStr (u ''Oslo''))]"
  have shape: "memory ?s = memory new_agent"
    by simp
  note at = new_agent_memory [folded shape] new_agent_profile
  from merge_updates_merged [OF at, of ?rt ?updates False] obtain s' m'
    where run: "merge_updates ?rt ?updates False ?s = (Inr (snd (merged ?rt ?updates (?p, False))), s')"
      and mem: "memory s' = JObj m'"
      and prof: "map_of m' (u ''user_profile'') = Some (JObj (fst (merged ?rt ?updates (?p, False))))"
    by blast
  have loop: "merged ?rt ?updates (?p, False) =
                ([(u ''name'', JNull), (u ''nickname'', JNull), (u ''age'', JInt 25),
                  (u ''location'', JStr (u ''Oslo'')), (u ''occupation'', JNull),
                  (u ''interests'', JList []), (u ''goals'', JList []),
                  (u ''preferences'', JObj [])], True)"
    by (simp add: written_def coerce_age_def int_of_25)
  have "update_profile_from_facts ?rt [u ''I am 25 and live in Oslo''] new_agent = (Inr True, s')"
    by (simp add: update_profile_from_facts_def action_defs new_agent_memory chat_with_model_def
          profile_updates_example sample_loads_def run loop del: merge_updates.simps merged.simps)
  with profile_item_dict [OF mem prof] show ?thesis
    by (simp add: loop del: merged.simps)
qed

section \<open>The pattern strategy\<close>

lemma scan_patterns_first_accepted:
  "list_all sets_group ps \<Longrightarrow> scan_patterns rt n ps msg = Inr (first_accepted rt (Suc n) ps msg)"
proof (induction ps)
  case Nil
  show ?case by (simp add: first_accepted_def candidates_def)
next
  case (Cons p ps)
  then have grp: "re_search rt p msg \<noteq> Some None" and tl: "list_all sets_group ps"
    by (simp_all add: re_search_group)
  from Cons.IH [OF tl] have IH: "scan_patterns rt n ps msg = Inr (first_accepted rt (Suc n) ps msg)" .
  show ?case
  proof (cases "re_search rt p msg")
    case None
    then show ?thesis
      using IH by (simp add: first_accepted_def candidates_def)
  next
    case (Some og)
    with grp obtain g where g: "re_search rt p msg = Some (Some g)" by (cases og) auto
    then show ?thesis
      using IH by (auto simp: first_accepted_def candidates_def Let_def Suc_le_eq)
  qed
qed

lemma py_eq_string: "py_eq cur (JStr c) = (cur = JStr c)"
  by (cases cur) auto

lemma store_found_dict:
  assumes "memory s = JObj m" and "map_of m (u ''user_profile'') = Some (JObj p)"
  shows "store_found rt key found s =
           (Inr (found_new (map_of p key) found),
            case found of
              None \<Rightarrow> s
            | Some c \<Rightarrow> if found_new (map_of p key) found \<and> key \<in> set (map fst p)
                        then profile_written rt key (JStr c) m p s else s)"
proof (cases found)
  case None
  then show ?thesis by (simp add: store_found_def found_new_def returns_def)
next
  case (Some c)
  show ?thesis
  proof (cases "key \<in> set (map fst p)")
    case True
    then obtain cur where cur: "map_of p key = Some cur"
      by (metis map_of_eq_None_iff not_Some_eq set_map)
    have "truthy (JStr c) = (c \<noteq> [])" by simp
    then have same: "c \<noteq> [] \<Longrightarrow> cur = JStr c \<Longrightarrow> truthy cur" by simp
    show ?thesis
      using assms Some cur True same
      by (auto simp: store_found_def found_new_def action_defs py_eq_string
            update_profile_known)
  next
    case False
    then have none: "map_of p key = None" by (simp add: map_of_eq_None_iff)
    show ?thesis
      using assms Some none False
      by (simp add: store_found_def found_new_def action_defs update_profile_unknown)
  qed
qed

lemma store_found_fields:
  assumes "memory s = JObj m" and "map_of m (u ''user_profile'') = Some (JObj p)"
  shows "\<exists>s1 m1 p1. store_found rt key found s = (Inr (found_new (map_of p key) found), s1)
           \<and> memory s1 = JObj m1 \<and> map_of m1 (u ''user_profile'') = Some (JObj p1)
           \<and> (\<forall>k. map_of p1 k =
                    (case map_of p k of
                       None \<Rightarrow> None
                     | Some cur \<Rightarrow> Some (if k = key then field_after cur found else cur)))
           \<and> (\<not> found_new (map_of p key) found \<longrightarrow> s1 = s)"
proof (cases "found_new (map_of p key) found \<and> key \<in> set (map fst p)")
  case True
  then obtain c where c: "found = Some c" "c \<noteq> []"
    by (auto simp: found_new_def split: option.splits)
  from True obtain cur where cur: "map_of p key = Some cur"
    by (metis map_of_eq_None_iff not_Some_eq set_map)
  from profile_written_memory [of rt key "JStr c" m p s] obtain m1
    where 1: "memory (profile_written rt key (JStr c) m p s) = JObj m1"
      and 2: "map_of m1 (u ''user_profile'') = Some (JObj (dict_set key (JStr c) p))"
    by blast
  have 3: "\<forall>k. map_of (dict_set key (JStr c) p) k =
                    (case map_of p k of
                       None \<Rightarrow> None
                     | Some cur \<Rightarrow> Some (if k = key then field_after cur found else cur))"
    using c cur by (simp add: map_of_dict_set field_after_def split: option.splits)
  have "store_found rt key found s
          = (Inr (found_new (map_of p key) found), profile_written rt key (JStr c) m p s)"
    using True c by (simp add: store_found_dict [OF assms])
  with 1 2 3 True show ?thesis by blast
next
  case False
  have 3: "\<forall>k. map_of p k =
                    (case map_of p k of
                       None \<Rightarrow> None
                     | Some cur \<Rightarrow> Some (if k = key then field_after cur found else cur))"
  proof
    fix k
    show "map_of p k =
            (case map_of p k of
               None \<Rightarrow> None
             | Some cur \<Rightarrow> Some (if k = key then field_after cur found else cur))"
    proof (cases "map_of p k")
      case None
      then show ?thesis by simp
    next
      case (Some cur)
      then have "k \<in> set (map fst p)"
        by (metis map_of_eq_None_iff option.distinct(1) set_map)
      with False Some show ?thesis
        by (auto simp: found_new_def field_after_def split: option.splits)
    qed
  qed
  have "store_found rt key found s = (Inr (found_new (map_of p key) found), s)"
    using False by (auto simp: store_found_dict [OF assms] split: option.splits)
  with assms 3 show ?thesis by blast
qed

lemma pattern_names_dict:
  assumes "memory s = JObj m" and "map_of m (u ''user_profile'') = Some (JObj p)"
  shows "case pattern_names rt user_message s of
           (r, s') \<Rightarrow>
             (let msg = strip_ws (py_isspace rt) (py_lower rt user_message);
                  name = first_accepted rt 3 name_patterns msg;
                  nickname = first_accepted rt 2 nickname_patterns msg
              in r = Inr (found_new (map_of p (u ''name'')) name
                          \<or> found_new (map_of p (u ''nickname'')) nickname)
                 \<and> (\<forall>k. profile_item (memory s') k =
                          (case map_of p k of
                             None \<Rightarrow> Inl KeyError
                           | Some cur \<Rightarrow>
                               Inr (if k = u ''name'' then field_after cur name
                                    else if k = u ''nickname'' then field_after cur nickname
                                    else cur)))
                 \<and> (\<not> found_new (map_of p (u ''name'')) name
                    \<and> \<not> found_new (map_of p (u ''nickname'')) nickname \<longrightarrow> s' = s))"
proof -
  let ?msg = "strip_ws (py_isspace rt) (py_lower rt user_message)"
  let ?name = "first_accepted rt 3 name_patterns ?msg"
  let ?nick = "first_accepted rt 2 nickname_patterns ?msg"
  have scans: "scan_patterns rt 2 name_patterns ?msg = Inr ?name"
    "scan_patterns rt 1 nickname_patterns ?msg = Inr ?nick"
    using scan_patterns_first_accepted [OF program_patterns_group(1), of rt 2 ?msg]
      scan_patterns_first_accepted [OF program_patterns_group(2), of rt 1 ?msg]
    by (simp_all add: numeral_3_eq_3 numeral_2_eq_2)
  from store_found_fields [OF assms, of rt "u ''name''" ?name] obtain s1 m1 p1
    where first: "store_found rt (u ''name'') ?name s
                    = (Inr (found_new (map_of p (u ''name'')) ?name), s1)"
      and shape1: "memory s1 = JObj m1" "map_of m1 (u ''user_profile'') = Some (JObj p1)"
      and p1: "\<forall>k. map_of p1 k =
                 (case map_of p k of
                    None \<Rightarrow> None
                  | Some cur \<Rightarrow> Some (if k = u ''name'' then field_after cur ?name else cur))"
      and same1: "\<not> found_new (map_of p (u ''name'')) ?name \<longrightarrow> s1 = s"
    by blast
  from store_found_fields [OF shape1, of rt "u ''nickname''" ?nick] obtain s2 m2 p2
    where second: "store_found rt (u ''nickname'') ?nick s1
                    = (Inr (found_new (map_of p1 (u ''nickname'')) ?nick), s2)"
      and shape2: "memory s2 = JObj m2" "map_of m2 (u ''user_profile'') = Some (JObj p2)"
      and p2: "\<forall>k. map_of p2 k =
                 (case map_of p1 k of
                    None \<Rightarrow> None
                  | Some cur \<Rightarrow> Some (if k = u ''nickname'' then field_after cur ?nick else cur))"
      and same2: "\<not> found_new (map_of p1 (u ''nickname'')) ?nick \<longrightarrow> s2 = s1"
    by blast
  have nick1: "map_of p1 (u ''nickname'') = map_of p (u ''nickname'')"
    by (simp add: p1 split: option.splits)
  have run: "pattern_names rt user_message s
               = (Inr (found_new (map_of p (u ''name'')) ?name
                       \<or> found_new (map_of p (u ''nickname'')) ?nick), s2)"
    using scans first second
    by (simp add: pattern_names_def Let_def and_then_def lift_def returns_def nick1)
  have fields: "\<forall>k. profile_item (memory s2) k =
                  (case map_of p k of
                     None \<Rightarrow> Inl KeyError
                   | Some cur \<Rightarrow>
                       Inr (if k = u ''name'' then field_after cur ?name
                            else if k = u ''nickname'' then field_after cur ?nick
                            else cur))"
    by (simp add: profile_item_dict [OF shape2] p2 p1 split: option.splits)
  have same: "\<not> found_new (map_of p (u ''name'')) ?name
                \<and> \<not> found_new (map_of p (u ''nickname'')) ?nick \<longrightarrow> s2 = s"
    using same1 same2 nick1 by simp
  from fields same show ?thesis
    by (simp add: run Let_def)
qed

lemma scan_my_name_is_yan:
  "scan_patterns sample_runtime 2 name_patterns
     (strip_ws sample_isspace (map lower_char (my_name_is yan))) = Inr None"
  "scan_patterns sample_runtime (Suc 0) nickname_patterns
     (strip_ws sample_isspace (map lower_char (my_name_is yan))) = Inr None"
  by (simp_all add: my_name_is_def yan_def name_patterns_def nickname_patterns_def word_defs
        sample_defs strip_ws_def name_stop_words_def)

lemma scan_moya_vasya:
  "scan_patterns sample_runtime 2 name_patterns
     (strip_ws sample_isspace (map lower_char moya_vasya)) = Inr (Some vasya)"
  "scan_patterns sample_runtime (Suc 0) nickname_patterns
     (strip_ws sample_isspace (map lower_char moya_vasya)) = Inr None"
  by (simp_all add: moya_vasya_def moya_def vasya_def name_patterns_def nickname_patterns_def
        word_defs sample_defs strip_ws_def name_stop_words_def)

lemma first_accepted_sample:
  "first_accepted sample_runtime 3 name_patterns msg
     = (case scan_patterns sample_runtime 2 name_patterns msg of Inr r \<Rightarrow> r | Inl e \<Rightarrow> None)"
  "first_accepted sample_runtime 2 nickname_patterns msg
     = (case scan_patterns sample_runtime (Suc 0) nickname_patterns msg of Inr r \<Rightarrow> r | Inl e \<Rightarrow> None)"
  using scan_patterns_first_accepted [OF program_patterns_group(1), of sample_runtime 2 msg]
    scan_patterns_first_accepted [OF program_patterns_group(2), of sample_runtime "Suc 0" msg]
  by (simp_all add: numeral_3_eq_3 numeral_2_eq_2)

lemma agent_named_profile:
  "map_of [(u ''user_profile'',
              JObj [(u ''name'', JStr petya), (u ''nickname'', JNull), (u ''age'', JNull),
                    (u ''location'', JNull), (u ''occupation'', JNull),
                    (u ''interests'', JList []), (u ''goals'', JList []),
                    (u ''preferences'', JObj [])]),
           (u ''facts'', JList []),
           (u ''conversations_summary'', JList []),
           (u ''important_dates'', JObj []),
           (u ''relationships'', JObj []),
           (u ''habits'', JList []),
           (u ''created_at'', JStr (u ''2024-01-01T00:00:00'')),
           (u ''updated_at'', JStr (sample_now 1))] (u ''user_profile'')
   = Some (JObj [(u ''name'', JStr petya), (u ''nickname'', JNull), (u ''age'', JNull),
                 (u ''location'', JNull), (u ''occupation'', JNull),
                 (u ''interests'', JList []), (u ''goals'', JList []),
                 (u ''preferences'', JObj [])])"
  by simp

text \<open>
  Claim C3, as the code has it. Let the memory be a dict whose \<open>user_profile\<close> is a
  dict. The pattern strategy looks for a name among the name patterns and for a nickname
  among the nickname patterns. In each list the patterns are tried in order and the
  first one whose match is accepted wins. A match is rejected when its lower case is a
  stop word, or when it is too short: shorter than 3 characters for a name, shorter than
  2 characters for a nickname. A field for which a match was accepted holds it
  afterwards, capitalized; a field for which none was accepted holds what it held; no
  other field changes. The result is \<open>True\<close> when something was found for the name or
  the nickname that the profile did not hold; otherwise nothing at all is written.
\<close>

theorem pattern_names_first_accepted:
  assumes "memory s = JObj m" and "map_of m (u ''user_profile'') = Some (JObj p)"
  shows "case pattern_names rt user_message s of
           (r, s') \<Rightarrow>
             (let msg = strip_ws (py_isspace rt) (py_lower rt user_message);
                  name = first_accepted rt 3 name_patterns msg;
                  nickname = first_accepted rt 2 nickname_patterns msg
              in r = Inr (found_new (map_of p (u ''name'')) name
                          \<or> found_new (map_of p (u ''nickname'')) nickname)
                 \<and> (\<forall>k. profile_item (memory s') k =
                          (case map_of p k of
                             None \<Rightarrow> Inl KeyError
                           | Some cur \<Rightarrow>
                               Inr (if k = u ''name'' then field_after cur name
                                    else if k = u ''nickname'' then field_after cur nickname
                                    else cur)))
                 \<and> (\<not> found_new (map_of p (u ''name'')) name
                    \<and> \<not> found_new (map_of p (u ''nickname'')) nickname \<longrightarrow> s' = s))"
  by (rule pattern_names_dict [OF assms])

text \<open>
  The theorem at a new agent. "zovi menya Yan" (call me Yan) stores the nickname "Yan",
  of two characters, and leaves the name empty; "menya zovut Yan" (my name is Yan)
  stores nothing, a name of two characters being too short.
\<close>

theorem pattern_names_first_accepted_witness:
  "length yan = 2
   \<and> (case pattern_names sample_runtime (call_me yan) new_agent of
        (r, s') \<Rightarrow>
          r = Inr True
          \<and> profile_item (memory s') (u ''nickname'') = Inr (JStr yan)
          \<and> profile_item (memory s') (u ''name'') = Inr JNull)
   \<and> pattern_names sample_runtime (my_name_is yan) new_agent = (Inr False, new_agent)"
proof -
  note call = pattern_names_first_accepted [OF new_agent_memory new_agent_profile,
      of sample_runtime "call_me yan"]
  note name = pattern_names_first_accepted [OF new_agent_memory new_agent_profile,
      of sample_runtime "my_name_is yan"]
  obtain r1 s1 where run1: "pattern_names sample_runtime (call_me yan) new_agent = (r1, s1)"
    by (cases "pattern_names sample_runtime (call_me yan) new_agent")
  obtain r2 s2 where run2: "pattern_names sample_runtime (my_name_is yan) new_agent = (r2, s2)"
    by (cases "pattern_names sample_runtime (my_name_is yan) new_agent")
  from call have "r1 = Inr True
      \<and> profile_item (memory s1) (u ''nickname'') = Inr (JStr yan)
      \<and> profile_item (memory s1) (u ''name'') = Inr JNull"
    by (simp add: run1 first_accepted_sample scan_yan found_new_def field_after_def)
  moreover from name have "r2 = Inr False \<and> s2 = new_agent"
    by (simp add: run2 first_accepted_sample scan_my_name_is_yan found_new_def)
  moreover have "length yan = 2" by (simp add: yan_def)
  ultimately show ?thesis by (simp add: run1 run2)
qed

text \<open>
  The claim as it is worded, with the bound of 3 characters for both lists, fails for the
  nickname: "zovi menya Yan" (call me Yan) stores the two-letter nickname "Yan".
\<close>

theorem two_letter_nickname_counterexample:
  "length yan < 3
   \<and> fst (extract_name_directly sample_runtime (call_me yan) new_agent) = Inr True
   \<and> profile_item (memory (snd (extract_name_directly sample_runtime (call_me yan) new_agent)))
       (u ''nickname'') = Inr (JStr yan)"
  by (simp add: extract_yan) (simp add: yan_def)

section \<open>The name in a short message, and after it the patterns\<close>

lemma extract_name_patterns:
  assumes "memory s = JObj m" and "map_of m (u ''user_profile'') = Some (JObj p)"
    and "short_message_name rt user_message (JObj p) = Inr None"
  shows "extract_name_directly rt user_message s = pattern_names rt user_message s"
  using assms
  by (simp add: extract_name_directly_def and_then_def memory_item_def lift_def)

lemma short_message_name_held:
  assumes "(\<exists>n. map_of p (u ''name'') = Some n \<and> truthy n)
           \<or> (\<exists>n. map_of p (u ''nickname'') = Some n \<and> truthy n)"
  shows "short_message_name rt user_message (JObj p) = Inr None"
  using assms
  by (auto simp: short_message_name_def ebind_def Let_def split: option.splits)

lemma short_moya_vasya:
  "short_message_name sample_runtime moya_vasya
     (JObj [(u ''name'', JNull), (u ''nickname'', JNull), (u ''age'', JNull),
            (u ''location'', JNull), (u ''occupation'', JNull),
            (u ''interests'', JList []), (u ''goals'', JList []),
            (u ''preferences'', JObj [])]) = Inr (Some moya)"
  by (simp add: short_message_name_def moya_vasya_def moya_def vasya_def ebind_def
        looks_like_name_def str_isalpha_def strip_ws_def sample_defs name_stop_words_def)

text \<open>
  Claim C9, as the code has it. Let the memory be a dict whose \<open>user_profile\<close> is a
  dict. The test on a short message takes the first word as the name exactly when the
  message has at most two words, the first word starts with an upper-case letter, is all
  letters, has at least two characters, is not a stop word, and the profile holds no
  name and no nickname, where a field holds nothing when its value is \<open>None\<close> or
  empty (the code tests \<open>not profile.get(\<dots>)\<close>). When it does, on a profile that has
  the field, \<open>_extract_name_directly\<close> returns \<open>True\<close> and the name is that word,
  every other field being as before. On a profile that holds a name or a nickname it
  never does; the message then goes through the pattern strategy, and the name
  afterwards is the one a name pattern found in it, or the name the profile held when
  no match of a name pattern was accepted.
\<close>

theorem short_message_then_patterns:
  assumes "memory s = JObj m" and "map_of m (u ''user_profile'') = Some (JObj p)"
  shows "((short_message_name rt user_message (JObj p) = Inr (Some w)) =
            ((\<exists>ws. split_ws (py_isspace rt) [] user_message = w # ws \<and> length (w # ws) \<le> 2)
             \<and> py_isupper rt (hd w) \<and> str_isalpha rt w \<and> 2 \<le> length w
             \<and> py_lower rt w \<notin> set name_stop_words
             \<and> (\<exists>n. get_method (JObj p) (u ''name'') = Inr n \<and> \<not> truthy n)
             \<and> (\<exists>k. get_method (JObj p) (u ''nickname'') = Inr k \<and> \<not> truthy k)))
         \<and> (short_message_name rt user_message (JObj p) = Inr (Some w)
              \<and> u ''name'' \<in> set (map fst p)
            \<longrightarrow> fst (extract_name_directly rt user_message s) = Inr True
                \<and> (\<forall>k. profile_item (memory (snd (extract_name_directly rt user_message s))) k
                        = (if k = u ''name'' then Inr (JStr w) else profile_item (memory s) k)))
         \<and> ((\<exists>n. map_of p (u ''name'') = Some n \<and> truthy n)
              \<or> (\<exists>n. map_of p (u ''nickname'') = Some n \<and> truthy n)
            \<longrightarrow> short_message_name rt user_message (JObj p) = Inr None
                \<and> extract_name_directly rt user_message s = pattern_names rt user_message s
                \<and> (\<forall>cur. map_of p (u ''name'') = Some cur \<longrightarrow>
                      profile_item (memory (snd (extract_name_directly rt user_message s)))
                          (u ''name'')
                        = Inr (field_after cur
                                 (first_accepted rt 3 name_patterns
                                    (strip_ws (py_isspace rt) (py_lower rt user_message))))))"
proof (intro conjI impI)
  show "(short_message_name rt user_message (JObj p) = Inr (Some w)) =
            ((\<exists>ws. split_ws (py_isspace rt) [] user_message = w # ws \<and> length (w # ws) \<le> 2)
             \<and> py_isupper rt (hd w) \<and> str_isalpha rt w \<and> 2 \<le> length w
             \<and> py_lower rt w \<notin> set name_stop_words
             \<and> (\<exists>n. get_method (JObj p) (u ''name'') = Inr n \<and> \<not> truthy n)
             \<and> (\<exists>k. get_method (JObj p) (u ''nickname'') = Inr k \<and> \<not> truthy k))"
    by (rule short_message_name_fires)
next
  assume a: "short_message_name rt user_message (JObj p) = Inr (Some w)
              \<and> u ''name'' \<in> set (map fst p)"
  then have a3: "u ''name'' \<in> set (map fst p)"
    and a4: "short_message_name rt user_message (JObj p) = Inr (Some w)"
    by simp_all
  have run: "extract_name_directly rt user_message s
           = (Inr True, profile_written rt (u ''name'') (JStr w) m p s)"
    by (rule extract_name_short [OF assms a3 a4])
  then show "fst (extract_name_directly rt user_message s) = Inr True" by simp
  have "profile_item (memory s) k
      = (case map_of p k of None \<Rightarrow> Inl KeyError | Some w \<Rightarrow> Inr w)" for k
    by (rule profile_item_dict [OF assms])
  then show "\<forall>k. profile_item (memory (snd (extract_name_directly rt user_message s))) k
                  = (if k = u ''name'' then Inr (JStr w) else profile_item (memory s) k)"
    by (simp add: run profile_item_written)
next
  assume held: "(\<exists>n. map_of p (u ''name'') = Some n \<and> truthy n)
              \<or> (\<exists>n. map_of p (u ''nickname'') = Some n \<and> truthy n)"
  then show none: "short_message_name rt user_message (JObj p) = Inr None"
    by (rule short_message_name_held)
  then show run: "extract_name_directly rt user_message s = pattern_names rt user_message s"
    by (rule extract_name_patterns [OF assms])
  from pattern_names_dict [OF assms, of rt user_message]
  show "\<forall>cur. map_of p (u ''name'') = Some cur \<longrightarrow>
                      profile_item (memory (snd (extract_name_directly rt user_message s)))
                          (u ''name'')
                        = Inr (field_after cur
                                 (first_accepted rt 3 name_patterns
                                    (strip_ws (py_isspace rt) (py_lower rt user_message))))"
    by (auto simp: run Let_def split: prod.splits)
qed

text \<open>
  The theorem at the message "Vasya": on a new agent the name becomes "Vasya"; on the
  agent named "Petya" the message goes through the patterns, none of which matches, and
  the name stays "Petya".
\<close>

theorem short_message_then_patterns_witness:
  "fst (extract_name_directly sample_runtime vasya new_agent) = Inr True
   \<and> profile_item (memory (snd (extract_name_directly sample_runtime vasya new_agent)))
        (u ''name'') = Inr (JStr vasya)
   \<and> extract_name_directly sample_runtime vasya agent_named
        = pattern_names sample_runtime vasya agent_named
   \<and> profile_item (memory (snd (extract_name_directly sample_runtime vasya agent_named)))
        (u ''name'') = Inr (JStr petya)"
proof -
  note new = short_message_then_patterns [OF new_agent_memory new_agent_profile,
      of sample_runtime vasya vasya]
  note named = short_message_then_patterns [OF memory_agent_named agent_named_profile,
      of sample_runtime vasya vasya]
  from new short_vasya_new
  have "fst (extract_name_directly sample_runtime vasya new_agent) = Inr True
     \<and> (\<forall>k. profile_item (memory (snd (extract_name_directly sample_runtime vasya new_agent))) k
                  = (if k = u ''name'' then Inr (JStr vasya) else profile_item (memory new_agent) k))"
    by simp
  moreover
  have "truthy (JStr petya)" by (simp add: petya_def)
  then have held:
    "(\<exists>n. map_of [(u ''name'', JStr petya), (u ''nickname'', JNull), (u ''age'', JNull),
                      (u ''location'', JNull), (u ''occupation'', JNull),
                      (u ''interests'', JList []), (u ''goals'', JList []),
                      (u ''preferences'', JObj [])] (u ''name'') = Some n \<and> truthy n)
     \<or> (\<exists>n. map_of [(u ''name'', JStr petya), (u ''nickname'', JNull), (u ''age'', JNull),
                      (u ''location'', JNull), (u ''occupation'', JNull),
                      (u ''interests'', JList []), (u ''goals'', JList []),
                      (u ''preferences'', JObj [])] (u ''nickname'') = Some n \<and> truthy n)"
    by simp
  note after = mp [OF named [THEN conjunct2, THEN conjunct2] held]
  from after
  have "extract_name_directly sample_runtime vasya agent_named
          = pattern_names sample_runtime vasya agent_named"
    by (rule conjunct2 [THEN conjunct1])
  moreover
  have "map_of [(u ''name'', JStr petya), (u ''nickname'', JNull), (u ''age'', JNull),
                (u ''location'', JNull), (u ''occupation'', JNull),
                (u ''interests'', JList []), (u ''goals'', JList []),
                (u ''preferences'', JObj [])] (u ''name'') = Some (JStr petya)"
    by simp
  with after [THEN conjunct2, THEN conjunct2]
  have "profile_item (memory (snd (extract_name_directly sample_runtime vasya agent_named)))
          (u ''name'')
        = Inr (field_after (JStr petya)
                 (first_accepted sample_runtime 3 name_patterns
                    (strip_ws (py_isspace sample_runtime) (py_lower sample_runtime vasya))))"
    by blast
  then
  have "profile_item (memory (snd (extract_name_directly sample_runtime vasya agent_named)))
          (u ''name'') = Inr (JStr petya)"
    by (simp add: first_accepted_sample scan_vasya field_after_def)
  ultimately show ?thesis by simp
qed

text \<open>
  The claim as it is worded, the same utterance leaving the name of a named profile
  unchanged, fails for "Moya Vasya," (my Vasya,). It has two words, and its first word
  passes every test of the short message: on a new agent the name becomes "Moya". On the
  agent named "Petya" the test is skipped, the last name pattern finds "vasya" after the
  letter that ends "moya", and the name "Petya" is overwritten with "Vasya".
\<close>

theorem named_profile_overwritten_counterexample:
  "fst (extract_name_directly sample_runtime moya_vasya new_agent) = Inr True
   \<and> profile_item (memory (snd (extract_name_directly sample_runtime moya_vasya new_agent)))
        (u ''name'') = Inr (JStr moya)
   \<and> profile_item (memory agent_named) (u ''name'') = Inr (JStr petya)
   \<and> fst (extract_name_directly sample_runtime moya_vasya agent_named) = Inr True
   \<and> profile_item (memory (snd (extract_name_directly sample_runtime moya_vasya agent_named)))
        (u ''name'') = Inr (JStr vasya)"
proof -
  have "u ''name'' \<in> set (map fst [(u ''name'', JNull), (u ''nickname'', JNull), (u ''age'', JNull),
            (u ''location'', JNull), (u ''occupation'', JNull),
            (u ''interests'', JList []), (u ''goals'', JList []),
            (u ''preferences'', JObj [])])"
    by simp
  from extract_name_short [OF new_agent_memory new_agent_profile this short_moya_vasya]
  have 1: "fst (extract_name_directly sample_runtime moya_vasya new_agent) = Inr True
     \<and> profile_item (memory (snd (extract_name_directly sample_runtime moya_vasya new_agent)))
          (u ''name'') = Inr (JStr moya)"
    by (simp add: profile_item_written)
  have 2: "profile_item (memory agent_named) (u ''name'') = Inr (JStr petya)"
    by (simp add: profile_item_dict [OF memory_agent_named agent_named_profile])
  have "truthy (JStr petya)" by (simp add: petya_def)
  then have "short_message_name sample_runtime moya_vasya
     (JObj [(u ''name'', JStr petya), (u ''nickname'', JNull), (u ''age'', JNull),
            (u ''location'', JNull), (u ''occupation'', JNull),
            (u ''interests'', JList []), (u ''goals'', JList []),
            (u ''preferences'', JObj [])]) = Inr None"
    by (intro short_message_name_held) simp
  from extract_name_patterns [OF memory_agent_named agent_named_profile this]
  have run: "extract_name_directly sample_runtime moya_vasya agent_named
               = pattern_names sample_runtime moya_vasya agent_named" .
  have "vasya \<noteq> petya" "vasya \<noteq> []" by (simp_all add: vasya_def petya_def)
  with pattern_names_dict [OF memory_agent_named agent_named_profile, of sample_runtime moya_vasya]
  have 3: "fst (extract_name_directly sample_runtime moya_vasya agent_named) = Inr True
     \<and> profile_item (memory (snd (extract_name_directly sample_runtime moya_vasya agent_named)))
          (u ''name'') = Inr (JStr vasya)"
    by (simp add: run first_accepted_sample scan_moya_vasya found_new_def field_after_def
          split: prod.splits)
  from 1 2 3 show ?thesis by simp
qed

end
